theory Spec2Isabelle
  imports Main "HOL-Library.Sublist" "HOL-Library.Multiset"
begin

section \<open>Strings and arrays of the scripts\<close>

text \<open>
  A JavaScript string is modelled as a \<^typ>\<open>string\<close>: one \<^typ>\<open>char\<close> stands for one code
  unit, so \<^const>\<open>length\<close> is the script's \<open>.length\<close> on every text whose code units fit
  a \<^typ>\<open>char\<close>.
\<close>

definition startsWith :: "string \<Rightarrow> string \<Rightarrow> bool" where
  "startsWith s p = prefix p s"

definition endsWith :: "string \<Rightarrow> string \<Rightarrow> bool" where
  "endsWith s p = suffix p s"

text \<open>\<open>Array.prototype.join\<close>.\<close>

fun join :: "string \<Rightarrow> string list \<Rightarrow> string" where
  "join sep [] = []"
| "join sep [x] = x"
| "join sep (x # y # ys) = x @ sep @ join sep (y # ys)"

text \<open>
  \<open>Array.from(new Set(xs))\<close> and \<open>[...new Set(xs)]\<close>: a \<open>Set\<close> keeps the first occurrence of
  every element, in insertion order.
\<close>

definition setAdd :: "'a list \<Rightarrow> 'a \<Rightarrow> 'a list" where
  "setAdd acc x = (if x \<in> set acc then acc else acc @ [x])"

definition fromSet :: "'a list \<Rightarrow> 'a list" where
  "fromSet xs = foldl setAdd [] xs"

text \<open>\<open>s.replace(/\\/g, '/')\<close>: every backslash becomes a slash.\<close>

definition replaceBackslashes :: "string \<Rightarrow> string" where
  "replaceBackslashes s = map (\<lambda>c. if c = CHR 0x5C then CHR ''/'' else c) s"

text \<open>
  \<open>s.replace(/\.(tsx?|jsx?)$/, '')\<close>: the pattern is anchored at the end of the text, so
  it removes one trailing \<open>.ts\<close>, \<open>.tsx\<close>, \<open>.js\<close> or \<open>.jsx\<close>.
\<close>

definition stripSourceExtension :: "string \<Rightarrow> string" where
  "stripSourceExtension s =
     (if endsWith s ''.tsx'' \<or> endsWith s ''.jsx'' then take (length s - 4) s
      else if endsWith s ''.ts'' \<or> endsWith s ''.js'' then take (length s - 3) s
      else s)"

section \<open>The syntax tree\<close>

text \<open>
  The scripts read and edit a ts-morph syntax tree. The tree is modelled by the attributes
  the scripts query. Attributes that ts-morph obtains from the type checker (the rendered
  inferred types) and the outcome of an edit that ts-morph may reject (the \<open>Throws\<close> flags,
  true when the call raises) are recorded at the node they belong to. The types are those
  the checker answers for the module as it stands; the analyzer, whose edits change what it
  answers, has them computed anew after every edit. Line numbers are those
  of the node's own text; relocating other statements shifts a node's first and last line by
  the same amount.
\<close>

datatype declarationKind = DeclConst | DeclLet | DeclVar

record importDecl =
  moduleSpecifier :: string
  namedImports :: "string list"
  defaultImport :: "string option"

record parameter =
  paramName :: string
  paramTypeNode :: "string option"
  paramType :: string
  paramSetTypeThrows :: bool

record functionDecl =
  funcName :: "string option"
  funcStartLine :: int
  funcEndLine :: int
  funcText :: string
  funcParams :: "parameter list"
  funcReturnTypeNode :: "string option"
  funcReturnType :: string
  funcSetReturnTypeThrows :: bool

record typeDecl =
  typeName :: string
  typeStartLine :: int
  typeEndLine :: int
  typeText :: string
  typeIsExported :: bool
  typeSetIsExportedThrows :: bool

record 'b arrowFunction =
  arrowParams :: "parameter list"
  arrowReturnTypeNode :: "string option"
  arrowReturnType :: string
  arrowSetReturnTypeThrows :: bool
  arrowBody :: 'b

text \<open>
  An initializer: \<open>initArrow\<close> is \<open>Some\<close> exactly when its kind is \<open>ArrowFunction\<close>;
  \<open>initType\<close> is the text of its type; \<open>initLiteralValue\<close> is \<open>Some v\<close> exactly when that
  type is a string literal type, of value \<open>v\<close>.
\<close>

record 'b initializer =
  initArrow :: "'b arrowFunction option"
  initType :: string
  initLiteralValue :: "string option"

record 'b variableDecl =
  declName :: string
  declStartLine :: int
  declEndLine :: int
  declText :: string
  declTypeNode :: "string option"
  declSetTypeThrows :: bool
  declInitializer :: "'b initializer option"

datatype 'b statement =
    ImportDeclaration importDecl
  | FunctionDeclaration functionDecl
  | VariableStatement declarationKind "'b variableDecl list" string
  | InterfaceDeclaration typeDecl
  | TypeAliasDeclaration typeDecl
  | OtherStatement string

text \<open>
  The body of an arrow function at the top level of a module is a block of statements or
  an expression. The bodies of the functions inside such a block are not inspected by any
  script.
\<close>

datatype body = Block "unit statement list" | ConciseBody

type_synonym sourceStatement = "body statement"

text \<open>
  A node the scripts hold on to. A variable declaration is kept with the variable statement
  that owns it (\<open>getVariableStatement\<close>). Nodes are identified by their content, which for a
  parsed tree includes their position.
\<close>

datatype 'b node =
    FunctionNode functionDecl
  | VariableDeclarationNode "'b statement" "'b variableDecl"
  | InterfaceNode typeDecl
  | TypeAliasNode typeDecl

datatype error =
    ForgottenNode
  | WrongKind
  | SaveFailed string
  | ManipulationError

subsection \<open>Queries\<close>

definition getImportDeclarations :: "'b statement list \<Rightarrow> importDecl list" where
  "getImportDeclarations stmts = concat (map (\<lambda>s. case s of ImportDeclaration i \<Rightarrow> [i] | _ \<Rightarrow> []) stmts)"

definition getFunctions :: "'b statement list \<Rightarrow> functionDecl list" where
  "getFunctions stmts = concat (map (\<lambda>s. case s of FunctionDeclaration f \<Rightarrow> [f] | _ \<Rightarrow> []) stmts)"

definition getInterfaces :: "'b statement list \<Rightarrow> typeDecl list" where
  "getInterfaces stmts = concat (map (\<lambda>s. case s of InterfaceDeclaration t \<Rightarrow> [t] | _ \<Rightarrow> []) stmts)"

definition getTypeAliases :: "'b statement list \<Rightarrow> typeDecl list" where
  "getTypeAliases stmts = concat (map (\<lambda>s. case s of TypeAliasDeclaration t \<Rightarrow> [t] | _ \<Rightarrow> []) stmts)"

definition isVariableStatement :: "'b statement \<Rightarrow> bool" where
  "isVariableStatement s = (case s of VariableStatement k ds t \<Rightarrow> True | _ \<Rightarrow> False)"

definition getVariableStatements :: "'b statement list \<Rightarrow> 'b statement list" where
  "getVariableStatements stmts = filter isVariableStatement stmts"

definition getDeclarations :: "'b statement \<Rightarrow> 'b variableDecl list" where
  "getDeclarations s = (case s of VariableStatement k ds t \<Rightarrow> ds | _ \<Rightarrow> [])"

definition getVariableDeclarations :: "'b statement list \<Rightarrow> 'b variableDecl list" where
  "getVariableDeclarations stmts = concat (map getDeclarations (getVariableStatements stmts))"

definition getText :: "'b statement \<Rightarrow> string" where
  "getText s =
     (case s of
        VariableStatement k ds t \<Rightarrow> t
      | FunctionDeclaration f \<Rightarrow> funcText f
      | InterfaceDeclaration t \<Rightarrow> typeText t
      | TypeAliasDeclaration t \<Rightarrow> typeText t
      | OtherStatement t \<Rightarrow> t
      | ImportDeclaration i \<Rightarrow> [])"

definition nodeText :: "'b node \<Rightarrow> string" where
  "nodeText n =
     (case n of
        FunctionNode f \<Rightarrow> funcText f
      | VariableDeclarationNode s d \<Rightarrow> declText d
      | InterfaceNode t \<Rightarrow> typeText t
      | TypeAliasNode t \<Rightarrow> typeText t)"

text \<open>\<open>getImportDeclaration(moduleSpecifier)\<close>: the first import of that module specifier.\<close>

definition getImportDeclaration :: "string \<Rightarrow> 'b statement list \<Rightarrow> importDecl option" where
  "getImportDeclaration spec stmts =
     find (\<lambda>i. moduleSpecifier i = spec) (getImportDeclarations stmts)"

subsection \<open>Edits\<close>

text \<open>
  \<open>node.remove()\<close> on a statement. A node that has been removed is forgotten by ts-morph, and
  any later use of it raises.
\<close>

definition removeStatement :: "'b statement \<Rightarrow> 'b statement list \<Rightarrow> error + 'b statement list" where
  "removeStatement s stmts = (if s \<in> set stmts then Inr (remove1 s stmts) else Inl ForgottenNode)"

definition isImportDeclaration :: "'b statement \<Rightarrow> bool" where
  "isImportDeclaration s = (case s of ImportDeclaration i \<Rightarrow> True | _ \<Rightarrow> False)"

text \<open>
  \<open>addImportDeclaration\<close>: ts-morph places the new import after the last import declaration
  of the module, or first when there is none.
\<close>

definition importInsertIndex :: "'b statement list \<Rightarrow> nat" where
  "importInsertIndex stmts =
     length stmts - length (takeWhile (\<lambda>s. \<not> isImportDeclaration s) (rev stmts))"

definition addImportDeclaration :: "string \<Rightarrow> string list \<Rightarrow> 'b statement list \<Rightarrow> 'b statement list" where
  "addImportDeclaration spec names stmts =
     (let i = importInsertIndex stmts
      in take i stmts
         @ [ImportDeclaration \<lparr>moduleSpecifier = spec, namedImports = names, defaultImport = None\<rparr>]
         @ drop i stmts)"

section \<open>Module specifiers and import bindings\<close>

text \<open>
  What the scripts need from their surroundings: \<open>relativePath a b\<close> is
  \<open>path.relative(path.dirname(a), b)\<close>; \<open>parseSource\<close> is the TypeScript parser, used where a
  script reads the declarations of a file it knows as text; \<open>saveFails p\<close> holds when
  \<open>saveSync\<close> of the file at \<open>p\<close> raises; \<open>inProject p\<close> holds when the project built from
  \<open>tsconfig.json\<close> registers the file at \<open>p\<close>.
\<close>

record 'b env =
  relativePath :: "string \<Rightarrow> string \<Rightarrow> string"
  parseSource :: "string \<Rightarrow> 'b statement list"
  saveFails :: "string \<Rightarrow> bool"
  inProject :: "string \<Rightarrow> bool"

definition toModuleSpecifier :: "('b, 'e) env_scheme \<Rightarrow> string \<Rightarrow> string \<Rightarrow> string" where
  "toModuleSpecifier env fromFile toFile =
     (let relPath = stripSourceExtension (replaceBackslashes (relativePath env fromFile toFile))
      in if startsWith relPath ''.'' then relPath else ''./'' @ relPath)"

text \<open>\<open>TSXRefactorer.addOrUpdateNamedImport\<close> (refactor-tsx.ts).\<close>

definition addOrUpdateNamedImport :: "string \<Rightarrow> string list \<Rightarrow> 'b statement list \<Rightarrow> 'b statement list" where
  "addOrUpdateNamedImport spec names stmts =
     (case getImportDeclaration spec stmts of
        Some existingImport \<Rightarrow>
          (let existingNames = namedImports existingImport;
               mergedNames = fromSet (existingNames @ names)
           in addImportDeclaration spec mergedNames
                (remove1 (ImportDeclaration existingImport) stmts))
      | None \<Rightarrow> addImportDeclaration spec names stmts)"

text \<open>The import step at the end of \<open>TSXRefactorer2.extractHelperFunctions\<close> (refactor-tsx-pass2.ts).\<close>

definition addHelperImport :: "string \<Rightarrow> string list \<Rightarrow> 'b statement list \<Rightarrow> 'b statement list" where
  "addHelperImport spec functionNames stmts =
     (case getImportDeclaration spec stmts of
        Some existingImport \<Rightarrow>
          (let namedImps = namedImports existingImport;
               newImports = fromSet (namedImps @ functionNames)
           in addImportDeclaration spec newImports
                (remove1 (ImportDeclaration existingImport) stmts))
      | None \<Rightarrow> addImportDeclaration spec functionNames stmts)"

text \<open>The import declarations of a module for one module specifier.\<close>

definition importsOf :: "string \<Rightarrow> 'b statement list \<Rightarrow> importDecl list" where
  "importsOf spec stmts = filter (\<lambda>i. moduleSpecifier i = spec) (getImportDeclarations stmts)"

section \<open>The top-level pass (refactor-tsx.ts)\<close>

datatype candidateType = CandFunction | CandComponent | CandInterface | CandType | CandVariable

record 'b extractionCandidate =
  candName :: string
  candNode :: "'b node"
  candLineCount :: int
  candType :: candidateType

record filePaths =
  targetFile :: string
  typesFile :: string
  utilsFile :: string

record refactorOptions = filePaths +
  minFunctionLines :: int
  minVariableLines :: int
  utilNamePattern :: "string \<Rightarrow> bool"

text \<open>
  What is persisted: the origin module, and the other files by path. The origin module is
  kept as its tree and the other files as their text; their paths are taken to differ from
  the origin's.
\<close>

record 'b disk =
  diskSource :: "'b statement list"
  diskFiles :: "string \<rightharpoonup> string"

text \<open>
  A running script: the tree of the origin module, the text of the other source files the
  project holds, and the disk.
\<close>

record 'b refactorer =
  sourceFile :: "'b statement list"
  projectFiles :: "string \<rightharpoonup> string"
  disk :: "'b disk"

text \<open>A script that raises leaves behind what it had persisted until then.\<close>

type_synonym 'b outcome = "(error \<times> 'b disk) + 'b refactorer"

definition newRefactorer :: "('b, 'e) env_scheme \<Rightarrow> 'b disk \<Rightarrow> 'b refactorer" where
  "newRefactorer env d =
     \<lparr>sourceFile = diskSource d,
      projectFiles = (\<lambda>p. if inProject env p then diskFiles d p else None),
      disk = d\<rparr>"

definition newline :: string where
  "newline = [CHR 0x0A]"

definition getStartLineNumber :: "'b node \<Rightarrow> int" where
  "getStartLineNumber n =
     (case n of
        FunctionNode f \<Rightarrow> funcStartLine f
      | VariableDeclarationNode s d \<Rightarrow> declStartLine d
      | InterfaceNode t \<Rightarrow> typeStartLine t
      | TypeAliasNode t \<Rightarrow> typeStartLine t)"

definition getEndLineNumber :: "'b node \<Rightarrow> int" where
  "getEndLineNumber n =
     (case n of
        FunctionNode f \<Rightarrow> funcEndLine f
      | VariableDeclarationNode s d \<Rightarrow> declEndLine d
      | InterfaceNode t \<Rightarrow> typeEndLine t
      | TypeAliasNode t \<Rightarrow> typeEndLine t)"

definition getNodeLineCount :: "'b node \<Rightarrow> int" where
  "getNodeLineCount n = getEndLineNumber n - getStartLineNumber n + 1"

subsection \<open>\<open>analyzeFile\<close>\<close>

definition functionCandidates :: "('e) refactorOptions_scheme \<Rightarrow> functionDecl \<Rightarrow> 'b extractionCandidate list" where
  "functionCandidates opts func =
     (let lineCount = getNodeLineCount (FunctionNode func :: 'b node)
      in if lineCount > minFunctionLines opts
         then [\<lparr>candName = (case funcName func of
                               None \<Rightarrow> ''anonymous''
                             | Some n \<Rightarrow> if n = [] then ''anonymous'' else n),
                 candNode = FunctionNode func,
                 candLineCount = lineCount,
                 candType = CandFunction\<rparr>]
         else [])"

definition variableCandidates :: "('e) refactorOptions_scheme \<Rightarrow> 'b statement \<Rightarrow> 'b extractionCandidate list" where
  "variableCandidates opts stmt =
     concat (map (\<lambda>decl.
        let lineCount = getNodeLineCount (VariableDeclarationNode stmt decl);
            name = declName decl
        in if lineCount > minVariableLines opts
           then [\<lparr>candName = name,
                   candNode = VariableDeclarationNode stmt decl,
                   candLineCount = lineCount,
                   candType = CandVariable\<rparr>]
           else []) (getDeclarations stmt))"

definition interfaceCandidate :: "typeDecl \<Rightarrow> 'b extractionCandidate" where
  "interfaceCandidate iface =
     \<lparr>candName = typeName iface,
      candNode = InterfaceNode iface,
      candLineCount = getNodeLineCount (InterfaceNode iface :: 'b node),
      candType = CandInterface\<rparr>"

definition typeAliasCandidate :: "typeDecl \<Rightarrow> 'b extractionCandidate" where
  "typeAliasCandidate typeAlias =
     \<lparr>candName = typeName typeAlias,
      candNode = TypeAliasNode typeAlias,
      candLineCount = getNodeLineCount (TypeAliasNode typeAlias :: 'b node),
      candType = CandType\<rparr>"

definition analyzeFile :: "('e) refactorOptions_scheme \<Rightarrow> 'b statement list \<Rightarrow> 'b extractionCandidate list" where
  "analyzeFile opts stmts =
     concat (map (functionCandidates opts) (getFunctions stmts))
     @ concat (map (variableCandidates opts) (getVariableStatements stmts))
     @ map interfaceCandidate (getInterfaces stmts)
     @ map typeAliasCandidate (getTypeAliases stmts)"

subsection \<open>\<open>extractTypes\<close>\<close>

text \<open>A node is forgotten once the statement that holds it has been removed from the tree.\<close>

definition nodeStatement :: "'b node \<Rightarrow> 'b statement" where
  "nodeStatement n =
     (case n of
        FunctionNode f \<Rightarrow> FunctionDeclaration f
      | VariableDeclarationNode s d \<Rightarrow> s
      | InterfaceNode t \<Rightarrow> InterfaceDeclaration t
      | TypeAliasNode t \<Rightarrow> TypeAliasDeclaration t)"

definition isForgotten :: "'b node \<Rightarrow> 'b statement list \<Rightarrow> bool" where
  "isForgotten n stmts = (nodeStatement n \<notin> set stmts)"

definition isTypeNode :: "'b node \<Rightarrow> bool" where
  "isTypeNode n = (case n of InterfaceNode t \<Rightarrow> True | TypeAliasNode t \<Rightarrow> True | _ \<Rightarrow> False)"

text \<open>The loop that removes the type candidates from the origin module.\<close>

fun removeTypeNodes :: "'b extractionCandidate list \<Rightarrow> 'b statement list \<Rightarrow> error + 'b statement list" where
  "removeTypeNodes [] stmts = Inr stmts"
| "removeTypeNodes (candidate # rest) stmts =
     (if isForgotten (candNode candidate) stmts then Inl ForgottenNode
      else if isTypeNode (candNode candidate)
      then removeTypeNodes rest (remove1 (nodeStatement (candNode candidate)) stmts)
      else removeTypeNodes rest stmts)"

definition typesHeader :: "string list" where
  "typesHeader =
     [''/**'',
      '' * Extracted types and interfaces'',
      '' * Auto-generated by ts-morph refactoring script'',
      '' */'',
      []]"

text \<open>\<open>text.startsWith('export ') ? text : `export ${text}`\<close>\<close>

definition exportedTypeText :: "string \<Rightarrow> string" where
  "exportedTypeText text = (if startsWith text ''export '' then text else ''export '' @ text)"

definition typeCandidatesOf :: "'b extractionCandidate list \<Rightarrow> 'b extractionCandidate list" where
  "typeCandidatesOf candidates =
     filter (\<lambda>c. candType c = CandInterface \<or> candType c = CandType) candidates"

definition typesContentOf :: "'b extractionCandidate list \<Rightarrow> string" where
  "typesContentOf typeCandidates =
     join newline (typesHeader @ map (\<lambda>candidate. exportedTypeText (nodeText (candNode candidate))) typeCandidates)"

definition saveSync :: "('b, 'e) env_scheme \<Rightarrow> string \<Rightarrow> string \<Rightarrow> 'b refactorer \<Rightarrow> 'b outcome" where
  "saveSync env path content r =
     (if saveFails env path then Inl (SaveFailed path, disk r)
      else Inr (r\<lparr>disk := (disk r)\<lparr>diskFiles := (diskFiles (disk r))(path \<mapsto> content)\<rparr>\<rparr>))"

definition extractTypes ::
  "('b, 'e) env_scheme \<Rightarrow> ('f) refactorOptions_scheme \<Rightarrow> 'b extractionCandidate list \<Rightarrow> 'b refactorer \<Rightarrow> 'b outcome" where
  "extractTypes env opts candidates r =
     (let typeCandidates = typeCandidatesOf candidates
      in if length typeCandidates = 0 then Inr r
         else
           let typesFilePath = typesFile opts;
               typesContent = typesContentOf typeCandidates;
               r1 = r\<lparr>projectFiles := (projectFiles r)(typesFilePath \<mapsto> typesContent)\<rparr>
           in case removeTypeNodes typeCandidates (sourceFile r1) of
                Inl e \<Rightarrow> Inl (e, disk r1)
              | Inr stmts \<Rightarrow>
                  let typeNames = map candName typeCandidates;
                      stmts' = (if length typeNames > 0
                                then addOrUpdateNamedImport
                                       (toModuleSpecifier env (targetFile opts) typesFilePath) typeNames stmts
                                else stmts)
                  in saveSync env typesFilePath typesContent (r1\<lparr>sourceFile := stmts'\<rparr>))"

subsection \<open>\<open>extractUtilities\<close>\<close>

text \<open>\<open>text.replace(/^(const|let|var)/, 'export const')\<close>\<close>

definition exportConst :: "string \<Rightarrow> string" where
  "exportConst text =
     (if startsWith text ''const'' then ''export const'' @ drop 5 text
      else if startsWith text ''let'' then ''export const'' @ drop 3 text
      else if startsWith text ''var'' then ''export const'' @ drop 3 text
      else text)"

text \<open>
  The loop over the utility candidates: the tree, \<open>extractedNames\<close> and \<open>utilStatements\<close>.
  \<open>asKindOrThrow\<close> raises on a node of another kind, and on a forgotten node.
\<close>

fun extractUtilStatements ::
  "'b extractionCandidate list \<Rightarrow> 'b statement list \<times> string list \<times> string list
     \<Rightarrow> error + ('b statement list \<times> string list \<times> string list)" where
  "extractUtilStatements [] acc = Inr acc"
| "extractUtilStatements (candidate # rest) (stmts, extractedNames, utilStatements) =
     (if isForgotten (candNode candidate) stmts then Inl ForgottenNode
      else case candNode candidate of
             VariableDeclarationNode varStatement varDecl \<Rightarrow>
               (let text = getText varStatement;
                    exportedText = exportConst text
                in extractUtilStatements rest
                     (remove1 varStatement stmts,
                      extractedNames @ [candName candidate],
                      utilStatements @ [exportedText]))
           | _ \<Rightarrow> Inl WrongKind)"

definition getExportedTypeNames :: "('b, 'e) env_scheme \<Rightarrow> ('f) filePaths_scheme \<Rightarrow> 'b refactorer \<Rightarrow> string list" where
  "getExportedTypeNames env opts r =
     (case projectFiles r (typesFile opts) of
        None \<Rightarrow> []
      | Some text \<Rightarrow>
          (let typesTree = parseSource env text;
               interfaces = getInterfaces typesTree;
               typeAliases = getTypeAliases typesTree
           in map typeName (filter typeIsExported (interfaces @ typeAliases))))"

definition typeImportLine :: "string list \<Rightarrow> string \<Rightarrow> string" where
  "typeImportLine typeNames spec =
     ''import type { '' @ join '', '' typeNames @ '' } from '' @ [CHR 0x27] @ spec @ [CHR 0x27] @ '';''"

definition utilsHeader :: "string list" where
  "utilsHeader =
     [''/**'',
      '' * Extracted utility functions'',
      '' * Auto-generated by ts-morph refactoring script'',
      '' */'',
      []]"

definition utilCandidatesOf :: "('e) refactorOptions_scheme \<Rightarrow> 'b extractionCandidate list \<Rightarrow> 'b extractionCandidate list" where
  "utilCandidatesOf opts candidates =
     filter (\<lambda>c. candType c = CandVariable \<and> utilNamePattern opts (candName c)) candidates"

definition utilsContentOf :: "string list \<Rightarrow> string \<Rightarrow> string list \<Rightarrow> string" where
  "utilsContentOf typeNames typesSpec utilStatements =
     (let typeImport = (if length typeNames > 0 then Some (typeImportLine typeNames typesSpec) else None)
      in join newline
           (utilsHeader
            @ (case typeImport of Some line \<Rightarrow> [line, []] | None \<Rightarrow> [])
            @ utilStatements))"

definition extractUtilities ::
  "('b, 'e) env_scheme \<Rightarrow> ('f) refactorOptions_scheme \<Rightarrow> 'b extractionCandidate list \<Rightarrow> 'b refactorer \<Rightarrow> 'b outcome" where
  "extractUtilities env opts candidates r =
     (let utilCandidates = utilCandidatesOf opts candidates
      in if length utilCandidates = 0 then Inr r
         else
           let utilsFilePath = utilsFile opts;
               r1 = r\<lparr>projectFiles := (projectFiles r)(utilsFilePath \<mapsto> [])\<rparr>
           in case extractUtilStatements utilCandidates (sourceFile r1, [], []) of
                Inl e \<Rightarrow> Inl (e, disk r1)
              | Inr (stmts, extractedNames, utilStatements) \<Rightarrow>
                  let typeNames = getExportedTypeNames env opts r1;
                      utilsContent = utilsContentOf typeNames
                                       (toModuleSpecifier env utilsFilePath (typesFile opts)) utilStatements;
                      r2 = r1\<lparr>projectFiles := (projectFiles r1)(utilsFilePath \<mapsto> utilsContent)\<rparr>;
                      stmts' = (if length extractedNames > 0
                                then addOrUpdateNamedImport
                                       (toModuleSpecifier env (targetFile opts) utilsFilePath) extractedNames stmts
                                else stmts)
                  in saveSync env utilsFilePath utilsContent (r2\<lparr>sourceFile := stmts'\<rparr>))"

subsection \<open>\<open>save\<close> and \<open>main\<close>\<close>

definition save :: "('b, 'e) env_scheme \<Rightarrow> ('f) filePaths_scheme \<Rightarrow> 'b refactorer \<Rightarrow> (error \<times> 'b disk) + 'b disk" where
  "save env opts r =
     (if saveFails env (targetFile opts) then Inl (SaveFailed (targetFile opts), disk r)
      else Inr ((disk r)\<lparr>diskSource := sourceFile r\<rparr>))"

text \<open>
  \<open>main\<close>, without the report: analyse, extract the types, extract the utilities, save the
  origin module. The script ends at the first call that raises.
\<close>

definition main :: "('b, 'e) env_scheme \<Rightarrow> ('f) refactorOptions_scheme \<Rightarrow> 'b disk \<Rightarrow> (error \<times> 'b disk) + 'b disk" where
  "main env opts d =
     (let refactorer = newRefactorer env d;
          candidates = analyzeFile opts (sourceFile refactorer)
      in case extractTypes env opts candidates refactorer of
           Inl failure \<Rightarrow> Inl failure
         | Inr r1 \<Rightarrow>
             (case extractUtilities env opts candidates r1 of
                Inl failure \<Rightarrow> Inl failure
              | Inr r2 \<Rightarrow> save env opts r2))"

section \<open>The nested pass (refactor-tsx-pass2.ts)\<close>

record pass2Options = filePaths +
  helperNamePattern :: "string \<Rightarrow> bool"

text \<open>\<open>initializer?.isKind(SyntaxKind.ArrowFunction)\<close>\<close>

definition isArrowInitialized :: "'b variableDecl \<Rightarrow> bool" where
  "isArrowInitialized decl =
     (case declInitializer decl of
        None \<Rightarrow> False
      | Some initializer \<Rightarrow> initArrow initializer \<noteq> None)"

text \<open>The main component: the first variable declaration that an arrow function initializes.\<close>

definition findComponent :: "'b statement list \<Rightarrow> 'b variableDecl option" where
  "findComponent stmts = find isArrowInitialized (getVariableDeclarations stmts)"

text \<open>The statements of the component's body, when the body is a block.\<close>

definition componentBlock :: "body variableDecl \<Rightarrow> unit statement list option" where
  "componentBlock componentDecl =
     (case declInitializer componentDecl of
        None \<Rightarrow> None
      | Some initializer \<Rightarrow>
          (case initArrow initializer of
             None \<Rightarrow> None
           | Some arrowFunc \<Rightarrow>
               (case arrowBody arrowFunc of
                  Block statements \<Rightarrow> Some statements
                | ConciseBody \<Rightarrow> None)))"

definition helpersOfStatement :: "(string \<Rightarrow> bool) \<Rightarrow> 'b statement \<Rightarrow> (string \<times> string) list" where
  "helpersOfStatement pattern stmt =
     (if isVariableStatement stmt
      then concat (map (\<lambda>decl.
             let name = declName decl
             in if isArrowInitialized decl
                then (let text = getText stmt
                      in if pattern name then [(name, text)] else [])
                else []) (getDeclarations stmt))
      else [])"

definition findHelperFunctions :: "(string \<Rightarrow> bool) \<Rightarrow> 'b statement list \<Rightarrow> (string \<times> string) list" where
  "findHelperFunctions pattern statements = concat (map (helpersOfStatement pattern) statements)"

text \<open>The class \<open>\s\<close> of a regular expression, on the code units a \<^typ>\<open>char\<close> covers.\<close>

definition isWhiteSpace :: "char \<Rightarrow> bool" where
  "isWhiteSpace c =
     (c = CHR 0x09 \<or> c = CHR 0x0A \<or> c = CHR 0x0B \<or> c = CHR 0x0C \<or> c = CHR 0x0D
      \<or> c = CHR 0x20 \<or> c = CHR 0xA0)"

text \<open>\<open>text.replace(/^(\s*)(const|let|var)/, '$1export const')\<close>\<close>

definition exportHelper :: "string \<Rightarrow> string" where
  "exportHelper text =
     (let indent = takeWhile isWhiteSpace text;
          rest = dropWhile isWhiteSpace text
      in if startsWith rest ''const'' then indent @ ''export const'' @ drop 5 rest
         else if startsWith rest ''let'' then indent @ ''export const'' @ drop 3 rest
         else if startsWith rest ''var'' then indent @ ''export const'' @ drop 3 rest
         else text)"

text \<open>
  \<open>project.getSourceFile(path)\<close> answers \<open>undefined\<close> for a path the project does not hold: it
  does not raise.
\<close>

definition getSourceFile :: "'b refactorer \<Rightarrow> string \<Rightarrow> error + string option" where
  "getSourceFile r path = Inr (projectFiles r path)"

definition getTypeImportStatement ::
  "('b, 'e) env_scheme \<Rightarrow> ('f) filePaths_scheme \<Rightarrow> 'b refactorer \<Rightarrow> string \<Rightarrow> string option" where
  "getTypeImportStatement env opts r utilsFilePath =
     (if typesFile opts = [] then None
      else
        let typeNames = (if typesFile opts = [] then [] else getExportedTypeNames env opts r)
        in if length typeNames = 0 then None
           else Some (typeImportLine typeNames (toModuleSpecifier env utilsFilePath (typesFile opts))))"

text \<open>\<open>xs.filter(Boolean)\<close> on an array of texts and \<open>null\<close>: \<open>null\<close> and the empty text go.\<close>

definition filterBoolean :: "string option list \<Rightarrow> string list" where
  "filterBoolean xs = concat (map (\<lambda>x. case x of None \<Rightarrow> [] | Some s \<Rightarrow> if s = [] then [] else [s]) xs)"

text \<open>The text the new helpers are appended to: the \<open>try\<close> block and its \<open>catch\<close>.\<close>

definition existingUtilsContent ::
  "('b, 'e) env_scheme \<Rightarrow> ('f) filePaths_scheme \<Rightarrow> 'b refactorer \<Rightarrow> string \<Rightarrow> string" where
  "existingUtilsContent env opts r utilsFilePath =
     (case getSourceFile r utilsFilePath of
        Inr existingUtils \<Rightarrow> (case existingUtils of Some fullText \<Rightarrow> fullText | None \<Rightarrow> [])
      | Inl e \<Rightarrow>
          join newline (filterBoolean
            [Some ''/**'',
             Some '' * Extracted utility functions'',
             Some '' * Auto-generated by ts-morph refactoring script'',
             Some '' */'',
             Some [],
             getTypeImportStatement env opts r utilsFilePath,
             Some []]))"

definition helperUtilsContent :: "string \<Rightarrow> (string \<times> string) list \<Rightarrow> string" where
  "helperUtilsContent existing helperFunctions =
     (let exportedFunctions = map (\<lambda>func. exportHelper (snd func)) helperFunctions
      in existing @ newline @ join (newline @ newline) exportedFunctions)"

text \<open>
  The loop that removes the helpers from the body. The declarations of a statement are
  fetched before the loop over them; once the statement is removed they are forgotten, and
  asking the next one for its name raises.
\<close>

fun removeHelperDeclarations :: "string list \<Rightarrow> 'b variableDecl list \<Rightarrow> bool \<Rightarrow> error + bool" where
  "removeHelperDeclarations functionNames [] removed = Inr removed"
| "removeHelperDeclarations functionNames (decl # rest) removed =
     (if removed then Inl ForgottenNode
      else removeHelperDeclarations functionNames rest (declName decl \<in> set functionNames))"

fun removeHelperStatements :: "string list \<Rightarrow> 'b statement list \<Rightarrow> error + 'b statement list" where
  "removeHelperStatements functionNames [] = Inr []"
| "removeHelperStatements functionNames (stmt # rest) =
     (if isVariableStatement stmt
      then (case removeHelperDeclarations functionNames (getDeclarations stmt) False of
              Inl e \<Rightarrow> Inl e
            | Inr removed \<Rightarrow>
                (case removeHelperStatements functionNames rest of
                   Inl e \<Rightarrow> Inl e
                 | Inr kept \<Rightarrow> Inr (if removed then kept else stmt # kept)))
      else (case removeHelperStatements functionNames rest of
              Inl e \<Rightarrow> Inl e
            | Inr kept \<Rightarrow> Inr (stmt # kept)))"

text \<open>
  The tree after the body of the component has been edited. The text and the line numbers
  recorded at the enclosing declaration are left as they were.
\<close>

definition withBlock :: "unit statement list \<Rightarrow> body variableDecl \<Rightarrow> body variableDecl" where
  "withBlock statements decl =
     decl\<lparr>declInitializer :=
       map_option (\<lambda>initializer.
         initializer\<lparr>initArrow :=
           map_option (\<lambda>arrowFunc. arrowFunc\<lparr>arrowBody := Block statements\<rparr>) (initArrow initializer)\<rparr>)
         (declInitializer decl)\<rparr>"

fun replaceComponentDecl :: "unit statement list \<Rightarrow> body variableDecl list \<Rightarrow> body variableDecl list option" where
  "replaceComponentDecl statements [] = None"
| "replaceComponentDecl statements (decl # rest) =
     (if isArrowInitialized decl then Some (withBlock statements decl # rest)
      else map_option (\<lambda>rest'. decl # rest') (replaceComponentDecl statements rest))"

fun replaceComponent :: "unit statement list \<Rightarrow> sourceStatement list \<Rightarrow> sourceStatement list" where
  "replaceComponent statements [] = []"
| "replaceComponent statements (stmt # rest) =
     (case stmt of
        VariableStatement kind decls text \<Rightarrow>
          (case replaceComponentDecl statements decls of
             Some decls' \<Rightarrow> VariableStatement kind decls' text # rest
           | None \<Rightarrow> stmt # replaceComponent statements rest)
      | _ \<Rightarrow> stmt # replaceComponent statements rest)"

text \<open>\<open>this.sourceFile.saveSync()\<close>\<close>

definition saveSourceFile :: "('b, 'e) env_scheme \<Rightarrow> ('f) filePaths_scheme \<Rightarrow> 'b refactorer \<Rightarrow> 'b outcome" where
  "saveSourceFile env opts r =
     (if saveFails env (targetFile opts) then Inl (SaveFailed (targetFile opts), disk r)
      else Inr (r\<lparr>disk := (disk r)\<lparr>diskSource := sourceFile r\<rparr>\<rparr>))"

definition extractHelperFunctions ::
  "(body, 'e) env_scheme \<Rightarrow> ('f) pass2Options_scheme \<Rightarrow> body refactorer \<Rightarrow> body outcome" where
  "extractHelperFunctions env opts r =
     (let utilsFilePath = utilsFile opts
      in case findComponent (sourceFile r) of
           None \<Rightarrow> Inr r
         | Some componentDecl \<Rightarrow>
             (case componentBlock componentDecl of
                None \<Rightarrow> Inr r
              | Some statements \<Rightarrow>
                  (let helperFunctions = findHelperFunctions (helperNamePattern opts) statements
                   in if length helperFunctions = 0 then Inr r
                      else
                        let utilsContent =
                              helperUtilsContent (existingUtilsContent env opts r utilsFilePath) helperFunctions;
                            r1 = r\<lparr>projectFiles := (projectFiles r)(utilsFilePath \<mapsto> utilsContent)\<rparr>
                        in case saveSync env utilsFilePath utilsContent r1 of
                             Inl failure \<Rightarrow> Inl failure
                           | Inr r2 \<Rightarrow>
                               (let functionNames = map fst helperFunctions
                                in case removeHelperStatements functionNames statements of
                                     Inl e \<Rightarrow> Inl (e, disk r2)
                                   | Inr kept \<Rightarrow>
                                       (let stmts = replaceComponent kept (sourceFile r2);
                                            spec = toModuleSpecifier env (targetFile opts) utilsFilePath;
                                            stmts' = addHelperImport spec functionNames stmts
                                        in saveSourceFile env opts (r2\<lparr>sourceFile := stmts'\<rparr>))))))"

text \<open>\<open>main\<close> of the nested pass: extract the helpers, then save the origin module once more.\<close>

definition main2 :: "(body, 'e) env_scheme \<Rightarrow> ('f) pass2Options_scheme \<Rightarrow> body disk \<Rightarrow> (error \<times> body disk) + body disk" where
  "main2 env opts d =
     (case extractHelperFunctions env opts (newRefactorer env d) of
        Inl failure \<Rightarrow> Inl failure
      | Inr r \<Rightarrow> save env opts r)"

section \<open>Type reconciliation (analyze-types.ts)\<close>

text \<open>
  Every pass of the analyzer walks the declarations of a module, edits some of them and
  counts the edits. An edit is wrapped in \<open>try\<close>/\<open>catch\<close> where the script does so: the
  declaration is then left as it was and not counted.

  ts-morph computes types on demand, from the project as it is when they are asked for, so
  a type asked for after an edit reflects that edit. A pass takes its nodes once, before the
  loop, and asks each node for its annotation and its type when the loop reaches it. Here a
  pass takes the positions of those nodes and reads the node at each position from the
  module as it then is. After every edit the module goes through \<open>check\<close>, the type checker
  run anew: it answers the same module with the attributes that come from the checker
  (\<open>paramType\<close>, \<open>funcReturnType\<close>, \<open>arrowReturnType\<close>, \<open>initType\<close>, \<open>initLiteralValue\<close>) as
  they follow from the declarations and annotations the module now has. The checker takes
  no node away; were a position to hold no node any more, the loop would pass it over.
\<close>

type_synonym 'b typeChecker = "'b statement list \<Rightarrow> 'b statement list"

subsection \<open>The nodes of a module, by position\<close>

text \<open>
  \<open>getVariableDeclarations\<close>: the declarations of every variable statement, statement by
  statement. A position is the index of the statement and the index of the declaration in
  it.
\<close>

definition declarationPositions :: "'b statement list \<Rightarrow> (nat \<times> nat) list" where
  "declarationPositions stmts =
     concat (map (\<lambda>i. map (\<lambda>j. (i, j)) [0..<length (getDeclarations (stmts ! i))]) [0..<length stmts])"

definition declarationAt :: "nat \<times> nat \<Rightarrow> 'b statement list \<Rightarrow> (declarationKind \<times> 'b variableDecl) option" where
  "declarationAt pos stmts =
     (let (i, j) = pos
      in if i < length stmts
         then (case stmts ! i of
                 VariableStatement kind decls text \<Rightarrow>
                   (if j < length decls then Some (kind, decls ! j) else None)
               | _ \<Rightarrow> None)
         else None)"

definition setDeclarationAt :: "nat \<times> nat \<Rightarrow> 'b variableDecl \<Rightarrow> 'b statement list \<Rightarrow> 'b statement list" where
  "setDeclarationAt pos decl stmts =
     (let (i, j) = pos
      in if i < length stmts
         then (case stmts ! i of
                 VariableStatement kind decls text \<Rightarrow>
                   stmts[i := VariableStatement kind (decls[j := decl]) text]
               | _ \<Rightarrow> stmts)
         else stmts)"

text \<open>\<open>getFunctions\<close>: the function declarations, by the index of their statement.\<close>

definition functionPositions :: "'b statement list \<Rightarrow> nat list" where
  "functionPositions stmts =
     filter (\<lambda>i. case stmts ! i of FunctionDeclaration func \<Rightarrow> True | _ \<Rightarrow> False) [0..<length stmts]"

definition functionAt :: "nat \<Rightarrow> 'b statement list \<Rightarrow> functionDecl option" where
  "functionAt i stmts =
     (if i < length stmts
      then (case stmts ! i of FunctionDeclaration func \<Rightarrow> Some func | _ \<Rightarrow> None)
      else None)"

definition setFunctionAt :: "nat \<Rightarrow> functionDecl \<Rightarrow> 'b statement list \<Rightarrow> 'b statement list" where
  "setFunctionAt i func stmts =
     (if i < length stmts
      then (case stmts ! i of FunctionDeclaration old \<Rightarrow> stmts[i := FunctionDeclaration func] | _ \<Rightarrow> stmts)
      else stmts)"

text \<open>The arrow function that initializes the declaration at a position, if one does.\<close>

definition arrowAt :: "nat \<times> nat \<Rightarrow> 'b statement list \<Rightarrow> 'b arrowFunction option" where
  "arrowAt pos stmts =
     (case declarationAt pos stmts of
        None \<Rightarrow> None
      | Some (kind, decl) \<Rightarrow>
          (case declInitializer decl of
             None \<Rightarrow> None
           | Some initializer \<Rightarrow> initArrow initializer))"

definition arrowPositions :: "'b statement list \<Rightarrow> (nat \<times> nat) list" where
  "arrowPositions stmts = filter (\<lambda>pos. arrowAt pos stmts \<noteq> None) (declarationPositions stmts)"

definition withArrow :: "('b arrowFunction \<Rightarrow> 'b arrowFunction) \<Rightarrow> 'b variableDecl \<Rightarrow> 'b variableDecl" where
  "withArrow f decl =
     decl\<lparr>declInitializer :=
            map_option (\<lambda>initializer. initializer\<lparr>initArrow := map_option f (initArrow initializer)\<rparr>)
              (declInitializer decl)\<rparr>"

subsection \<open>The loops\<close>

text \<open>
  A loop over variable declarations, and one over function declarations. \<open>edit\<close> is the
  body of the loop on one node: it answers how many edits it made, none or one, and the node
  after them.
\<close>

fun forEachDeclaration ::
  "'b typeChecker \<Rightarrow> (declarationKind \<Rightarrow> 'b variableDecl \<Rightarrow> nat \<times> 'b variableDecl)
     \<Rightarrow> (nat \<times> nat) list \<Rightarrow> nat \<times> 'b statement list \<Rightarrow> nat \<times> 'b statement list" where
  "forEachDeclaration check edit [] state = state"
| "forEachDeclaration check edit (pos # rest) (fixCount, stmts) =
     (case declarationAt pos stmts of
        None \<Rightarrow> forEachDeclaration check edit rest (fixCount, stmts)
      | Some (kind, decl) \<Rightarrow>
          (let (n, decl') = edit kind decl
           in forEachDeclaration check edit rest
                (if n = 0 then (fixCount, stmts)
                 else (fixCount + n, check (setDeclarationAt pos decl' stmts)))))"

fun forEachFunction ::
  "'b typeChecker \<Rightarrow> (functionDecl \<Rightarrow> nat \<times> functionDecl)
     \<Rightarrow> nat list \<Rightarrow> nat \<times> 'b statement list \<Rightarrow> nat \<times> 'b statement list" where
  "forEachFunction check edit [] state = state"
| "forEachFunction check edit (i # rest) (fixCount, stmts) =
     (case functionAt i stmts of
        None \<Rightarrow> forEachFunction check edit rest (fixCount, stmts)
      | Some func \<Rightarrow>
          (let (n, func') = edit func
           in forEachFunction check edit rest
                (if n = 0 then (fixCount, stmts)
                 else (fixCount + n, check (setFunctionAt i func' stmts)))))"

definition onArrow :: "('b arrowFunction \<Rightarrow> nat \<times> 'b arrowFunction) \<Rightarrow> 'b variableDecl \<Rightarrow> nat \<times> 'b variableDecl" where
  "onArrow f decl =
     (case declInitializer decl of
        None \<Rightarrow> (0, decl)
      | Some initializer \<Rightarrow>
          (case initArrow initializer of
             None \<Rightarrow> (0, decl)
           | Some arrowFunc \<Rightarrow>
               (let (n, arrowFunc') = f arrowFunc
                in (n, decl\<lparr>declInitializer := Some (initializer\<lparr>initArrow := Some arrowFunc'\<rparr>)\<rparr>))))"

subsection \<open>\<open>addReturnTypes\<close>\<close>

definition addArrowReturnType :: "'b arrowFunction \<Rightarrow> nat \<times> 'b arrowFunction" where
  "addArrowReturnType arrowFunc =
     (let hasReturnType = (arrowReturnTypeNode arrowFunc \<noteq> None)
      in if \<not> hasReturnType
         then (let typeText = arrowReturnType arrowFunc
               in if typeText \<noteq> ''void'' \<and> length typeText < 100
                  then (if arrowSetReturnTypeThrows arrowFunc then (0, arrowFunc)
                        else (1, arrowFunc\<lparr>arrowReturnTypeNode := Some typeText\<rparr>))
                  else (0, arrowFunc))
         else (0, arrowFunc))"

definition addFunctionReturnType :: "functionDecl \<Rightarrow> nat \<times> functionDecl" where
  "addFunctionReturnType func =
     (let hasReturnType = (funcReturnTypeNode func \<noteq> None)
      in if \<not> hasReturnType
         then (let typeText = funcReturnType func
               in if typeText \<noteq> ''void'' \<and> length typeText < 100
                  then (if funcSetReturnTypeThrows func then (0, func)
                        else (1, func\<lparr>funcReturnTypeNode := Some typeText\<rparr>))
                  else (0, func))
         else (0, func))"

text \<open>
  First the arrow functions among the variable declarations, then the functions, which
  the script takes from the module after the first loop.
\<close>

definition addReturnTypes :: "'b typeChecker \<Rightarrow> 'b statement list \<Rightarrow> nat \<times> 'b statement list" where
  "addReturnTypes check stmts =
     (let afterArrows =
            forEachDeclaration check (\<lambda>kind. onArrow addArrowReturnType) (declarationPositions stmts) (0, stmts)
      in forEachFunction check addFunctionReturnType (functionPositions (snd afterArrows)) afterArrows)"

subsection \<open>\<open>addParameterTypes\<close>\<close>

definition addParameterType :: "parameter \<Rightarrow> nat \<times> parameter" where
  "addParameterType param =
     (let hasType = (paramTypeNode param \<noteq> None)
      in if \<not> hasType
         then (let typeText = paramType param
               in if typeText \<noteq> ''any'' \<and> length typeText < 100
                  then (if paramSetTypeThrows param then (0, param)
                        else (1, param\<lparr>paramTypeNode := Some typeText\<rparr>))
                  else (0, param))
         else (0, param))"

text \<open>
  The array \<open>functions\<close>: the function declarations, then the arrow functions that
  initialize a variable.
\<close>

datatype functionPosition = AtFunction nat | AtArrow "nat \<times> nat"

definition getParameters :: "functionPosition \<Rightarrow> 'b statement list \<Rightarrow> parameter list" where
  "getParameters pos stmts =
     (case pos of
        AtFunction i \<Rightarrow> (case functionAt i stmts of Some func \<Rightarrow> funcParams func | None \<Rightarrow> [])
      | AtArrow p \<Rightarrow> (case arrowAt p stmts of Some arrowFunc \<Rightarrow> arrowParams arrowFunc | None \<Rightarrow> []))"

definition setParameterAt :: "functionPosition \<Rightarrow> nat \<Rightarrow> parameter \<Rightarrow> 'b statement list \<Rightarrow> 'b statement list" where
  "setParameterAt pos k param stmts =
     (case pos of
        AtFunction i \<Rightarrow>
          (case functionAt i stmts of
             Some func \<Rightarrow> setFunctionAt i (func\<lparr>funcParams := (funcParams func)[k := param]\<rparr>) stmts
           | None \<Rightarrow> stmts)
      | AtArrow p \<Rightarrow>
          (case declarationAt p stmts of
             Some (kind, decl) \<Rightarrow>
               setDeclarationAt p
                 (withArrow (\<lambda>arrowFunc. arrowFunc\<lparr>arrowParams := (arrowParams arrowFunc)[k := param]\<rparr>) decl)
                 stmts
           | None \<Rightarrow> stmts))"

text \<open>The loop over the parameters of one function, and the loop over the functions.\<close>

fun forEachParameter ::
  "'b typeChecker \<Rightarrow> functionPosition \<Rightarrow> nat list \<Rightarrow> nat \<times> 'b statement list \<Rightarrow> nat \<times> 'b statement list" where
  "forEachParameter check pos [] state = state"
| "forEachParameter check pos (k # rest) (fixCount, stmts) =
     (let params = getParameters pos stmts
      in if k < length params
         then (let (n, param') = addParameterType (params ! k)
               in forEachParameter check pos rest
                    (if n = 0 then (fixCount, stmts)
                     else (fixCount + n, check (setParameterAt pos k param' stmts))))
         else forEachParameter check pos rest (fixCount, stmts))"

fun forEachFunctionLike ::
  "'b typeChecker \<Rightarrow> functionPosition list \<Rightarrow> nat \<times> 'b statement list \<Rightarrow> nat \<times> 'b statement list" where
  "forEachFunctionLike check [] state = state"
| "forEachFunctionLike check (pos # rest) (fixCount, stmts) =
     forEachFunctionLike check rest
       (forEachParameter check pos [0..<length (getParameters pos stmts)] (fixCount, stmts))"

definition addParameterTypes :: "'b typeChecker \<Rightarrow> 'b statement list \<Rightarrow> nat \<times> 'b statement list" where
  "addParameterTypes check stmts =
     forEachFunctionLike check
       (map AtFunction (functionPositions stmts) @ map AtArrow (arrowPositions stmts)) (0, stmts)"

subsection \<open>\<open>fixAnyTypes\<close>\<close>

definition fixAnyType :: "'b variableDecl \<Rightarrow> nat \<times> 'b variableDecl" where
  "fixAnyType decl =
     (if declTypeNode decl = Some ''any''
      then (case declInitializer decl of
              None \<Rightarrow> (0, decl)
            | Some initializer \<Rightarrow>
                (let typeText = initType initializer
                 in if typeText \<noteq> ''any'' \<and> length typeText < 100
                    then (if declSetTypeThrows decl then (0, decl)
                          else (1, decl\<lparr>declTypeNode := Some typeText\<rparr>))
                    else (0, decl)))
      else (0, decl))"

definition fixAnyTypes :: "'b typeChecker \<Rightarrow> 'b statement list \<Rightarrow> nat \<times> 'b statement list" where
  "fixAnyTypes check stmts =
     forEachDeclaration check (\<lambda>kind. fixAnyType) (declarationPositions stmts) (0, stmts)"

subsection \<open>\<open>ensureTypeExports\<close>\<close>

text \<open>\<open>filePath.includes('.types.ts')\<close>\<close>

definition includesText :: "string \<Rightarrow> string \<Rightarrow> bool" where
  "includesText s part = sublist part s"

text \<open>
  The loop over the interfaces and type aliases. \<open>setIsExported\<close> is called outside any
  \<open>try\<close>: when it raises, the loop and every caller up to \<open>main\<close> end there. The loop asks
  the nodes for nothing that comes from the checker.
\<close>

fun setExportedLoop :: "typeDecl list \<Rightarrow> nat \<Rightarrow> error + nat" where
  "setExportedLoop [] fixCount = Inr fixCount"
| "setExportedLoop (t # rest) fixCount =
     (if \<not> typeIsExported t
      then (if typeSetIsExportedThrows t then Inl ManipulationError
            else setExportedLoop rest (fixCount + 1))
      else setExportedLoop rest fixCount)"

definition setIsExported :: "typeDecl \<Rightarrow> typeDecl" where
  "setIsExported t =
     (if typeIsExported t then t
      else t\<lparr>typeIsExported := True, typeText := ''export '' @ typeText t\<rparr>)"

definition exportTypeStatement :: "'b statement \<Rightarrow> 'b statement" where
  "exportTypeStatement stmt =
     (case stmt of
        InterfaceDeclaration t \<Rightarrow> InterfaceDeclaration (setIsExported t)
      | TypeAliasDeclaration t \<Rightarrow> TypeAliasDeclaration (setIsExported t)
      | _ \<Rightarrow> stmt)"

definition ensureTypeExports ::
  "'b typeChecker \<Rightarrow> string \<Rightarrow> 'b statement list \<Rightarrow> error + (nat \<times> 'b statement list)" where
  "ensureTypeExports check filePath stmts =
     (if \<not> includesText filePath ''.types.ts'' then Inr (0, stmts)
      else
        let interfaces = getInterfaces stmts;
            typeAliases = getTypeAliases stmts
        in case setExportedLoop (interfaces @ typeAliases) 0 of
             Inl e \<Rightarrow> Inl e
           | Inr fixCount \<Rightarrow>
               Inr (fixCount, if fixCount = 0 then stmts else check (map exportTypeStatement stmts)))"

subsection \<open>\<open>improveTypeSpecificity\<close>\<close>

text \<open>The annotation \<open>`'${literalValue}'`\<close>: the value between two single quotes.\<close>

definition literalTypeText :: "string \<Rightarrow> string" where
  "literalTypeText literalValue = [CHR 0x27] @ literalValue @ [CHR 0x27]"

definition improveDeclaration :: "declarationKind \<Rightarrow> 'b variableDecl \<Rightarrow> nat \<times> 'b variableDecl" where
  "improveDeclaration kind decl =
     (if declTypeNode decl = Some ''string''
      then (case declInitializer decl of
              None \<Rightarrow> (0, decl)
            | Some initializer \<Rightarrow>
                (case initLiteralValue initializer of
                   None \<Rightarrow> (0, decl)
                 | Some literalValue \<Rightarrow>
                     (if kind = DeclConst
                      then (if declSetTypeThrows decl then (0, decl)
                            else (1, decl\<lparr>declTypeNode := Some (literalTypeText literalValue)\<rparr>))
                      else (0, decl))))
      else (0, decl))"

definition improveTypeSpecificity :: "'b typeChecker \<Rightarrow> 'b statement list \<Rightarrow> nat \<times> 'b statement list" where
  "improveTypeSpecificity check stmts =
     forEachDeclaration check improveDeclaration (declarationPositions stmts) (0, stmts)"

subsection \<open>\<open>processFile\<close> and \<open>processAllFiles\<close>\<close>

text \<open>
  The analyzer reads every file as a tree, so here the disk holds a tree for each path. The
  analyzer's project holds the files of the directory: for a file at \<open>filePath\<close>,
  \<open>typeCheck env files filePath\<close> is the checker in a project whose files are \<open>files\<close>. The
  file is checked as it is loaded, and after every edit; the five passes work on the same
  tree, one after the other.
\<close>

type_synonym 'b sourceFiles = "string \<rightharpoonup> 'b statement list"

record 'b analyzerEnv = "'b env" +
  typeCheck :: "'b sourceFiles \<Rightarrow> string \<Rightarrow> 'b typeChecker"

definition processFile ::
  "('b, 'e) analyzerEnv_scheme \<Rightarrow> string \<Rightarrow> 'b sourceFiles \<Rightarrow> (error \<times> 'b sourceFiles) + 'b sourceFiles" where
  "processFile env filePath files =
     (case files filePath of
        None \<Rightarrow> Inr files
      | Some loaded \<Rightarrow>
          (let check = typeCheck env files filePath;
               stmts = check loaded
           in case ensureTypeExports check filePath stmts of
                Inl e \<Rightarrow> Inl (e, files)
              | Inr (n1, stmts1) \<Rightarrow>
                  (let (n2, stmts2) = addReturnTypes check stmts1;
                       (n3, stmts3) = addParameterTypes check stmts2;
                       (n4, stmts4) = fixAnyTypes check stmts3;
                       (n5, stmts5) = improveTypeSpecificity check stmts4;
                       totalFixes = n1 + n2 + n3 + n4 + n5
                   in if totalFixes > 0
                      then (if saveFails env filePath then Inl (SaveFailed filePath, files)
                            else Inr (files(filePath \<mapsto> stmts5)))
                      else Inr files)))"

fun processAllFiles ::
  "('b, 'e) analyzerEnv_scheme \<Rightarrow> string list \<Rightarrow> 'b sourceFiles \<Rightarrow> (error \<times> 'b sourceFiles) + 'b sourceFiles" where
  "processAllFiles env [] files = Inr files"
| "processAllFiles env (file # rest) files =
     (case processFile env file files of
        Inl failure \<Rightarrow> Inl failure
      | Inr files' \<Rightarrow> processAllFiles env rest files')"

section \<open>Notions used in the statements\<close>

text \<open>
  A pass of the analyzer on a module whose types do not depend on its edits: the edit of
  every declaration, respectively every function, and the number of edits.
\<close>

definition editDeclarations :: "(declarationKind \<Rightarrow> 'b variableDecl \<Rightarrow> 'b variableDecl) \<Rightarrow> 'b statement \<Rightarrow> 'b statement" where
  "editDeclarations f stmt =
     (case stmt of
        VariableStatement kind decls text \<Rightarrow> VariableStatement kind (map (f kind) decls) text
      | _ \<Rightarrow> stmt)"

definition editCount :: "(declarationKind \<Rightarrow> 'b variableDecl \<Rightarrow> nat \<times> 'b variableDecl) \<Rightarrow> 'b statement \<Rightarrow> nat" where
  "editCount edit stmt =
     (case stmt of
        VariableStatement kind decls text \<Rightarrow> sum_list (map (\<lambda>decl. fst (edit kind decl)) decls)
      | _ \<Rightarrow> 0)"

definition editFunction :: "(functionDecl \<Rightarrow> functionDecl) \<Rightarrow> 'b statement \<Rightarrow> 'b statement" where
  "editFunction f stmt =
     (case stmt of FunctionDeclaration func \<Rightarrow> FunctionDeclaration (f func) | _ \<Rightarrow> stmt)"

definition functionEditCount :: "(functionDecl \<Rightarrow> nat \<times> functionDecl) \<Rightarrow> 'b statement \<Rightarrow> nat" where
  "functionEditCount edit stmt =
     (case stmt of FunctionDeclaration func \<Rightarrow> fst (edit func) | _ \<Rightarrow> 0)"

definition isTypeStatement :: "'b statement \<Rightarrow> bool" where
  "isTypeStatement s =
     (case s of InterfaceDeclaration t \<Rightarrow> True | TypeAliasDeclaration t \<Rightarrow> True | _ \<Rightarrow> False)"

text \<open>The utility candidates that \<open>analyzeFile\<close> and \<open>extractUtilities\<close> find in one statement.\<close>

definition utilitiesOf :: "('e) refactorOptions_scheme \<Rightarrow> 'b statement \<Rightarrow> 'b extractionCandidate list" where
  "utilitiesOf opts stmt =
     (if isVariableStatement stmt
      then filter (\<lambda>c. utilNamePattern opts (candName c)) (variableCandidates opts stmt)
      else [])"

text \<open>The disk a run leaves behind, however it ends.\<close>

definition diskAfter :: "(error \<times> 'b disk) + 'b disk \<Rightarrow> 'b disk" where
  "diskAfter result = (case result of Inl failure \<Rightarrow> snd failure | Inr d \<Rightarrow> d)"

text \<open>The statements of a module other than its imports.\<close>

definition declarationsOf :: "'b statement list \<Rightarrow> 'b statement list" where
  "declarationsOf stmts = filter (\<lambda>s. \<not> isImportDeclaration s) stmts"

text \<open>A module that holds no type declaration and no statement with a utility candidate.\<close>

definition settled :: "('e) refactorOptions_scheme \<Rightarrow> 'b statement list \<Rightarrow> bool" where
  "settled opts stmts = list_all (\<lambda>s. \<not> isTypeStatement s \<and> utilitiesOf opts s = []) stmts"

text \<open>The candidates that \<open>analyzeFile\<close> finds in one statement.\<close>

definition statementCandidates :: "('e) refactorOptions_scheme \<Rightarrow> 'b statement \<Rightarrow> 'b extractionCandidate list" where
  "statementCandidates opts stmt =
     (case stmt of
        FunctionDeclaration func \<Rightarrow> functionCandidates opts func
      | VariableStatement kind decls text \<Rightarrow> variableCandidates opts stmt
      | InterfaceDeclaration iface \<Rightarrow> [interfaceCandidate iface]
      | TypeAliasDeclaration typeAlias \<Rightarrow> [typeAliasCandidate typeAlias]
      | _ \<Rightarrow> [])"

text \<open>The disk a step of a script leaves behind, however it ends.\<close>

definition outcomeDisk :: "'b outcome \<Rightarrow> 'b disk" where
  "outcomeDisk result = (case result of Inl failure \<Rightarrow> snd failure | Inr r \<Rightarrow> disk r)"

text \<open>The helpers the nested pass finds in a module, when it finds a component with a block.\<close>

definition helpersOfModule :: "(string \<Rightarrow> bool) \<Rightarrow> sourceStatement list \<Rightarrow> (string \<times> string) list" where
  "helpersOfModule pattern stmts =
     (case findComponent stmts of
        None \<Rightarrow> []
      | Some componentDecl \<Rightarrow>
          (case componentBlock componentDecl of
             None \<Rightarrow> []
           | Some statements \<Rightarrow> findHelperFunctions pattern statements))"

text \<open>The names a list of statements declares, and the names a module imports.\<close>

definition declaredNames :: "'b statement list \<Rightarrow> string list" where
  "declaredNames stmts =
     concat (map (\<lambda>s. case s of
         FunctionDeclaration f \<Rightarrow> (case funcName f of None \<Rightarrow> [] | Some n \<Rightarrow> [n])
       | VariableStatement kind decls text \<Rightarrow> map declName decls
       | InterfaceDeclaration t \<Rightarrow> [typeName t]
       | TypeAliasDeclaration t \<Rightarrow> [typeName t]
       | _ \<Rightarrow> []) stmts)"

definition importedNames :: "'b statement list \<Rightarrow> string list" where
  "importedNames stmts = concat (map namedImports (getImportDeclarations stmts))"

text \<open>The statements of the body of the module's component.\<close>

definition componentStatements :: "sourceStatement list \<Rightarrow> unit statement list" where
  "componentStatements stmts =
     (case findComponent stmts of
        None \<Rightarrow> []
      | Some componentDecl \<Rightarrow> (case componentBlock componentDecl of None \<Rightarrow> [] | Some statements \<Rightarrow> statements))"

text \<open>A statement with the declarations it holds moved to other lines.\<close>

definition atLines :: "int \<Rightarrow> int \<Rightarrow> 'b statement \<Rightarrow> 'b statement" where
  "atLines firstLine lastLine stmt =
     (case stmt of
        VariableStatement kind decls text \<Rightarrow>
          VariableStatement kind
            (map (\<lambda>decl. decl\<lparr>declStartLine := firstLine, declEndLine := lastLine\<rparr>) decls) text
      | _ \<Rightarrow> stmt)"

section \<open>Example modules\<close>

text \<open>The default pattern of the top-level pass, \<open>^(validate|format|get|handle)\<close>.\<close>

definition defaultUtilPattern :: "string \<Rightarrow> bool" where
  "defaultUtilPattern name =
     (startsWith name ''validate'' \<or> startsWith name ''format''
      \<or> startsWith name ''get'' \<or> startsWith name ''handle'')"

text \<open>
  A parser for the types files of the examples, which hold a comment and type declarations,
  each on a line of its own: a line \<open>interface N ...\<close> or \<open>type N ...\<close>, after \<open>export\<close> or
  not, declares the type \<open>N\<close>. The types file is the only file that a script knows as text
  and asks for its declarations.
\<close>

fun splitLines :: "string \<Rightarrow> string list" where
  "splitLines [] = [[]]"
| "splitLines (c # cs) =
     (if c = CHR 0x0A then [] # splitLines cs
      else (case splitLines cs of
              line # rest \<Rightarrow> (c # line) # rest
            | [] \<Rightarrow> [[c]]))"

definition typeDeclOfLine :: "nat \<Rightarrow> string \<Rightarrow> bool \<Rightarrow> string \<Rightarrow> typeDecl" where
  "typeDeclOfLine lineNumber line exported afterKeyword =
     \<lparr>typeName = takeWhile (\<lambda>c. c \<noteq> CHR '' '') afterKeyword,
      typeStartLine = int lineNumber, typeEndLine = int lineNumber,
      typeText = line, typeIsExported = exported, typeSetIsExportedThrows = False\<rparr>"

definition parseLine :: "nat \<times> string \<Rightarrow> sourceStatement list" where
  "parseLine numbered =
     (let (lineNumber, line) = numbered;
          exported = startsWith line ''export '';
          declaration = (if exported then drop 7 line else line)
      in if startsWith declaration ''interface ''
         then [InterfaceDeclaration (typeDeclOfLine lineNumber line exported (drop 10 declaration))]
         else if startsWith declaration ''type ''
         then [TypeAliasDeclaration (typeDeclOfLine lineNumber line exported (drop 5 declaration))]
         else [])"

definition parseLines :: "string \<Rightarrow> sourceStatement list" where
  "parseLines text = concat (map parseLine (enumerate 1 (splitLines text)))"

text \<open>
  Surroundings in which every file lies in the directory \<open>/app\<close>, every save succeeds, the
  project registers every file on disk, and a file is parsed line by line.
\<close>

definition exampleEnv :: "body env" where
  "exampleEnv =
     \<lparr>relativePath = (\<lambda>fromFile toFile. drop 5 toFile),
      parseSource = parseLines,
      saveFails = (\<lambda>path. False),
      inProject = (\<lambda>path. True)\<rparr>"

definition exampleOptions :: refactorOptions where
  "exampleOptions =
     \<lparr>targetFile = ''/app/Panel.tsx'',
      typesFile = ''/app/Panel.types.ts'',
      utilsFile = ''/app/Panel.utils.ts'',
      minFunctionLines = 20,
      minVariableLines = 10,
      utilNamePattern = defaultUtilPattern\<rparr>"

definition arrowOf :: "'b \<Rightarrow> 'b initializer" where
  "arrowOf b =
     \<lparr>initArrow = Some \<lparr>arrowParams = [], arrowReturnTypeNode = None, arrowReturnType = ''void'',
                         arrowSetReturnTypeThrows = False, arrowBody = b\<rparr>,
      initType = ''() => void'',
      initLiteralValue = None\<rparr>"

definition numberOf :: "'b initializer" where
  "numberOf = \<lparr>initArrow = None, initType = ''number'', initLiteralValue = None\<rparr>"

definition declOf :: "string \<Rightarrow> int \<Rightarrow> int \<Rightarrow> 'b initializer \<Rightarrow> 'b variableDecl" where
  "declOf name firstLine lastLine initializer =
     \<lparr>declName = name, declStartLine = firstLine, declEndLine = lastLine, declText = name @ '' = ...'',
      declTypeNode = None, declSetTypeThrows = False, declInitializer = Some initializer\<rparr>"

definition interfaceOf :: "string \<Rightarrow> int \<Rightarrow> int \<Rightarrow> typeDecl" where
  "interfaceOf name firstLine lastLine =
     \<lparr>typeName = name, typeStartLine = firstLine, typeEndLine = lastLine,
      typeText = ''interface '' @ name @ '' { }'', typeIsExported = False,
      typeSetIsExportedThrows = False\<rparr>"

definition functionOf :: "string \<Rightarrow> int \<Rightarrow> int \<Rightarrow> functionDecl" where
  "functionOf name firstLine lastLine =
     \<lparr>funcName = Some name, funcStartLine = firstLine, funcEndLine = lastLine,
      funcText = ''function '' @ name @ ''() { }'', funcParams = [], funcReturnTypeNode = None,
      funcReturnType = ''void'', funcSetReturnTypeThrows = False\<rparr>"

text \<open>
  A module with an interface \<open>User\<close>, a function \<open>renderAll\<close> of 25 lines and a binding
  \<open>validateEmail\<close> of 12 lines.
\<close>

definition panelModule :: "sourceStatement list" where
  "panelModule =
     [InterfaceDeclaration (interfaceOf ''User'' 1 4),
      FunctionDeclaration (functionOf ''renderAll'' 6 30),
      VariableStatement DeclConst [declOf ''validateEmail'' 32 43 (arrowOf ConciseBody)]
        ''const validateEmail = ...;'']"

definition panelDisk :: "body disk" where
  "panelDisk = \<lparr>diskSource = panelModule, diskFiles = Map.empty\<rparr>"

text \<open>What the top-level pass leaves of that module, and the two files it writes.\<close>

definition panelTypesText :: string where
  "panelTypesText =
     ''/**'' @ newline
     @ '' * Extracted types and interfaces'' @ newline
     @ '' * Auto-generated by ts-morph refactoring script'' @ newline
     @ '' */'' @ newline
     @ newline
     @ ''export interface User { }''"

definition panelUtilsText :: string where
  "panelUtilsText =
     ''/**'' @ newline
     @ '' * Extracted utility functions'' @ newline
     @ '' * Auto-generated by ts-morph refactoring script'' @ newline
     @ '' */'' @ newline
     @ newline
     @ ''import type { User } from '' @ [CHR 0x27] @ ''./Panel.types'' @ [CHR 0x27] @ '';'' @ newline
     @ newline
     @ ''export const validateEmail = ...;''"

definition panelDiskAfter :: "body disk" where
  "panelDiskAfter =
     \<lparr>diskSource =
        [ImportDeclaration \<lparr>moduleSpecifier = ''./Panel.types'', namedImports = [''User''],
                             defaultImport = None\<rparr>,
         ImportDeclaration \<lparr>moduleSpecifier = ''./Panel.utils'', namedImports = [''validateEmail''],
                             defaultImport = None\<rparr>,
         FunctionDeclaration (functionOf ''renderAll'' 6 30)],
      diskFiles =
        [''/app/Panel.types.ts'' \<mapsto> panelTypesText,
         ''/app/Panel.utils.ts'' \<mapsto> panelUtilsText]\<rparr>"

text \<open>
  The module the first run has left, to which an interface \<open>Role\<close> and a binding
  \<open>formatDate\<close> of 12 lines have been added since; and what a second run of the top-level
  pass leaves of it.
\<close>

definition rerunDisk :: "body disk" where
  "rerunDisk =
     panelDiskAfter
       \<lparr>diskSource :=
          diskSource panelDiskAfter
          @ [InterfaceDeclaration (interfaceOf ''Role'' 32 35),
             VariableStatement DeclConst [declOf ''formatDate'' 37 48 (arrowOf ConciseBody)]
               ''const formatDate = ...;'']\<rparr>"

definition roleTypesText :: string where
  "roleTypesText =
     ''/**'' @ newline
     @ '' * Extracted types and interfaces'' @ newline
     @ '' * Auto-generated by ts-morph refactoring script'' @ newline
     @ '' */'' @ newline
     @ newline
     @ ''export interface Role { }''"

definition formatUtilsText :: string where
  "formatUtilsText =
     ''/**'' @ newline
     @ '' * Extracted utility functions'' @ newline
     @ '' * Auto-generated by ts-morph refactoring script'' @ newline
     @ '' */'' @ newline
     @ newline
     @ ''import type { Role } from '' @ [CHR 0x27] @ ''./Panel.types'' @ [CHR 0x27] @ '';'' @ newline
     @ newline
     @ ''export const formatDate = ...;''"

definition rerunDiskAfter :: "body disk" where
  "rerunDiskAfter =
     \<lparr>diskSource =
        [ImportDeclaration \<lparr>moduleSpecifier = ''./Panel.types'', namedImports = [''User'', ''Role''],
                             defaultImport = None\<rparr>,
         ImportDeclaration \<lparr>moduleSpecifier = ''./Panel.utils'',
                             namedImports = [''validateEmail'', ''formatDate''],
                             defaultImport = None\<rparr>,
         FunctionDeclaration (functionOf ''renderAll'' 6 30)],
      diskFiles =
        [''/app/Panel.types.ts'' \<mapsto> roleTypesText,
         ''/app/Panel.utils.ts'' \<mapsto> formatUtilsText]\<rparr>"

text \<open>Surroundings in which the types file, respectively the utilities file, cannot be saved.\<close>

definition typesUnwritableEnv :: "body env" where
  "typesUnwritableEnv = exampleEnv\<lparr>saveFails := (\<lambda>path. path = ''/app/Panel.types.ts'')\<rparr>"

definition utilsUnwritableEnv :: "body env" where
  "utilsUnwritableEnv = exampleEnv\<lparr>saveFails := (\<lambda>path. path = ''/app/Panel.utils.ts'')\<rparr>"

text \<open>The same module beside a types file that already declares something.\<close>

definition legacyTypes :: string where
  "legacyTypes = ''export interface Legacy { }''"

definition legacyDisk :: "body disk" where
  "legacyDisk = \<lparr>diskSource = panelModule, diskFiles = [''/app/Panel.types.ts'' \<mapsto> legacyTypes]\<rparr>"

text \<open>The pattern \<open>^(validate|get)\<close>.\<close>

definition validateOrGet :: "string \<Rightarrow> bool" where
  "validateOrGet name = (startsWith name ''validate'' \<or> startsWith name ''get'')"

definition dashboardOptions :: pass2Options where
  "dashboardOptions =
     \<lparr>targetFile = ''/app/Dashboard.tsx'',
      typesFile = ''/app/Dashboard.types.ts'',
      utilsFile = ''/app/Dashboard.utils.ts'',
      helperNamePattern = validateOrGet\<rparr>"

text \<open>
  A component \<open>Dashboard\<close> whose body declares the arrow functions \<open>validateForm\<close>,
  \<open>getRoleBadgeColor\<close> and \<open>unrelatedHelper\<close>, each in a statement of its own.
\<close>

definition validateFormStatement :: "unit statement" where
  "validateFormStatement =
     VariableStatement DeclConst [declOf ''validateForm'' 2 9 (arrowOf ())]
       ''const validateForm = (data) => { };''"

definition getRoleBadgeColorStatement :: "unit statement" where
  "getRoleBadgeColorStatement =
     VariableStatement DeclConst [declOf ''getRoleBadgeColor'' 11 12 (arrowOf ())]
       ''const getRoleBadgeColor = (role) => { };''"

definition unrelatedHelperStatement :: "unit statement" where
  "unrelatedHelperStatement =
     VariableStatement DeclConst [declOf ''unrelatedHelper'' 14 15 (arrowOf ())]
       ''const unrelatedHelper = () => { };''"

definition dashboardOf :: "unit statement list \<Rightarrow> sourceStatement list" where
  "dashboardOf statements =
     [VariableStatement DeclConst [declOf ''Dashboard'' 1 40 (arrowOf (Block statements))]
        ''export const Dashboard = () => { };'']"

definition dashboardDisk :: "body disk" where
  "dashboardDisk =
     \<lparr>diskSource = dashboardOf [validateFormStatement, getRoleBadgeColorStatement, unrelatedHelperStatement],
      diskFiles = Map.empty\<rparr>"

text \<open>The same component beside a utilities file that already holds a helper.\<close>

definition formatDateText :: string where
  "formatDateText = ''export const formatDate = (d) => { };''"

definition dashboardUtilsDisk :: "body disk" where
  "dashboardUtilsDisk = dashboardDisk\<lparr>diskFiles := [''/app/Dashboard.utils.ts'' \<mapsto> formatDateText]\<rparr>"

text \<open>What the nested pass leaves of the component, in a directory without a utilities file.\<close>

definition dashboardUtilsText :: string where
  "dashboardUtilsText =
     newline @ ''export const validateForm = (data) => { };''
     @ newline @ newline @ ''export const getRoleBadgeColor = (role) => { };''"

definition dashboardDiskAfter :: "body disk" where
  "dashboardDiskAfter =
     \<lparr>diskSource =
        ImportDeclaration \<lparr>moduleSpecifier = ''./Dashboard.utils'',
                            namedImports = [''validateForm'', ''getRoleBadgeColor''],
                            defaultImport = None\<rparr>
        # dashboardOf [unrelatedHelperStatement],
      diskFiles = [''/app/Dashboard.utils.ts'' \<mapsto> dashboardUtilsText]\<rparr>"

text \<open>A component whose body binds \<open>getCount\<close> to a number.\<close>

definition getCountStatement :: "unit statement" where
  "getCountStatement =
     VariableStatement DeclConst [declOf ''getCount'' 2 2 numberOf] ''const getCount = 5;''"

definition countDisk :: "body disk" where
  "countDisk = \<lparr>diskSource = dashboardOf [getCountStatement], diskFiles = Map.empty\<rparr>"

text \<open>
  A module whose one statement declares \<open>validateEmail\<close>, of 12 lines, and \<open>attempts\<close>; and a
  component whose body declares \<open>attempts\<close> and \<open>getLabel\<close> in one statement.
\<close>

definition siblingDisk :: "body disk" where
  "siblingDisk =
     \<lparr>diskSource =
        [VariableStatement DeclConst
           [declOf ''validateEmail'' 1 12 (arrowOf ConciseBody), declOf ''attempts'' 12 12 numberOf]
           ''const validateEmail = (e) => { }, attempts = 3;''],
      diskFiles = Map.empty\<rparr>"

definition siblingDiskAfter :: "body disk" where
  "siblingDiskAfter =
     \<lparr>diskSource =
        [ImportDeclaration \<lparr>moduleSpecifier = ''./Panel.utils'', namedImports = [''validateEmail''],
                             defaultImport = None\<rparr>],
      diskFiles = [''/app/Panel.utils.ts'' \<mapsto>
                     ''/**'' @ newline
                     @ '' * Extracted utility functions'' @ newline
                     @ '' * Auto-generated by ts-morph refactoring script'' @ newline
                     @ '' */'' @ newline
                     @ newline
                     @ ''export const validateEmail = (e) => { }, attempts = 3;'']\<rparr>"

definition nestedSiblingStatement :: "unit statement" where
  "nestedSiblingStatement =
     VariableStatement DeclConst
       [declOf ''attempts'' 2 2 numberOf, declOf ''getLabel'' 2 4 (arrowOf ())]
       ''const attempts = 3, getLabel = () => { };''"

definition nestedSiblingDisk :: "body disk" where
  "nestedSiblingDisk = \<lparr>diskSource = dashboardOf [nestedSiblingStatement], diskFiles = Map.empty\<rparr>"

definition nestedSiblingDiskAfter :: "body disk" where
  "nestedSiblingDiskAfter =
     \<lparr>diskSource =
        ImportDeclaration \<lparr>moduleSpecifier = ''./Dashboard.utils'', namedImports = [''getLabel''],
                            defaultImport = None\<rparr>
        # dashboardOf [],
      diskFiles = [''/app/Dashboard.utils.ts'' \<mapsto>
                     newline @ ''export const attempts = 3, getLabel = () => { };'']\<rparr>"

text \<open>
  Modules for the analyzer. In each of them but the last, no type depends on an annotation
  that the analyzer writes, so the type checker answers after an edit what it answered
  before: \<open>steadyCheck\<close>.
\<close>

definition steadyCheck :: "'b typeChecker" where
  "steadyCheck stmts = stmts"

definition analyzerEnv :: "body analyzerEnv" where
  "analyzerEnv =
     \<lparr>relativePath = relativePath exampleEnv,
      parseSource = parseSource exampleEnv,
      saveFails = saveFails exampleEnv,
      inProject = inProject exampleEnv,
      typeCheck = (\<lambda>files path. steadyCheck)\<rparr>"

definition anyArrow :: "body arrowFunction" where
  "anyArrow =
     \<lparr>arrowParams = [], arrowReturnTypeNode = None, arrowReturnType = ''any'',
      arrowSetReturnTypeThrows = False, arrowBody = ConciseBody\<rparr>"

definition loadDecl :: "body arrowFunction \<Rightarrow> body variableDecl" where
  "loadDecl arrowFunc =
     declOf ''load'' 1 1 \<lparr>initArrow = Some arrowFunc, initType = ''() => any'', initLiteralValue = None\<rparr>"

text \<open>\<open>const load = () => JSON.parse(raw);\<close>, whose return type is inferred as \<open>any\<close>.\<close>

definition loadModule :: "sourceStatement list" where
  "loadModule = [VariableStatement DeclConst [loadDecl anyArrow] ''const load = () => JSON.parse(raw);'']"

definition loadModuleAfter :: "sourceStatement list" where
  "loadModuleAfter =
     [VariableStatement DeclConst [loadDecl (anyArrow\<lparr>arrowReturnTypeNode := Some ''any''\<rparr>)]
        ''const load = () => JSON.parse(raw);'']"

text \<open>A parameter without annotation whose inferred type is rendered in \<open>n\<close> characters.\<close>

definition wideParameter :: "nat \<Rightarrow> parameter" where
  "wideParameter n =
     \<lparr>paramName = ''row'', paramTypeNode = None, paramType = replicate n (CHR ''x''),
      paramSetTypeThrows = False\<rparr>"

text \<open>\<open>const mode: string = 'dark'\<close>, and whether setting its type raises.\<close>

definition modeDecl :: "bool \<Rightarrow> body variableDecl" where
  "modeDecl throws =
     \<lparr>declName = ''mode'', declStartLine = 1, declEndLine = 1, declText = ''mode: string = ...'',
      declTypeNode = Some ''string'', declSetTypeThrows = throws,
      declInitializer = Some \<lparr>initArrow = None, initType = ''\"dark\"'', initLiteralValue = Some ''dark''\<rparr>\<rparr>"

text \<open>
  A types file with the interfaces \<open>User\<close>, whose export flag cannot be set, and \<open>FormData\<close>;
  and a utilities file with two arrow functions that lack a return type, the first of which
  rejects the annotation.
\<close>

definition typesModule :: "sourceStatement list" where
  "typesModule =
     [InterfaceDeclaration ((interfaceOf ''User'' 1 4)\<lparr>typeSetIsExportedThrows := True\<rparr>),
      InterfaceDeclaration (interfaceOf ''FormData'' 6 9)]"

definition stringArrow :: "bool \<Rightarrow> body arrowFunction" where
  "stringArrow throws =
     \<lparr>arrowParams = [], arrowReturnTypeNode = None, arrowReturnType = ''string'',
      arrowSetReturnTypeThrows = throws, arrowBody = ConciseBody\<rparr>"

definition utilsModule :: "sourceStatement list" where
  "utilsModule =
     [VariableStatement DeclConst [loadDecl (stringArrow True)] ''export const load = () => raw;'',
      VariableStatement DeclConst [loadDecl (stringArrow False)] ''export const load = () => raw;'']"

definition utilsModuleAfter :: "sourceStatement list" where
  "utilsModuleAfter =
     [VariableStatement DeclConst [loadDecl (stringArrow True)] ''export const load = () => raw;'',
      VariableStatement DeclConst [loadDecl ((stringArrow False)\<lparr>arrowReturnTypeNode := Some ''string''\<rparr>)]
        ''export const load = () => raw;'']"

definition analyzerFiles :: "body sourceFiles" where
  "analyzerFiles = [''/app/Panel.types.ts'' \<mapsto> typesModule, ''/app/Panel.utils.ts'' \<mapsto> utilsModule]"

text \<open>\<open>const note: string = "it's"\<close>, and whether setting its type raises.\<close>

definition itsValue :: string where
  "itsValue = ''it'' @ [CHR 0x27] @ ''s''"

definition noteDecl :: "bool \<Rightarrow> body variableDecl" where
  "noteDecl throws =
     \<lparr>declName = ''note'', declStartLine = 1, declEndLine = 1, declText = ''note: string = ...'',
      declTypeNode = Some ''string'', declSetTypeThrows = throws,
      declInitializer = Some \<lparr>initArrow = None, initType = ''\"it'' @ [CHR 0x27] @ ''s\"'',
                               initLiteralValue = Some itsValue\<rparr>\<rparr>"

text \<open>
  \<open>const sep: string = "a\\b"\<close>, whose value is \<open>a\<close>, a backslash and \<open>b\<close>; setting its type
  does not raise.
\<close>

definition sepValue :: string where
  "sepValue = [CHR ''a'', CHR 0x5C, CHR ''b'']"

definition sepDecl :: "body variableDecl" where
  "sepDecl =
     \<lparr>declName = ''sep'', declStartLine = 1, declEndLine = 1, declText = ''sep: string = ...'',
      declTypeNode = Some ''string'', declSetTypeThrows = False,
      declInitializer = Some \<lparr>initArrow = None,
                               initType = [CHR 0x22, CHR ''a'', CHR 0x5C, CHR 0x5C, CHR ''b'', CHR 0x22],
                               initLiteralValue = Some sepValue\<rparr>\<rparr>"

text \<open>
  \<open>const a: any = 5; const b: any = a;\<close>. The type of the initializer of \<open>b\<close> is the declared
  type of \<open>a\<close>, which is what the checker of this module, \<open>aliasCheck\<close>, answers for it.
\<close>

definition aliasDecl :: "string \<Rightarrow> string \<Rightarrow> string \<Rightarrow> body variableDecl" where
  "aliasDecl name annotation inferred =
     \<lparr>declName = name, declStartLine = 1, declEndLine = 1, declText = name @ '' = ...'',
      declTypeNode = Some annotation, declSetTypeThrows = False,
      declInitializer = Some \<lparr>initArrow = None, initType = inferred, initLiteralValue = None\<rparr>\<rparr>"

definition aliasModule :: "string \<Rightarrow> string \<Rightarrow> sourceStatement list" where
  "aliasModule annotationA annotationB =
     [VariableStatement DeclConst [aliasDecl ''a'' annotationA ''5''] ''const a = 5;'',
      VariableStatement DeclConst [aliasDecl ''b'' annotationB annotationA] ''const b = a;'']"

definition aliasCheck :: "body typeChecker" where
  "aliasCheck stmts =
     (case (declarationAt (0, 0) stmts, declarationAt (1, 0) stmts) of
        (Some (kindA, a), Some (kindB, b)) \<Rightarrow>
          (case (declTypeNode a, declInitializer b) of
             (Some annotation, Some initializer) \<Rightarrow>
               setDeclarationAt (1, 0) (b\<lparr>declInitializer := Some (initializer\<lparr>initType := annotation\<rparr>)\<rparr>) stmts
           | _ \<Rightarrow> stmts)
      | _ \<Rightarrow> stmts)"

text \<open>
  \<open>const label = (prefix = '') => prefix\<close> and \<open>function scale(row, factor = 2, unit = 'px') { }\<close>:
  the parameters with a default value have an inferred type, \<open>row\<close> has none.
\<close>

definition inferredParameter :: "string \<Rightarrow> string \<Rightarrow> parameter" where
  "inferredParameter name inferred =
     \<lparr>paramName = name, paramTypeNode = None, paramType = inferred, paramSetTypeThrows = False\<rparr>"

definition scaleModule :: "string option \<Rightarrow> string option \<Rightarrow> sourceStatement list" where
  "scaleModule factorAnnotation prefixAnnotation =
     [VariableStatement DeclConst
        [declOf ''label'' 1 1
           \<lparr>initArrow = Some \<lparr>arrowParams = [(inferredParameter ''prefix'' ''string'')\<lparr>paramTypeNode := prefixAnnotation\<rparr>],
                               arrowReturnTypeNode = Some ''string'', arrowReturnType = ''string'',
                               arrowSetReturnTypeThrows = False, arrowBody = ConciseBody\<rparr>,
            initType = ''(prefix?: string) => string'', initLiteralValue = None\<rparr>]
        ''const label = (prefix = ...) => prefix;'',
      FunctionDeclaration
        ((functionOf ''scale'' 3 5)
           \<lparr>funcParams := [inferredParameter ''row'' ''any'',
                           (inferredParameter ''factor'' ''number'')\<lparr>paramTypeNode := factorAnnotation\<rparr>,
                           (inferredParameter ''unit'' ''string'')\<lparr>paramTypeNode := prefixAnnotation\<rparr>]\<rparr>)]"

text \<open>
  A types file whose interface \<open>User\<close> is not exported, beside a utilities file that imports
  it: \<open>export const first = (users: User[]) => users[0]\<close>. While \<open>User\<close> is not exported the
  import does not resolve and the function returns \<open>any\<close>; once it is, the function returns
  \<open>User\<close>. \<open>importCheck\<close> is the checker of this project.
\<close>

definition firstArrow :: "string \<Rightarrow> string option \<Rightarrow> body initializer" where
  "firstArrow elementType annotation =
     \<lparr>initArrow = Some \<lparr>arrowParams = [\<lparr>paramName = ''users'', paramTypeNode = Some ''User[]'',
                                           paramType = elementType @ ''[]'', paramSetTypeThrows = False\<rparr>],
                         arrowReturnTypeNode = annotation, arrowReturnType = elementType,
                         arrowSetReturnTypeThrows = False, arrowBody = ConciseBody\<rparr>,
      initType = ''(users: User[]) => '' @ elementType,
      initLiteralValue = None\<rparr>"

definition firstModule :: "string \<Rightarrow> string option \<Rightarrow> sourceStatement list" where
  "firstModule elementType annotation =
     [VariableStatement DeclConst [declOf ''first'' 3 3 (firstArrow elementType annotation)]
        ''export const first = (users: User[]) => users[0];'']"

definition importFiles :: "body sourceFiles" where
  "importFiles =
     [''/app/Panel.types.ts'' \<mapsto> [InterfaceDeclaration (interfaceOf ''User'' 1 4)],
      ''/app/Panel.utils.ts'' \<mapsto> firstModule ''any'' None]"

definition importCheck :: "body sourceFiles \<Rightarrow> string \<Rightarrow> body typeChecker" where
  "importCheck files path stmts =
     (if path = ''/app/Panel.utils.ts''
      then (let exported = (case files ''/app/Panel.types.ts'' of
                              Some types \<Rightarrow> ''User'' \<in> set (map typeName (filter typeIsExported (getInterfaces types)))
                            | None \<Rightarrow> False);
                elementType = (if exported then ''User'' else ''any'')
            in map (editDeclarations
                      (\<lambda>kind decl. decl\<lparr>declInitializer :=
                         map_option (\<lambda>initializer. firstArrow elementType
                                       (case initArrow initializer of
                                          Some arrowFunc \<Rightarrow> arrowReturnTypeNode arrowFunc
                                        | None \<Rightarrow> None))
                           (declInitializer decl)\<rparr>))
                 stmts)
      else stmts)"

definition importEnv :: "body analyzerEnv" where
  "importEnv = analyzerEnv\<lparr>typeCheck := importCheck\<rparr>"

text \<open>Surroundings in which the utilities file of the component cannot be saved.\<close>

definition dashboardUnwritableEnv :: "body env" where
  "dashboardUnwritableEnv = exampleEnv\<lparr>saveFails := (\<lambda>path. path = ''/app/Dashboard.utils.ts'')\<rparr>"

section \<open>Verified properties\<close>

subsection \<open>Import bindings\<close>

lemma set_foldl_setAdd: "set (foldl setAdd acc xs) = set acc \<union> set xs"
  by (induction xs arbitrary: acc) (auto simp: setAdd_def)

lemma distinct_foldl_setAdd: "distinct acc \<Longrightarrow> distinct (foldl setAdd acc xs)"
  by (induction xs arbitrary: acc) (auto simp: setAdd_def)

lemma set_fromSet: "set (fromSet xs) = set xs"
  by (simp add: fromSet_def set_foldl_setAdd)

lemma distinct_fromSet: "distinct (fromSet xs)"
  by (simp add: fromSet_def distinct_foldl_setAdd)

lemma getImportDeclarations_append:
  "getImportDeclarations (xs @ ys) = getImportDeclarations xs @ getImportDeclarations ys"
  by (simp add: getImportDeclarations_def)

lemma getImportDeclarations_no_import:
  "\<forall>s\<in>set xs. \<not> isImportDeclaration s \<Longrightarrow> getImportDeclarations xs = []"
  by (induction xs) (auto simp: getImportDeclarations_def isImportDeclaration_def split: statement.splits)

lemma drop_importInsertIndex:
  "getImportDeclarations (drop (importInsertIndex stmts) stmts) = []"
proof -
  let ?tw = "takeWhile (\<lambda>s. \<not> isImportDeclaration s) (rev stmts)"
  have "drop (length stmts - length ?tw) stmts = rev (take (length ?tw) (rev stmts))"
    by (simp add: rev_take)
  also have "take (length ?tw) (rev stmts) = ?tw"
    by (metis takeWhile_eq_take)
  finally have "drop (importInsertIndex stmts) stmts = rev ?tw"
    by (simp add: importInsertIndex_def)
  moreover have "\<forall>s\<in>set (rev ?tw). \<not> isImportDeclaration s"
    by (auto dest: set_takeWhileD)
  ultimately show ?thesis
    by (simp add: getImportDeclarations_no_import)
qed

lemma getImportDeclarations_add:
  "getImportDeclarations (addImportDeclaration spec names stmts) =
   getImportDeclarations stmts @ [\<lparr>moduleSpecifier = spec, namedImports = names, defaultImport = None\<rparr>]"
proof -
  let ?i = "importInsertIndex stmts"
  have "getImportDeclarations stmts = getImportDeclarations (take ?i stmts @ drop ?i stmts)"
    by simp
  also have "\<dots> = getImportDeclarations (take ?i stmts)"
    unfolding getImportDeclarations_append by (simp add: drop_importInsertIndex)
  finally have "getImportDeclarations (take ?i stmts) = getImportDeclarations stmts" by simp
  moreover have "getImportDeclarations (ImportDeclaration x # xs) = x # getImportDeclarations xs"
    for x :: importDecl and xs :: "'a statement list"
    by (simp add: getImportDeclarations_def)
  ultimately show ?thesis
    by (simp add: addImportDeclaration_def Let_def getImportDeclarations_append drop_importInsertIndex)
qed

lemma getImportDeclarations_remove1:
  "getImportDeclarations (remove1 (ImportDeclaration e) stmts) = remove1 e (getImportDeclarations stmts)"
  by (induction stmts) (auto simp: getImportDeclarations_def split: statement.splits)

lemma find_filter_conv:
  "find P xs = (case filter P xs of [] \<Rightarrow> None | x # _ \<Rightarrow> Some x)"
  by (induction xs) auto

lemma getImportDeclaration_importsOf:
  "getImportDeclaration spec stmts = (case importsOf spec stmts of [] \<Rightarrow> None | e # _ \<Rightarrow> Some e)"
  by (simp add: getImportDeclaration_def importsOf_def find_filter_conv)

lemma importsOf_add_other:
  "importsOf spec (addImportDeclaration spec' names stmts) =
     importsOf spec stmts @ (if spec' = spec then [\<lparr>moduleSpecifier = spec', namedImports = names, defaultImport = None\<rparr>] else [])"
  by (simp add: importsOf_def getImportDeclarations_add)

lemma importsOf_addOrUpdate_none:
  "importsOf spec stmts = [] \<Longrightarrow>
   importsOf spec (addOrUpdateNamedImport spec names stmts) =
     [\<lparr>moduleSpecifier = spec, namedImports = names, defaultImport = None\<rparr>]"
  by (simp add: addOrUpdateNamedImport_def getImportDeclaration_importsOf importsOf_add_other)

lemma importsOf_remove1:
  "moduleSpecifier e = spec \<Longrightarrow>
   importsOf spec (remove1 (ImportDeclaration e) stmts) = remove1 e (importsOf spec stmts)"
  by (simp add: importsOf_def getImportDeclarations_remove1 filter_remove1)

lemma importsOf_member_spec: "e \<in> set (importsOf spec stmts) \<Longrightarrow> moduleSpecifier e = spec"
  by (simp add: importsOf_def)

lemma importsOf_addOrUpdate_one:
  assumes "importsOf spec stmts = [e]"
  shows "importsOf spec (addOrUpdateNamedImport spec names stmts) =
     [\<lparr>moduleSpecifier = spec, namedImports = fromSet (namedImports e @ names), defaultImport = None\<rparr>]"
proof -
  have "moduleSpecifier e = spec" using assms importsOf_member_spec[of e spec stmts] by simp
  then show ?thesis using assms
    by (simp add: addOrUpdateNamedImport_def getImportDeclaration_importsOf importsOf_add_other
        importsOf_remove1 Let_def)
qed

lemma addHelperImport_eq: "addHelperImport spec names stmts = addOrUpdateNamedImport spec names stmts"
  by (simp add: addHelperImport_def addOrUpdateNamedImport_def)


lemma fold_import_one:
  assumes "importsOf spec stmts = [e]"
  shows "\<exists>i. importsOf spec (foldl (\<lambda>s ns. addOrUpdateNamedImport spec ns s) stmts nss) = [i]
           \<and> set (namedImports i) = set (namedImports e) \<union> \<Union> (set ` set nss)
           \<and> (distinct (namedImports e) \<or> nss \<noteq> [] \<longrightarrow> distinct (namedImports i))"
  using assms
proof (induction nss arbitrary: stmts e)
  case Nil
  then show ?case by simp
next
  case (Cons ns nss)
  let ?e' = "\<lparr>moduleSpecifier = spec, namedImports = fromSet (namedImports e @ ns), defaultImport = None\<rparr>"
  have "importsOf spec (addOrUpdateNamedImport spec ns stmts) = [?e']"
    using Cons.prems by (rule importsOf_addOrUpdate_one)
  from Cons.IH[OF this] show ?case
    by (auto simp: set_fromSet distinct_fromSet)
qed

text \<open>
  Claim C2. Let name lists \<open>N1, ..., Nk\<close> (\<open>k \<ge> 1\<close>, each without repetition) be added, one
  after the other, for the same module specifier to an origin module that holds at most one
  import declaration of that specifier. By \<open>addOrUpdateNamedImport\<close> of the top-level pass as
  by the import step of the nested pass, the module then holds exactly one import declaration
  of that specifier; its named imports are free of duplicates and are, as a set, the names
  that declaration held before together with the union of \<open>N1, ..., Nk\<close> (so exactly the
  union when there was no such import). The set is the same for every order of the additions.
\<close>

theorem import_merge_union:
  assumes "length (importsOf spec stmts) \<le> 1"
      and "nss \<noteq> []"
      and "\<forall>ns\<in>set nss. distinct ns"
  shows "\<exists>i. importsOf spec (foldl (\<lambda>s ns. addOrUpdateNamedImport spec ns s) stmts nss) = [i]
          \<and> importsOf spec (foldl (\<lambda>s ns. addHelperImport spec ns s) stmts nss) = [i]
          \<and> distinct (namedImports i)
          \<and> set (namedImports i) =
              \<Union> (set ` namedImports ` set (importsOf spec stmts)) \<union> \<Union> (set ` set nss)
          \<and> (\<forall>nss'. mset nss' = mset nss \<longrightarrow>
                (\<exists>j. importsOf spec (foldl (\<lambda>s ns. addOrUpdateNamedImport spec ns s) stmts nss') = [j]
                   \<and> set (namedImports j) = set (namedImports i)))"
proof -
  have helper: "(\<lambda>s ns. addHelperImport spec ns s) = (\<lambda>(s :: 'a statement list) ns. addOrUpdateNamedImport spec ns s)"
    by (simp add: addHelperImport_eq)
  have main: "\<exists>i. importsOf spec (foldl (\<lambda>s ns. addOrUpdateNamedImport spec ns s) stmts ms) = [i]
          \<and> distinct (namedImports i)
          \<and> set (namedImports i) =
              \<Union> (set ` namedImports ` set (importsOf spec stmts)) \<union> \<Union> (set ` set ms)"
    if ne: "ms \<noteq> []" and dist: "\<forall>ns\<in>set ms. distinct ns" for ms
  proof -
    from ne obtain ns rest where ms: "ms = ns # rest" by (cases ms) auto
    show ?thesis
    proof (cases "importsOf spec stmts")
      case Nil
      let ?e = "\<lparr>moduleSpecifier = spec, namedImports = ns, defaultImport = None\<rparr>"
      have "importsOf spec (addOrUpdateNamedImport spec ns stmts) = [?e]"
        using Nil by (rule importsOf_addOrUpdate_none)
      from fold_import_one[OF this, of rest] dist Nil show ?thesis
        by (auto simp: ms)
    next
      case (Cons e es)
      with assms(1) have one: "importsOf spec stmts = [e]" by simp
      from fold_import_one[OF one, of ms] ne one show ?thesis
        by auto
    qed
  qed
  from main[OF assms(2,3)] obtain i where
    i: "importsOf spec (foldl (\<lambda>s ns. addOrUpdateNamedImport spec ns s) stmts nss) = [i]"
       "distinct (namedImports i)"
       "set (namedImports i) = \<Union> (set ` namedImports ` set (importsOf spec stmts)) \<union> \<Union> (set ` set nss)"
    by blast
  have "\<exists>j. importsOf spec (foldl (\<lambda>s ns. addOrUpdateNamedImport spec ns s) stmts nss') = [j]
           \<and> set (namedImports j) = set (namedImports i)" if perm: "mset nss' = mset nss" for nss'
  proof -
    from perm have s: "set nss' = set nss" by (rule mset_eq_setD)
    with assms(2) have "nss' \<noteq> []" by auto
    moreover from s assms(3) have "\<forall>ns\<in>set nss'. distinct ns" by simp
    ultimately show ?thesis using main[of nss'] i(3) s by auto
  qed
  with i show ?thesis unfolding helper by blast
qed

theorem import_merge_union_witness:
  "\<exists>i. importsOf ''./Panel.utils''
          (foldl (\<lambda>s ns. addOrUpdateNamedImport ''./Panel.utils'' ns s) ([] :: unit statement list)
             [ [''getA'', ''getB''], [''getB'', ''formatC''] ]) = [i]
      \<and> distinct (namedImports i)
      \<and> set (namedImports i) = {''getA'', ''getB'', ''formatC''}"
  using import_merge_union[of "''./Panel.utils''" "[] :: unit statement list"
          "[ [''getA'', ''getB''], [''getB'', ''formatC''] ]"]
  by (auto simp: importsOf_def getImportDeclarations_def)

subsection \<open>The top-level pass leaves nothing to extract\<close>


lemma removeTypeNodes_mset:
  "removeTypeNodes cs stmts = Inr stmts' \<Longrightarrow>
   mset stmts' + mset (map (\<lambda>c. nodeStatement (candNode c)) (filter (\<lambda>c. isTypeNode (candNode c)) cs)) = mset stmts"
proof (induction cs arbitrary: stmts)
  case Nil
  then show ?case by simp
next
  case (Cons c cs)
  show ?case
  proof (cases "isForgotten (candNode c) stmts")
    case True
    with Cons.prems show ?thesis by simp
  next
    case False
    then have mem: "nodeStatement (candNode c) \<in># mset stmts" by (simp add: isForgotten_def)
    show ?thesis
    proof (cases "isTypeNode (candNode c)")
      case True
      with False Cons.prems have "removeTypeNodes cs (remove1 (nodeStatement (candNode c)) stmts) = Inr stmts'"
        by simp
      from Cons.IH[OF this] True mem show ?thesis
        by (simp add: union_assoc)
    next
      case nt: False
      with False Cons.prems have "removeTypeNodes cs stmts = Inr stmts'" by simp
      from Cons.IH[OF this] nt show ?thesis by simp
    qed
  qed
qed

lemma typeCands_functions:
  "filter (\<lambda>c. candType c = CandInterface \<or> candType c = CandType)
     (concat (map (functionCandidates opts) fs)) = []"
  by (induction fs) (auto simp: functionCandidates_def Let_def)

lemma candType_variableCandidates:
  "c \<in> set (variableCandidates opts s) \<Longrightarrow> candType c = CandVariable"
  by (auto simp: variableCandidates_def Let_def split: if_splits)

lemma typeCands_variables:
  "filter (\<lambda>c. candType c = CandInterface \<or> candType c = CandType)
     (concat (map (variableCandidates opts) vs)) = []"
  by (auto simp: filter_empty_conv dest: candType_variableCandidates)

lemma typeCands_interfaces:
  "filter (\<lambda>c. candType c = CandInterface \<or> candType c = CandType)
     (map interfaceCandidate ts) = map interfaceCandidate ts"
  by (induction ts) (auto simp: interfaceCandidate_def)

lemma typeCands_aliases:
  "filter (\<lambda>c. candType c = CandInterface \<or> candType c = CandType)
     (map typeAliasCandidate ts) = map typeAliasCandidate ts"
  by (induction ts) (auto simp: typeAliasCandidate_def)

lemma typeCandidatesOf_analyzeFile:
  "typeCandidatesOf (analyzeFile opts stmts) =
     map interfaceCandidate (getInterfaces stmts) @ map typeAliasCandidate (getTypeAliases stmts)"
  by (simp add: typeCandidatesOf_def analyzeFile_def typeCands_functions typeCands_variables
      typeCands_interfaces typeCands_aliases)

lemma type_statements_mset:
  "mset (map InterfaceDeclaration (getInterfaces stmts)) + mset (map TypeAliasDeclaration (getTypeAliases stmts))
     = filter_mset isTypeStatement (mset stmts)"
  by (induction stmts)
     (auto simp: getInterfaces_def getTypeAliases_def isTypeStatement_def split: statement.splits)


lemma removed_type_statements:
  "map (\<lambda>c. nodeStatement (candNode c))
     (filter (\<lambda>c. isTypeNode (candNode c)) (typeCandidatesOf (analyzeFile opts stmts)))
   = map InterfaceDeclaration (getInterfaces stmts) @ map TypeAliasDeclaration (getTypeAliases stmts)"
proof -
  have i: "filter (\<lambda>c. isTypeNode (candNode c)) (map interfaceCandidate ts) = map interfaceCandidate ts" for ts
    by (induction ts) (auto simp: interfaceCandidate_def isTypeNode_def)
  have a: "filter (\<lambda>c. isTypeNode (candNode c)) (map typeAliasCandidate ts) = map typeAliasCandidate ts" for ts
    by (induction ts) (auto simp: typeAliasCandidate_def isTypeNode_def)
  show ?thesis
    by (simp add: typeCandidatesOf_analyzeFile i a)
       (simp add: interfaceCandidate_def typeAliasCandidate_def nodeStatement_def comp_def)
qed

lemma mset_addImportDeclaration:
  "mset (addImportDeclaration spec names stmts) =
     add_mset (ImportDeclaration \<lparr>moduleSpecifier = spec, namedImports = names, defaultImport = None\<rparr>) (mset stmts)"
proof -
  have "mset (take i stmts) + mset (drop i stmts) = mset stmts" for i
    by (metis append_take_drop_id mset_append)
  then show ?thesis
    by (simp add: addImportDeclaration_def Let_def)
qed

lemma declarationsOf_addImportDeclaration:
  "mset (declarationsOf (addImportDeclaration spec names stmts)) = mset (declarationsOf stmts)"
proof -
  have "mset (declarationsOf xs) = filter_mset (\<lambda>s. \<not> isImportDeclaration s) (mset xs)"
    for xs :: "'a statement list"
    by (simp add: declarationsOf_def)
  then show ?thesis
    by (simp add: mset_addImportDeclaration isImportDeclaration_def)
qed

lemma declarationsOf_remove_import:
  "mset (declarationsOf (remove1 (ImportDeclaration e) stmts)) = mset (declarationsOf stmts)"
  by (induction stmts) (auto simp: declarationsOf_def isImportDeclaration_def)

lemma declarationsOf_addOrUpdateNamedImport:
  "mset (declarationsOf (addOrUpdateNamedImport spec names stmts)) = mset (declarationsOf stmts)"
  by (simp add: addOrUpdateNamedImport_def Let_def declarationsOf_addImportDeclaration
      declarationsOf_remove_import split: option.splits)

lemma declarationsOf_remove1:
  "\<not> isImportDeclaration s \<Longrightarrow> s \<in> set stmts \<Longrightarrow>
   add_mset s (mset (declarationsOf (remove1 s stmts))) = mset (declarationsOf stmts)"
  by (induction stmts) (auto simp: declarationsOf_def)


lemma mset_declarationsOf:
  "mset (declarationsOf stmts) = filter_mset (\<lambda>s. \<not> isImportDeclaration s) (mset stmts)"
  by (simp add: declarationsOf_def)

lemma type_statement_not_import: "isTypeStatement s \<Longrightarrow> \<not> isImportDeclaration s"
  by (auto simp: isTypeStatement_def isImportDeclaration_def split: statement.splits)

lemma type_statements_declarations:
  "filter_mset isTypeStatement (mset (declarationsOf stmts)) = filter_mset isTypeStatement (mset stmts)"
  by (induction stmts) (auto simp: declarationsOf_def dest: type_statement_not_import)

lemma extractTypes_declarations:
  assumes "extractTypes env opts (analyzeFile opts (sourceFile r)) r = Inr r1"
  shows "mset (declarationsOf (sourceFile r1)) =
           filter_mset (\<lambda>s. \<not> isTypeStatement s) (mset (declarationsOf (sourceFile r)))"
    and "diskSource (disk r1) = diskSource (disk r)"
proof -
  let ?T = "sourceFile r"
  let ?cs = "typeCandidatesOf (analyzeFile opts ?T)"
  let ?F = "filter_mset isTypeStatement (mset ?T)"
  have F: "mset (map (\<lambda>c. nodeStatement (candNode c)) (filter (\<lambda>c. isTypeNode (candNode c)) ?cs)) = ?F"
    using type_statements_mset[of "sourceFile r"] by (simp add: removed_type_statements)
  have part: "mset (declarationsOf ?T) =
        filter_mset isTypeStatement (mset (declarationsOf ?T))
        + filter_mset (\<lambda>s. \<not> isTypeStatement s) (mset (declarationsOf ?T))"
    by (rule multiset_partition)
  have both: "mset (declarationsOf (sourceFile r1)) =
           filter_mset (\<lambda>s. \<not> isTypeStatement s) (mset (declarationsOf (sourceFile r)))
         \<and> diskSource (disk r1) = diskSource (disk r)"
  proof (cases "?cs = []")
    case True
    with assms have "r1 = r" by (simp add: extractTypes_def Let_def)
    moreover from True F have Fe: "?F = {#}" by simp
    note part[unfolded type_statements_declarations Fe]
    ultimately show ?thesis by simp
  next
    case False
    with assms obtain stmts where
      rm: "removeTypeNodes ?cs ?T = Inr stmts"
      and r1: "sourceFile r1 = addOrUpdateNamedImport
                 (toModuleSpecifier env (targetFile opts) (typesFile opts)) (map candName ?cs) stmts"
              "diskSource (disk r1) = diskSource (disk r)"
      by (auto simp: extractTypes_def Let_def saveSync_def split: sum.splits if_splits)
    from removeTypeNodes_mset[OF rm] F have "mset stmts + ?F = mset ?T" by simp
    then have "filter_mset (\<lambda>s. \<not> isImportDeclaration s) (mset stmts + ?F)
                = filter_mset (\<lambda>s. \<not> isImportDeclaration s) (mset ?T)" by simp
    moreover have "filter_mset (\<lambda>s. \<not> isImportDeclaration s) ?F = ?F"
      by (rule filter_mset_eq_conv[THEN iffD2]) (auto dest: type_statement_not_import)
    ultimately have "mset (declarationsOf stmts) + ?F = mset (declarationsOf ?T)"
      by (simp add: mset_declarationsOf)
    with part have "mset (declarationsOf stmts) + ?F =
        filter_mset (\<lambda>s. \<not> isTypeStatement s) (mset (declarationsOf ?T)) + ?F"
      by (simp add: type_statements_declarations add.commute)
    then have "mset (declarationsOf stmts) =
        filter_mset (\<lambda>s. \<not> isTypeStatement s) (mset (declarationsOf ?T))"
      by (rule add_right_imp_eq)
    with r1 show ?thesis by (simp add: declarationsOf_addOrUpdateNamedImport)
  qed
  from both show "mset (declarationsOf (sourceFile r1)) =
           filter_mset (\<lambda>s. \<not> isTypeStatement s) (mset (declarationsOf (sourceFile r)))" by simp
  from both show "diskSource (disk r1) = diskSource (disk r)" by simp
qed

lemma extractUtilStatements_mset:
  "extractUtilStatements cs (stmts, ns, ts) = Inr (stmts', ns', ts') \<Longrightarrow>
   mset stmts' + mset (map (\<lambda>c. nodeStatement (candNode c)) cs) = mset stmts
   \<and> ns' = ns @ map candName cs"
proof (induction cs arbitrary: stmts ns ts)
  case Nil
  then show ?case by simp
next
  case (Cons c cs)
  from Cons.prems have alive: "nodeStatement (candNode c) \<in># mset stmts"
    by (auto simp: isForgotten_def split: if_splits)
  from Cons.prems obtain s d where node: "candNode c = VariableDeclarationNode s d"
    by (cases "candNode c") (auto split: if_splits)
  with Cons.prems have
    "extractUtilStatements cs (remove1 s stmts, ns @ [candName c], ts @ [exportConst (getText s)]) = Inr (stmts', ns', ts')"
    by (auto simp: Let_def split: if_splits)
  from Cons.IH[OF this] alive node show ?case
    by (simp add: nodeStatement_def union_assoc)
qed

lemma candType_functionCandidates:
  "c \<in> set (functionCandidates opts f) \<Longrightarrow> candType c = CandFunction"
  by (auto simp: functionCandidates_def Let_def split: if_splits)

lemma utilitiesOf_not_variable: "\<not> isVariableStatement s \<Longrightarrow> utilitiesOf opts s = []"
  by (simp add: utilitiesOf_def)

lemma utilCandidatesOf_analyzeFile:
  "utilCandidatesOf opts (analyzeFile opts stmts) = concat (map (utilitiesOf opts) stmts)"
proof -
  have f: "filter (\<lambda>c. candType c = CandVariable \<and> utilNamePattern opts (candName c))
             (concat (map (functionCandidates opts) fs)) = []" for fs
    by (auto simp: filter_empty_conv dest: candType_functionCandidates)
  have i: "filter (\<lambda>c. candType c = CandVariable \<and> utilNamePattern opts (candName c))
             (map interfaceCandidate ts) = []" for ts
    by (auto simp: filter_empty_conv interfaceCandidate_def)
  have a: "filter (\<lambda>c. candType c = CandVariable \<and> utilNamePattern opts (candName c))
             (map typeAliasCandidate ts) = []" for ts
    by (auto simp: filter_empty_conv typeAliasCandidate_def)
  have v1: "filter (\<lambda>c. candType c = CandVariable \<and> utilNamePattern opts (candName c))
             (variableCandidates opts s) = filter (\<lambda>c. utilNamePattern opts (candName c)) (variableCandidates opts s)" for s
    by (rule filter_cong) (auto dest: candType_variableCandidates)
  have v: "filter (\<lambda>c. candType c = CandVariable \<and> utilNamePattern opts (candName c))
             (concat (map (variableCandidates opts) (getVariableStatements xs))) = concat (map (utilitiesOf opts) xs)" for xs
    by (induction xs) (auto simp: getVariableStatements_def v1 utilitiesOf_def)
  show ?thesis
    by (simp add: utilCandidatesOf_def analyzeFile_def f i a v)
qed

lemma utilitiesOf_parent:
  "c \<in> set (utilitiesOf opts s) \<Longrightarrow> nodeStatement (candNode c) = s"
  by (auto simp: utilitiesOf_def variableCandidates_def Let_def nodeStatement_def split: if_splits)

lemma utilitiesOf_parents:
  "map (\<lambda>c. nodeStatement (candNode c)) (utilitiesOf opts s) = replicate (length (utilitiesOf opts s)) s"
proof -
  have "\<forall>y\<in>set (map (\<lambda>c. nodeStatement (candNode c)) (utilitiesOf opts s)). y = s"
    by (auto dest: utilitiesOf_parent)
  from replicate_length_same[OF this] show ?thesis by simp
qed

lemma count_utility_parents:
  "count (mset (map (\<lambda>c. nodeStatement (candNode c)) (concat (map (utilitiesOf opts) stmts)))) S
     = count (mset stmts) S * length (utilitiesOf opts S)"
  by (induction stmts) (auto simp: utilitiesOf_parents)

lemma import_is_settled:
  "isImportDeclaration s \<Longrightarrow> \<not> isTypeStatement s \<and> utilitiesOf opts s = []"
  by (auto simp: isImportDeclaration_def isTypeStatement_def utilitiesOf_def isVariableStatement_def
      split: statement.splits)

lemma count_declarationsOf:
  "\<not> isImportDeclaration s \<Longrightarrow> count (mset (declarationsOf stmts)) s = count (mset stmts) s"
  by (simp add: mset_declarationsOf)

lemma extractUtilities_settled:
  assumes run: "extractUtilities env opts (analyzeFile opts T0) r1 = Inr r2"
      and D1: "mset (declarationsOf (sourceFile r1)) =
                 filter_mset (\<lambda>s. \<not> isTypeStatement s) (mset (declarationsOf T0))"
  shows "settled opts (sourceFile r2)
         \<and> mset (declarationsOf (sourceFile r2)) \<subseteq># mset (declarationsOf T0)
         \<and> diskSource (disk r2) = diskSource (disk r1)"
proof -
  let ?cs = "utilCandidatesOf opts (analyzeFile opts T0)"
  let ?U = "mset (map (\<lambda>c. nodeStatement (candNode c)) ?cs)"
  have cs: "?cs = concat (map (utilitiesOf opts) T0)" by (rule utilCandidatesOf_analyzeFile)
  have sub1: "mset (declarationsOf (sourceFile r1)) \<subseteq># mset (declarationsOf T0)"
    unfolding D1 by (rule multiset_filter_subset)
  show ?thesis
  proof (cases "?cs = []")
    case True
    with run have r2: "r2 = r1" by (simp add: extractUtilities_def Let_def)
    have "\<not> isTypeStatement s \<and> utilitiesOf opts s = []" if s: "s \<in> set (sourceFile r1)" for s
    proof (cases "isImportDeclaration s")
      case True
      then show ?thesis by (rule import_is_settled)
    next
      case False
      with s have "s \<in># mset (declarationsOf (sourceFile r1))" by (simp add: declarationsOf_def)
      then have "s \<in># filter_mset (\<lambda>s. \<not> isTypeStatement s) (mset (declarationsOf T0))"
        by (simp only: D1)
      then have "\<not> isTypeStatement s" "s \<in> set T0" by (auto simp: declarationsOf_def)
      moreover from True cs have "\<forall>x\<in>set T0. utilitiesOf opts x = []" by simp
      ultimately show ?thesis by simp
    qed
    then have "settled opts (sourceFile r1)" by (simp add: settled_def list_all_iff)
    with r2 sub1 show ?thesis by simp
  next
    case False
    with run obtain stmts ns ts where
      loop: "extractUtilStatements ?cs (sourceFile r1, [], []) = Inr (stmts, ns, ts)"
      and r2: "sourceFile r2 = (if length ns > 0
                 then addOrUpdateNamedImport (toModuleSpecifier env (targetFile opts) (utilsFile opts)) ns stmts
                 else stmts)"
              "diskSource (disk r2) = diskSource (disk r1)"
      by (auto simp: extractUtilities_def Let_def saveSync_def split: sum.splits if_splits prod.splits)
    from extractUtilStatements_mset[OF loop]
    have m: "mset stmts + ?U = mset (sourceFile r1)" by simp
    have D2: "mset (declarationsOf (sourceFile r2)) = mset (declarationsOf stmts)"
      using r2 by (simp add: declarationsOf_addOrUpdateNamedImport)
    from m have "mset stmts \<subseteq># mset (sourceFile r1)" by (metis mset_subset_eq_add_left)
    then have "filter_mset (\<lambda>s. \<not> isImportDeclaration s) (mset stmts)
                 \<subseteq># filter_mset (\<lambda>s. \<not> isImportDeclaration s) (mset (sourceFile r1))"
      by (rule multiset_filter_mono)
    then have sub2: "mset (declarationsOf stmts) \<subseteq># mset (declarationsOf (sourceFile r1))"
      by (simp add: mset_declarationsOf)
    have "\<not> isTypeStatement s \<and> utilitiesOf opts s = []" if s: "s \<in> set (sourceFile r2)" for s
    proof (cases "isImportDeclaration s")
      case True
      then show ?thesis by (rule import_is_settled)
    next
      case ni: False
      with s have "s \<in># mset (declarationsOf (sourceFile r2))" by (simp add: declarationsOf_def)
      with D2 have in2: "s \<in># mset (declarationsOf stmts)" by simp
      with sub2 have in1: "s \<in># mset (declarationsOf (sourceFile r1))" by (rule mset_subset_eqD)
      then have "s \<in># filter_mset (\<lambda>s. \<not> isTypeStatement s) (mset (declarationsOf T0))"
        by (simp only: D1)
      then have nt: "\<not> isTypeStatement s" by simp
      have "utilitiesOf opts s = []"
      proof (rule ccontr)
        assume "utilitiesOf opts s \<noteq> []"
        then have "1 \<le> length (utilitiesOf opts s)" by (cases "utilitiesOf opts s") auto
        then have "count (mset T0) s * 1 \<le> count (mset T0) s * length (utilitiesOf opts s)"
          by (rule mult_le_mono2)
        then have "count (mset T0) s \<le> count ?U s"
          unfolding cs count_utility_parents by simp
        moreover have "count (mset (sourceFile r1)) s \<le> count (mset T0) s"
          using mset_subset_eq_count[OF sub1, of s] ni by (simp add: count_declarationsOf)
        moreover from m have "count (mset stmts) s + count ?U s = count (mset (sourceFile r1)) s"
          by (metis count_union)
        ultimately have "count (mset stmts) s = 0" by linarith
        moreover from in2 have "s \<in> set stmts" by (simp add: declarationsOf_def)
        ultimately show False by (simp add: count_eq_zero_iff)
      qed
      with nt show ?thesis by simp
    qed
    then have "settled opts (sourceFile r2)" by (simp add: settled_def list_all_iff)
    moreover from D2 sub2 sub1 have "mset (declarationsOf (sourceFile r2)) \<subseteq># mset (declarationsOf T0)"
      by (metis subset_mset.order_trans)
    ultimately show ?thesis using r2 by simp
  qed
qed

lemma no_type_statements:
  "\<forall>s\<in>set stmts. \<not> isTypeStatement s \<Longrightarrow> getInterfaces stmts = [] \<and> getTypeAliases stmts = []"
  by (induction stmts)
     (auto simp: getInterfaces_def getTypeAliases_def isTypeStatement_def split: statement.splits)

lemma settled_no_candidates:
  assumes "settled opts stmts"
  shows "typeCandidatesOf (analyzeFile opts stmts) = []"
    and "utilCandidatesOf opts (analyzeFile opts stmts) = []"
proof -
  from assms have a: "\<forall>s\<in>set stmts. \<not> isTypeStatement s" and b: "\<forall>s\<in>set stmts. utilitiesOf opts s = []"
    by (auto simp: settled_def list_all_iff)
  from no_type_statements[OF a] show "typeCandidatesOf (analyzeFile opts stmts) = []"
    by (simp add: typeCandidatesOf_analyzeFile)
  from b show "utilCandidatesOf opts (analyzeFile opts stmts) = []"
    by (simp add: utilCandidatesOf_analyzeFile)
qed

lemma main_settled:
  assumes "settled opts (diskSource d)" and "\<not> saveFails env (targetFile opts)"
  shows "main env opts d = Inr d"
  using settled_no_candidates[OF assms(1)] assms(2)
  by (simp add: main_def Let_def newRefactorer_def extractTypes_def extractUtilities_def save_def)

lemma main_success:
  assumes "main env opts d = Inr d'"
  shows "settled opts (diskSource d') \<and> \<not> saveFails env (targetFile opts)
         \<and> mset (declarationsOf (diskSource d')) \<subseteq># mset (declarationsOf (diskSource d))"
proof -
  let ?r = "newRefactorer env d"
  have src: "sourceFile ?r = diskSource d" by (simp add: newRefactorer_def)
  from assms obtain r1 r2 where
    t: "extractTypes env opts (analyzeFile opts (sourceFile ?r)) ?r = Inr r1"
    and u: "extractUtilities env opts (analyzeFile opts (sourceFile ?r)) r1 = Inr r2"
    and s: "save env opts r2 = Inr d'"
    by (auto simp: main_def Let_def split: sum.splits)
  from extractTypes_declarations(1)[OF t]
  have D1: "mset (declarationsOf (sourceFile r1)) =
              filter_mset (\<lambda>s. \<not> isTypeStatement s) (mset (declarationsOf (diskSource d)))"
    by (simp add: src)
  from u have u': "extractUtilities env opts (analyzeFile opts (diskSource d)) r1 = Inr r2"
    by (simp add: src)
  note extractUtilities_settled[OF u' D1]
  moreover from s have "\<not> saveFails env (targetFile opts)" "diskSource d' = sourceFile r2"
    by (auto simp: save_def split: if_splits)
  ultimately show ?thesis by simp
qed

lemma set_getFunctions: "set (getFunctions stmts) = {f. FunctionDeclaration f \<in> set stmts}"
  by (induction stmts) (auto simp: getFunctions_def split: statement.splits)

lemma set_getInterfaces: "set (getInterfaces stmts) = {t. InterfaceDeclaration t \<in> set stmts}"
  by (induction stmts) (auto simp: getInterfaces_def split: statement.splits)

lemma set_getTypeAliases: "set (getTypeAliases stmts) = {t. TypeAliasDeclaration t \<in> set stmts}"
  by (induction stmts) (auto simp: getTypeAliases_def split: statement.splits)

lemma statementCandidates_import [simp]: "statementCandidates opts (ImportDeclaration i) = []"
  by (simp add: statementCandidates_def)

lemma set_concat_functions:
  "set (concat (map (functionCandidates opts) (getFunctions stmts)))
     = (\<Union>s\<in>set stmts. case s of FunctionDeclaration f \<Rightarrow> set (functionCandidates opts f) | _ \<Rightarrow> {})"
  by (induction stmts) (auto simp: getFunctions_def split: statement.splits)

lemma set_concat_variables:
  "set (concat (map (variableCandidates opts) (getVariableStatements stmts)))
     = (\<Union>s\<in>set stmts. case s of VariableStatement k ds t \<Rightarrow> set (variableCandidates opts s) | _ \<Rightarrow> {})"
  by (induction stmts) (auto simp: getVariableStatements_def isVariableStatement_def split: statement.splits)

lemma set_map_interfaces:
  "set (map interfaceCandidate (getInterfaces stmts))
     = (\<Union>s\<in>set stmts. case s of InterfaceDeclaration t \<Rightarrow> {interfaceCandidate t} | _ \<Rightarrow> {})"
  by (induction stmts) (auto simp: getInterfaces_def split: statement.splits)

lemma set_map_aliases:
  "set (map typeAliasCandidate (getTypeAliases stmts))
     = (\<Union>s\<in>set stmts. case s of TypeAliasDeclaration t \<Rightarrow> {typeAliasCandidate t} | _ \<Rightarrow> {})"
  by (induction stmts) (auto simp: getTypeAliases_def split: statement.splits)

lemma set_analyzeFile:
  "set (analyzeFile opts stmts) = (\<Union>s\<in>set stmts. set (statementCandidates opts s))"
proof -
  have "set (statementCandidates opts s) =
      (case s of FunctionDeclaration f \<Rightarrow> set (functionCandidates opts f) | _ \<Rightarrow> {})
      \<union> (case s of VariableStatement k ds t \<Rightarrow> set (variableCandidates opts s) | _ \<Rightarrow> {})
      \<union> (case s of InterfaceDeclaration t \<Rightarrow> {interfaceCandidate t} | _ \<Rightarrow> {})
      \<union> (case s of TypeAliasDeclaration t \<Rightarrow> {typeAliasCandidate t} | _ \<Rightarrow> {})" for s :: "'a statement"
    by (cases s) (simp_all add: statementCandidates_def)
  then show ?thesis
    unfolding analyzeFile_def set_append set_concat_functions set_concat_variables
      set_map_interfaces set_map_aliases
    by (simp add: UN_Un_distrib Un_assoc)
qed

lemma exportedTypeText_idem: "exportedTypeText (exportedTypeText text) = exportedTypeText text"
  by (simp add: exportedTypeText_def startsWith_def)

lemma exportedTypeText_exported: "startsWith text ''export '' \<Longrightarrow> exportedTypeText text = text"
  by (simp add: exportedTypeText_def)

lemma exportConst_idem: "exportConst (exportConst text) = exportConst text"
  by (simp add: exportConst_def startsWith_def)

subsection \<open>Evaluating the scripts on the example modules\<close>

lemmas tree_defs =
  getFunctions_def getVariableStatements_def getInterfaces_def getTypeAliases_def
  getVariableDeclarations_def isVariableStatement_def getDeclarations_def getText_def nodeText_def
  getImportDeclaration_def getImportDeclarations_def addImportDeclaration_def importInsertIndex_def
  isImportDeclaration_def addOrUpdateNamedImport_def addHelperImport_def fromSet_def setAdd_def
  importsOf_def

lemmas text_defs =
  startsWith_def endsWith_def suffix_to_prefix stripSourceExtension_def replaceBackslashes_def
  toModuleSpecifier_def

lemmas pass1_defs =
  main_def newRefactorer_def extractTypes_def extractUtilities_def save_def saveSync_def
  analyzeFile_def functionCandidates_def variableCandidates_def interfaceCandidate_def
  typeAliasCandidate_def getNodeLineCount_def getStartLineNumber_def getEndLineNumber_def
  typeCandidatesOf_def utilCandidatesOf_def isForgotten_def nodeStatement_def isTypeNode_def
  getExportedTypeNames_def exportConst_def

lemmas content_defs =
  typesContentOf_def utilsContentOf_def typesHeader_def utilsHeader_def exportedTypeText_def
  typeImportLine_def newline_def parseLines_def parseLine_def typeDeclOfLine_def

lemmas example_defs =
  exampleEnv_def exampleOptions_def defaultUtilPattern_def declOf_def interfaceOf_def
  functionOf_def arrowOf_def numberOf_def

lemma panel_run: "main exampleEnv exampleOptions panelDisk = Inr panelDiskAfter"
  by (simp add: pass1_defs content_defs tree_defs text_defs example_defs panelDisk_def panelModule_def
      panelDiskAfter_def panelTypesText_def panelUtilsText_def Let_def)

subsection \<open>Claims about the top-level pass\<close>

text \<open>
  Claim C1. When a run of the top-level pass (\<open>main\<close> of refactor-tsx.ts) has succeeded, a
  second run on what it persisted, with the same options and surroundings, succeeds and
  leaves the persisted state exactly as it found it: the origin module with its import
  declarations and the target files are unchanged. The second run has no type candidate and
  no utility candidate to extract, and every candidate \<open>analyzeFile\<close> reports in it was
  already a candidate of the first run. Exporting a text that is already exported changes
  nothing, for the types as for the utilities, and a type declaration whose text begins
  with \<open>export\<close> is copied as it is.
\<close>

theorem toplevel_extraction_idempotent:
  assumes "main env opts d = Inr d'"
  shows "main env opts d' = Inr d'
       \<and> typeCandidatesOf (analyzeFile opts (diskSource d')) = []
       \<and> utilCandidatesOf opts (analyzeFile opts (diskSource d')) = []
       \<and> set (analyzeFile opts (diskSource d')) \<subseteq> set (analyzeFile opts (diskSource d))
       \<and> getImportDeclarations (diskSource (diskAfter (main env opts d'))) = getImportDeclarations (diskSource d')
       \<and> diskFiles (diskAfter (main env opts d')) = diskFiles d'
       \<and> (\<forall>text. exportedTypeText (exportedTypeText text) = exportedTypeText text
                \<and> exportConst (exportConst text) = exportConst text
                \<and> (startsWith text ''export '' \<longrightarrow> exportedTypeText text = text))"
proof -
  from main_success[OF assms] have
    st: "settled opts (diskSource d')" and sv: "\<not> saveFails env (targetFile opts)"
    and sub: "mset (declarationsOf (diskSource d')) \<subseteq># mset (declarationsOf (diskSource d))"
    by simp_all
  from main_settled[OF st sv] have again: "main env opts d' = Inr d'" .
  have "set (analyzeFile opts (diskSource d')) \<subseteq> set (analyzeFile opts (diskSource d))"
  proof
    fix c assume "c \<in> set (analyzeFile opts (diskSource d'))"
    then obtain s where s: "s \<in> set (diskSource d')" "c \<in> set (statementCandidates opts s)"
      by (auto simp: set_analyzeFile)
    then have "\<not> isImportDeclaration s"
      by (auto simp: isImportDeclaration_def split: statement.splits)
    with s have "s \<in># mset (declarationsOf (diskSource d'))" by (simp add: declarationsOf_def)
    with sub have "s \<in># mset (declarationsOf (diskSource d))" by (rule mset_subset_eqD)
    then have "s \<in> set (diskSource d)" by (simp add: declarationsOf_def)
    with s show "c \<in> set (analyzeFile opts (diskSource d))" by (auto simp: set_analyzeFile)
  qed
  with again settled_no_candidates[OF st] show ?thesis
    by (simp add: diskAfter_def exportedTypeText_idem exportConst_idem exportedTypeText_exported)
qed

theorem toplevel_extraction_idempotent_witness:
  "main exampleEnv exampleOptions panelDisk = Inr panelDiskAfter
   \<and> main exampleEnv exampleOptions panelDiskAfter = Inr panelDiskAfter
   \<and> typeCandidatesOf (analyzeFile exampleOptions (diskSource panelDiskAfter)) = []
   \<and> utilCandidatesOf exampleOptions (analyzeFile exampleOptions (diskSource panelDiskAfter)) = []
   \<and> set (analyzeFile exampleOptions (diskSource panelDiskAfter))
        \<subseteq> set (analyzeFile exampleOptions (diskSource panelDisk))"
  using toplevel_extraction_idempotent[OF panel_run] panel_run by simp

lemma extractTypes_failure:
  "extractTypes env opts cs r = Inl (e, dd) \<Longrightarrow> dd = disk r"
  by (auto simp: extractTypes_def Let_def saveSync_def split: if_splits sum.splits)

lemma extractTypes_saved:
  "extractTypes env opts cs r = Inr r1 \<Longrightarrow>
     diskSource (disk r1) = diskSource (disk r)
     \<and> (typeCandidatesOf cs = [] \<or> \<not> saveFails env (typesFile opts))"
  by (auto simp: extractTypes_def Let_def saveSync_def split: if_splits sum.splits)

lemma extractTypes_unwritable:
  "typeCandidatesOf cs \<noteq> [] \<Longrightarrow> saveFails env (typesFile opts) \<Longrightarrow>
     \<exists>e. extractTypes env opts cs r = Inl (e, disk r)"
  by (auto simp: extractTypes_def Let_def saveSync_def split: if_splits sum.splits)

lemma extractUtilities_failure:
  "extractUtilities env opts cs r = Inl (e, dd) \<Longrightarrow> dd = disk r"
  by (auto simp: extractUtilities_def Let_def saveSync_def split: if_splits sum.splits prod.splits)

lemma extractUtilities_saved:
  "extractUtilities env opts cs r = Inr r2 \<Longrightarrow>
     diskSource (disk r2) = diskSource (disk r)
     \<and> (utilCandidatesOf opts cs = [] \<or> \<not> saveFails env (utilsFile opts))"
  by (auto simp: extractUtilities_def Let_def saveSync_def split: if_splits sum.splits prod.splits)

lemma extractUtilities_unwritable:
  "utilCandidatesOf opts cs \<noteq> [] \<Longrightarrow> saveFails env (utilsFile opts) \<Longrightarrow>
     \<exists>e. extractUtilities env opts cs r = Inl (e, disk r)"
  by (auto simp: extractUtilities_def Let_def saveSync_def split: if_splits sum.splits prod.splits)

lemma save_failure: "save env opts r = Inl (e, dd) \<Longrightarrow> dd = disk r"
  by (auto simp: save_def split: if_splits)

lemma main_failure_keeps_origin:
  assumes "main env opts d = Inl (e, dd)"
  shows "diskSource dd = diskSource d"
proof -
  let ?r = "newRefactorer env d"
  let ?cs = "analyzeFile opts (sourceFile ?r)"
  have d0: "disk ?r = d" by (simp add: newRefactorer_def)
  show ?thesis
  proof (cases "extractTypes env opts ?cs ?r")
    case (Inl f)
    with assms have "extractTypes env opts ?cs ?r = Inl (e, dd)" by (simp add: main_def Let_def)
    from extractTypes_failure[OF this] d0 show ?thesis by simp
  next
    case t: (Inr r1)
    from extractTypes_saved[OF t] d0 have s1: "diskSource (disk r1) = diskSource d" by simp
    show ?thesis
    proof (cases "extractUtilities env opts ?cs r1")
      case (Inl f)
      with t assms have "extractUtilities env opts ?cs r1 = Inl (e, dd)" by (simp add: main_def Let_def)
      from extractUtilities_failure[OF this] s1 show ?thesis by simp
    next
      case u: (Inr r2)
      from extractUtilities_saved[OF u] s1 have s2: "diskSource (disk r2) = diskSource d" by simp
      from t u assms have "save env opts r2 = Inl (e, dd)" by (simp add: main_def Let_def)
      from save_failure[OF this] s2 show ?thesis by simp
    qed
  qed
qed

lemma main_types_unwritable:
  assumes "typeCandidatesOf (analyzeFile opts (diskSource d)) \<noteq> []" and "saveFails env (typesFile opts)"
  shows "\<exists>e. main env opts d = Inl (e, d)"
proof -
  let ?r = "newRefactorer env d"
  have "sourceFile ?r = diskSource d" "disk ?r = d" by (simp_all add: newRefactorer_def)
  with extractTypes_unwritable[OF _ assms(2), of "analyzeFile opts (sourceFile ?r)" ?r] assms(1)
  show ?thesis by (auto simp: main_def Let_def)
qed

lemma main_utils_unwritable:
  assumes "utilCandidatesOf opts (analyzeFile opts (diskSource d)) \<noteq> []" and "saveFails env (utilsFile opts)"
  shows "\<exists>e dd. main env opts d = Inl (e, dd) \<and> diskSource dd = diskSource d"
proof -
  let ?r = "newRefactorer env d"
  let ?cs = "analyzeFile opts (sourceFile ?r)"
  have src: "sourceFile ?r = diskSource d" by (simp add: newRefactorer_def)
  have "\<exists>e dd. main env opts d = Inl (e, dd)"
  proof (cases "extractTypes env opts ?cs ?r")
    case (Inl f)
    then show ?thesis by (cases f) (simp add: main_def Let_def)
  next
    case (Inr r1)
    with extractUtilities_unwritable[OF _ assms(2), of ?cs r1] assms(1) src
    show ?thesis by (auto simp: main_def Let_def)
  qed
  then obtain e dd where "main env opts d = Inl (e, dd)" by blast
  with main_failure_keeps_origin[OF this] show ?thesis by blast
qed

lemma main_success_saved:
  assumes "main env opts d = Inr d'"
  shows "(typeCandidatesOf (analyzeFile opts (diskSource d)) = [] \<or> \<not> saveFails env (typesFile opts))
       \<and> (utilCandidatesOf opts (analyzeFile opts (diskSource d)) = [] \<or> \<not> saveFails env (utilsFile opts))"
proof -
  let ?r = "newRefactorer env d"
  have src: "sourceFile ?r = diskSource d" by (simp add: newRefactorer_def)
  from assms obtain r1 r2 where
    t: "extractTypes env opts (analyzeFile opts (sourceFile ?r)) ?r = Inr r1"
    and u: "extractUtilities env opts (analyzeFile opts (sourceFile ?r)) r1 = Inr r2"
    by (auto simp: main_def Let_def split: sum.splits)
  from extractTypes_saved[OF t] extractUtilities_saved[OF u] src show ?thesis by simp
qed

lemma panel_type_candidates:
  "typeCandidatesOf (analyzeFile exampleOptions (diskSource panelDisk)) \<noteq> []"
  by (simp add: pass1_defs tree_defs example_defs panelDisk_def panelModule_def Let_def)

lemma panel_util_candidates:
  "utilCandidatesOf exampleOptions (analyzeFile exampleOptions (diskSource panelDisk)) \<noteq> []"
  by (simp add: pass1_defs tree_defs text_defs example_defs panelDisk_def panelModule_def Let_def)

subsection \<open>What the passes write to the target modules\<close>

lemma saveSourceFile_diskFiles:
  "diskFiles (outcomeDisk (saveSourceFile env opts r)) = diskFiles (disk r)"
  by (simp add: saveSourceFile_def outcomeDisk_def)

lemma save_diskFiles: "diskFiles (diskAfter (save env opts r)) = diskFiles (disk r)"
  by (simp add: save_def diskAfter_def)

lemma extractHelperFunctions_writes:
  assumes hs: "helpersOfModule (helperNamePattern opts) (sourceFile r) \<noteq> []"
      and ok: "\<not> saveFails env (utilsFile opts)"
  shows "diskFiles (outcomeDisk (extractHelperFunctions env opts r)) (utilsFile opts) =
           Some (helperUtilsContent
                   (case projectFiles r (utilsFile opts) of Some fullText \<Rightarrow> fullText | None \<Rightarrow> [])
                   (helpersOfModule (helperNamePattern opts) (sourceFile r)))"
proof -
  from hs obtain c statements where
    c: "findComponent (sourceFile r) = Some c" and b: "componentBlock c = Some statements"
    and h: "helpersOfModule (helperNamePattern opts) (sourceFile r) = findHelperFunctions (helperNamePattern opts) statements"
    by (auto simp: helpersOfModule_def split: option.splits)
  let ?hs = "findHelperFunctions (helperNamePattern opts) statements"
  let ?content = "helperUtilsContent
                   (case projectFiles r (utilsFile opts) of Some fullText \<Rightarrow> fullText | None \<Rightarrow> []) ?hs"
  have ex: "existingUtilsContent env opts r (utilsFile opts) =
              (case projectFiles r (utilsFile opts) of Some fullText \<Rightarrow> fullText | None \<Rightarrow> [])"
    by (simp add: existingUtilsContent_def getSourceFile_def)
  from hs h have ne: "length ?hs \<noteq> 0" by simp
  show ?thesis
    using c b ne ok
    by (auto simp: extractHelperFunctions_def Let_def ex saveSync_def outcomeDisk_def
          saveSourceFile_def h split: sum.splits)
qed

lemma main2_writes:
  assumes hs: "helpersOfModule (helperNamePattern opts) (diskSource d) \<noteq> []"
      and ok: "\<not> saveFails env (utilsFile opts)"
  shows "diskFiles (diskAfter (main2 env opts d)) (utilsFile opts) =
           Some (helperUtilsContent
                   (case (if inProject env (utilsFile opts) then diskFiles d (utilsFile opts) else None) of
                      Some fullText \<Rightarrow> fullText | None \<Rightarrow> [])
                   (helpersOfModule (helperNamePattern opts) (diskSource d)))"
proof -
  let ?r = "newRefactorer env d"
  have r: "sourceFile ?r = diskSource d"
          "projectFiles ?r (utilsFile opts) = (if inProject env (utilsFile opts) then diskFiles d (utilsFile opts) else None)"
    by (simp_all add: newRefactorer_def)
  from hs have hs': "helpersOfModule (helperNamePattern opts) (sourceFile ?r) \<noteq> []" by (simp add: r)
  note w = extractHelperFunctions_writes[OF hs' ok, unfolded r]
  show ?thesis
  proof (cases "extractHelperFunctions env opts ?r")
    case (Inl f)
    with w show ?thesis by (simp add: main2_def diskAfter_def outcomeDisk_def)
  next
    case (Inr r')
    with w show ?thesis by (simp add: main2_def save_diskFiles outcomeDisk_def)
  qed
qed


lemma extractTypes_content:
  "typeCandidatesOf cs \<noteq> [] \<Longrightarrow> \<not> isl (extractTypes env opts cs r) \<Longrightarrow>
   diskFiles (outcomeDisk (extractTypes env opts cs r)) (typesFile opts)
     = Some (typesContentOf (typeCandidatesOf cs))"
  by (auto simp: extractTypes_def Let_def saveSync_def outcomeDisk_def split: sum.splits if_splits)

lemma extractUtilStatements_texts:
  "extractUtilStatements cs (stmts, ns, ts) = Inr (stmts', ns', ts') \<Longrightarrow>
   ts' = ts @ map (\<lambda>c. exportConst (getText (nodeStatement (candNode c)))) cs"
proof (induction cs arbitrary: stmts ns ts)
  case Nil
  then show ?case by simp
next
  case (Cons c cs)
  from Cons.prems obtain s d where node: "candNode c = VariableDeclarationNode s d"
    by (cases "candNode c") (auto split: if_splits)
  with Cons.prems have
    "extractUtilStatements cs (remove1 s stmts, ns @ [candName c], ts @ [exportConst (getText s)]) = Inr (stmts', ns', ts')"
    by (auto simp: Let_def split: if_splits)
  from Cons.IH[OF this] node show ?case by (simp add: nodeStatement_def)
qed

lemma extractUtilities_content:
  "utilCandidatesOf opts cs \<noteq> [] \<Longrightarrow> \<not> isl (extractUtilities env opts cs r) \<Longrightarrow>
   diskFiles (outcomeDisk (extractUtilities env opts cs r)) (utilsFile opts)
     = Some (utilsContentOf
               (getExportedTypeNames env opts (r\<lparr>projectFiles := (projectFiles r)(utilsFile opts \<mapsto> [])\<rparr>))
               (toModuleSpecifier env (utilsFile opts) (typesFile opts))
               (map (\<lambda>c. exportConst (getText (nodeStatement (candNode c)))) (utilCandidatesOf opts cs)))"
  by (auto simp: extractUtilities_def Let_def saveSync_def outcomeDisk_def
        dest!: extractUtilStatements_texts split: sum.splits if_splits prod.splits)

lemma helperUtilsContent_prefix: "prefix existing (helperUtilsContent existing helperFunctions)"
  by (simp add: helperUtilsContent_def Let_def)

lemmas pass2_defs =
  main2_def extractHelperFunctions_def helpersOfModule_def findComponent_def componentBlock_def
  isArrowInitialized_def findHelperFunctions_def helpersOfStatement_def exportHelper_def
  isWhiteSpace_def existingUtilsContent_def getSourceFile_def helperUtilsContent_def
  saveSourceFile_def withBlock_def newRefactorer_def save_def saveSync_def

lemmas dashboard_defs =
  dashboardOptions_def validateOrGet_def dashboardDisk_def dashboardUtilsDisk_def dashboardOf_def
  validateFormStatement_def getRoleBadgeColorStatement_def unrelatedHelperStatement_def

lemma legacy_run: "main exampleEnv exampleOptions legacyDisk = Inr panelDiskAfter"
  by (simp add: pass1_defs content_defs tree_defs text_defs example_defs legacyDisk_def panelModule_def
      panelDiskAfter_def panelTypesText_def panelUtilsText_def Let_def)

lemma rerun_run: "main exampleEnv exampleOptions rerunDisk = Inr rerunDiskAfter"
  by (simp add: pass1_defs content_defs tree_defs text_defs example_defs rerunDisk_def
      panelDiskAfter_def panelTypesText_def panelUtilsText_def rerunDiskAfter_def roleTypesText_def
      formatUtilsText_def Let_def)

lemma dashboard_helpers:
  "helpersOfModule validateOrGet (diskSource dashboardUtilsDisk) =
     [(''validateForm'', ''const validateForm = (data) => { };''),
      (''getRoleBadgeColor'', ''const getRoleBadgeColor = (role) => { };'')]"
  by (simp add: pass2_defs dashboard_defs tree_defs text_defs example_defs Let_def)

lemma dashboard_appended:
  "diskFiles (diskAfter (main2 exampleEnv dashboardOptions dashboardUtilsDisk)) ''/app/Dashboard.utils.ts''
     = Some (''export const formatDate = (d) => { };''
             @ newline @ ''export const validateForm = (data) => { };''
             @ newline @ newline @ ''export const getRoleBadgeColor = (role) => { };'')"
proof -
  have pat: "helperNamePattern dashboardOptions = validateOrGet"
    and path: "utilsFile dashboardOptions = ''/app/Dashboard.utils.ts''"
    by (simp_all add: dashboardOptions_def)
  have sv: "\<not> saveFails exampleEnv (utilsFile dashboardOptions)" by (simp add: exampleEnv_def)
  have ex: "(case (if inProject exampleEnv (utilsFile dashboardOptions)
                   then diskFiles dashboardUtilsDisk (utilsFile dashboardOptions) else None) of
               Some fullText \<Rightarrow> fullText | None \<Rightarrow> []) = formatDateText"
    by (simp add: exampleEnv_def dashboardOptions_def dashboardUtilsDisk_def)
  have hs: "helpersOfModule (helperNamePattern dashboardOptions) (diskSource dashboardUtilsDisk) \<noteq> []"
    by (simp add: pat dashboard_helpers)
  have content: "helperUtilsContent formatDateText
          (helpersOfModule (helperNamePattern dashboardOptions) (diskSource dashboardUtilsDisk))
        = ''export const formatDate = (d) => { };''
          @ newline @ ''export const validateForm = (data) => { };''
          @ newline @ newline @ ''export const getRoleBadgeColor = (role) => { };''"
    unfolding pat dashboard_helpers
    by (simp add: helperUtilsContent_def exportHelper_def isWhiteSpace_def startsWith_def
        formatDateText_def Let_def)
  from main2_writes[OF hs sv, unfolded ex content] show ?thesis
    unfolding path .
qed

lemma legacy_not_kept: "\<not> sublist ''Legacy'' panelTypesText"
  by code_simp

lemma user_not_kept: "\<not> sublist ''User'' roleTypesText"
  by code_simp

lemma validateEmail_not_kept: "\<not> sublist ''validateEmail'' formatUtilsText"
  by code_simp

text \<open>
  Claim C8 fails on the code for the top-level pass, which creates each target file anew and
  writes the header and the candidates of this run into it. A types file that declares
  \<open>Legacy\<close> is replaced by one that declares \<open>User\<close> only. Worse, on a second run, after an
  interface \<open>Role\<close> and a binding \<open>formatDate\<close> were added to the origin module, the types
  file holds \<open>Role\<close> and no longer \<open>User\<close>, the utilities file holds \<open>formatDate\<close> and no
  longer \<open>validateEmail\<close>, and the origin module imports all four names:
  \<open>addOrUpdateNamedImport\<close> merges the names of this run with those of the runs before, as
  if the files still held them. The nested pass does keep what its target holds: the
  utilities file that held \<open>formatDate\<close> holds it still, followed by the helpers.
\<close>

theorem rerun_overwrites_targets:
  "diskFiles legacyDisk ''/app/Panel.types.ts'' = Some ''export interface Legacy { }''
   \<and> main exampleEnv exampleOptions legacyDisk = Inr panelDiskAfter
   \<and> diskFiles panelDiskAfter ''/app/Panel.types.ts''
        = Some (''/**'' @ newline
                @ '' * Extracted types and interfaces'' @ newline
                @ '' * Auto-generated by ts-morph refactoring script'' @ newline
                @ '' */'' @ newline
                @ newline
                @ ''export interface User { }'')
   \<and> \<not> sublist ''Legacy'' panelTypesText
   \<and> diskFiles rerunDisk = diskFiles panelDiskAfter
   \<and> main exampleEnv exampleOptions rerunDisk = Inr rerunDiskAfter
   \<and> diskFiles rerunDiskAfter ''/app/Panel.types.ts''
        = Some (''/**'' @ newline
                @ '' * Extracted types and interfaces'' @ newline
                @ '' * Auto-generated by ts-morph refactoring script'' @ newline
                @ '' */'' @ newline
                @ newline
                @ ''export interface Role { }'')
   \<and> diskFiles rerunDiskAfter ''/app/Panel.utils.ts''
        = Some (''/**'' @ newline
                @ '' * Extracted utility functions'' @ newline
                @ '' * Auto-generated by ts-morph refactoring script'' @ newline
                @ '' */'' @ newline
                @ newline
                @ ''import type { Role } from '' @ [CHR 0x27] @ ''./Panel.types'' @ [CHR 0x27] @ '';'' @ newline
                @ newline
                @ ''export const formatDate = ...;'')
   \<and> importedNames (diskSource rerunDiskAfter) = [''User'', ''Role'', ''validateEmail'', ''formatDate'']
   \<and> \<not> sublist ''User'' roleTypesText
   \<and> \<not> sublist ''validateEmail'' formatUtilsText
   \<and> diskFiles dashboardUtilsDisk ''/app/Dashboard.utils.ts'' = Some ''export const formatDate = (d) => { };''
   \<and> diskFiles (diskAfter (main2 exampleEnv dashboardOptions dashboardUtilsDisk)) ''/app/Dashboard.utils.ts''
        = Some (''export const formatDate = (d) => { };''
                @ newline @ ''export const validateForm = (data) => { };''
                @ newline @ newline @ ''export const getRoleBadgeColor = (role) => { };'')"
  using legacy_run rerun_run dashboard_appended legacy_not_kept user_not_kept validateEmail_not_kept
  by (simp add: legacyDisk_def legacyTypes_def panelDiskAfter_def panelTypesText_def rerunDisk_def
      rerunDiskAfter_def roleTypesText_def formatUtilsText_def importedNames_def tree_defs
      dashboardUtilsDisk_def dashboardDisk_def formatDateText_def)

subsection \<open>The nested pass\<close>

lemma dashboard_run: "main2 exampleEnv dashboardOptions dashboardDisk = Inr dashboardDiskAfter"
  by (simp add: pass2_defs dashboard_defs tree_defs text_defs example_defs dashboardDiskAfter_def
      dashboardUtilsText_def Let_def)

lemma count_run: "main2 exampleEnv dashboardOptions countDisk = Inr countDisk"
  by (simp add: pass2_defs dashboard_defs tree_defs text_defs example_defs countDisk_def
      getCountStatement_def Let_def)

lemma sibling_run: "main exampleEnv exampleOptions siblingDisk = Inr siblingDiskAfter"
  by (simp add: pass1_defs content_defs tree_defs text_defs example_defs siblingDisk_def
      siblingDiskAfter_def Let_def)

lemma nested_sibling_run: "main2 exampleEnv dashboardOptions nestedSiblingDisk = Inr nestedSiblingDiskAfter"
  by (simp add: pass2_defs dashboard_defs tree_defs text_defs example_defs nestedSiblingDisk_def
      nestedSiblingDiskAfter_def nestedSiblingStatement_def Let_def)


lemma getSourceFile_never_raises: "\<not> isl (getSourceFile r path)"
  by (simp add: getSourceFile_def)

text \<open>
  Claim C10. When the nested pass has helpers to extract, can save the utilities file and
  the project holds no source file at the utilities path, the file it writes is a line break
  followed by the exported helper statements, two line breaks between them: no header and no
  type-only import. The lookup of the existing file answers \<open>undefined\<close> and never raises,
  so the text the helpers are appended to is empty and the \<open>catch\<close> branch that builds the
  header is never taken.
\<close>

theorem nested_pass_new_utils_file:
  assumes "helpersOfModule (helperNamePattern opts) (diskSource d) \<noteq> []"
      and "\<not> saveFails env (utilsFile opts)"
      and "projectFiles (newRefactorer env d) (utilsFile opts) = None"
  shows "diskFiles (diskAfter (main2 env opts d)) (utilsFile opts) =
           Some (newline @ join (newline @ newline)
                   (map (\<lambda>func. exportHelper (snd func))
                      (helpersOfModule (helperNamePattern opts) (diskSource d))))
         \<and> getSourceFile (newRefactorer env d) (utilsFile opts) = Inr None
         \<and> existingUtilsContent env opts (newRefactorer env d) (utilsFile opts) = []
         \<and> (\<forall>r path. \<not> isl (getSourceFile r path))"
proof -
  from assms(3) have "(if inProject env (utilsFile opts) then diskFiles d (utilsFile opts) else None) = None"
    by (simp add: newRefactorer_def)
  with main2_writes[OF assms(1,2)] assms(3) show ?thesis
    by (simp add: helperUtilsContent_def Let_def getSourceFile_def existingUtilsContent_def)
qed

theorem nested_pass_new_utils_file_witness:
  "helpersOfModule (helperNamePattern dashboardOptions) (diskSource dashboardDisk) \<noteq> []
   \<and> \<not> saveFails exampleEnv (utilsFile dashboardOptions)
   \<and> projectFiles (newRefactorer exampleEnv dashboardDisk) (utilsFile dashboardOptions) = None
   \<and> diskFiles (diskAfter (main2 exampleEnv dashboardOptions dashboardDisk)) (utilsFile dashboardOptions)
        = Some (newline @ ''export const validateForm = (data) => { };''
                @ newline @ newline @ ''export const getRoleBadgeColor = (role) => { };'')"
proof -
  have h: "helpersOfModule (helperNamePattern dashboardOptions) (diskSource dashboardDisk) =
     [(''validateForm'', ''const validateForm = (data) => { };''),
      (''getRoleBadgeColor'', ''const getRoleBadgeColor = (role) => { };'')]"
    by (simp add: pass2_defs dashboard_defs tree_defs text_defs example_defs Let_def)
  have s: "\<not> saveFails exampleEnv (utilsFile dashboardOptions)" by (simp add: exampleEnv_def)
  have p: "projectFiles (newRefactorer exampleEnv dashboardDisk) (utilsFile dashboardOptions) = None"
    by (simp add: newRefactorer_def dashboardDisk_def)
  have ne: "helpersOfModule (helperNamePattern dashboardOptions) (diskSource dashboardDisk) \<noteq> []"
    by (simp add: h)
  have j: "join (newline @ newline)
                   (map (\<lambda>func. exportHelper (snd func))
                      (helpersOfModule (helperNamePattern dashboardOptions) (diskSource dashboardDisk)))
            = ''export const validateForm = (data) => { };''
                @ newline @ newline @ ''export const getRoleBadgeColor = (role) => { };''"
    unfolding h by (simp add: exportHelper_def isWhiteSpace_def startsWith_def Let_def)
  from nested_pass_new_utils_file[OF ne s p]
  have "diskFiles (diskAfter (main2 exampleEnv dashboardOptions dashboardDisk)) (utilsFile dashboardOptions)
        = Some (newline @ ''export const validateForm = (data) => { };''
                @ newline @ newline @ ''export const getRoleBadgeColor = (role) => { };'')"
    unfolding j by (rule conjunct1)
  with ne s p show ?thesis by simp
qed

lemma findHelperFunctions_iff:
  "(name, text) \<in> set (findHelperFunctions pattern statements) \<longleftrightarrow>
     (\<exists>stmt\<in>set statements. \<exists>decl\<in>set (getDeclarations stmt).
        isVariableStatement stmt \<and> text = getText stmt \<and> declName decl = name
        \<and> isArrowInitialized decl \<and> pattern name)"
  by (auto simp: findHelperFunctions_def helpersOfStatement_def Let_def split: if_splits)

lemma helpersOfStatement_atLines:
  "helpersOfStatement pattern (atLines firstLine lastLine stmt) = helpersOfStatement pattern stmt"
  by (cases stmt)
     (simp_all add: helpersOfStatement_def atLines_def isVariableStatement_def getDeclarations_def
        getText_def isArrowInitialized_def comp_def Let_def cong: if_cong)

lemma findHelperFunctions_atLines:
  "findHelperFunctions pattern (map (atLines firstLine lastLine) statements)
     = findHelperFunctions pattern statements"
  by (simp add: findHelperFunctions_def comp_def helpersOfStatement_atLines)

lemma removeHelperDeclarations_single:
  "length decls \<le> 1 \<Longrightarrow>
   removeHelperDeclarations names decls False = Inr (\<exists>d\<in>set decls. declName d \<in> set names)"
  by (cases decls) auto

lemma removeHelperStatements_single:
  "\<forall>stmt\<in>set statements. length (getDeclarations stmt) \<le> 1 \<Longrightarrow>
   removeHelperStatements names statements =
     Inr (filter (\<lambda>stmt. \<not> (\<exists>d\<in>set (getDeclarations stmt). declName d \<in> set names)) statements)"
proof (induction statements)
  case Nil
  then show ?case by simp
next
  case (Cons stmt rest)
  then have IH: "removeHelperStatements names rest =
     Inr (filter (\<lambda>stmt. \<not> (\<exists>d\<in>set (getDeclarations stmt). declName d \<in> set names)) rest)"
    and one: "length (getDeclarations stmt) \<le> 1" by simp_all
  show ?case
  proof (cases "isVariableStatement stmt")
    case True
    with IH removeHelperDeclarations_single[OF one, of names] show ?thesis by simp
  next
    case False
    then have "getDeclarations stmt = []"
      by (cases stmt) (simp_all add: isVariableStatement_def getDeclarations_def)
    with False IH show ?thesis by simp
  qed
qed

text \<open>
  Claim C9 as stated fails: \<open>getCount\<close> matches the pattern \<open>^(validate|get)\<close> and is
  declared in the body of the component, yet it is bound to a number, so the nested pass
  finds no helper and leaves the module as it is.
\<close>

theorem pattern_match_not_sufficient_counterexample:
  "validateOrGet ''getCount''
   \<and> ''getCount'' \<in> set (declaredNames (componentStatements (diskSource countDisk)))
   \<and> helpersOfModule validateOrGet (diskSource countDisk) = []
   \<and> main2 exampleEnv dashboardOptions countDisk = Inr countDisk"
  using count_run
  by (simp add: pass2_defs dashboard_defs tree_defs text_defs example_defs countDisk_def
      getCountStatement_def declaredNames_def componentStatements_def)

text \<open>
  Claim C9, as the code has it. The nested pass collects a helper for exactly the variable
  declarations in the statements of the component's block whose initializer is an arrow
  function and whose name matches the pattern; the lines of a declaration play no part.
  Where every statement declares at most one variable, the statements removed from the body
  are those of a variable whose name was collected. With the pattern \<open>^(validate|get)\<close>, the
  bindings \<open>validateForm\<close> and \<open>getRoleBadgeColor\<close> are extracted and \<open>unrelatedHelper\<close> stays
  in the body as it was.
\<close>

theorem nested_helper_selection:
  "((name, text) \<in> set (findHelperFunctions pattern statements) \<longleftrightarrow>
     (\<exists>stmt\<in>set statements. \<exists>decl\<in>set (getDeclarations stmt).
        isVariableStatement stmt \<and> text = getText stmt \<and> declName decl = name
        \<and> isArrowInitialized decl \<and> pattern name))
   \<and> findHelperFunctions pattern (map (atLines firstLine lastLine) statements)
        = findHelperFunctions pattern statements
   \<and> ((\<forall>stmt\<in>set statements. length (getDeclarations stmt) \<le> 1) \<longrightarrow>
        removeHelperStatements names statements =
          Inr (filter (\<lambda>stmt. \<not> (\<exists>d\<in>set (getDeclarations stmt). declName d \<in> set names)) statements))
   \<and> main2 exampleEnv dashboardOptions dashboardDisk = Inr dashboardDiskAfter"
  using findHelperFunctions_iff[of name "text" pattern statements]
    findHelperFunctions_atLines[of pattern firstLine lastLine statements]
    removeHelperStatements_single[of statements names] dashboard_run
  by blast

theorem nested_helper_selection_witness:
  "(''validateForm'', ''const validateForm = (data) => { };'')
      \<in> set (findHelperFunctions validateOrGet
                [validateFormStatement, getRoleBadgeColorStatement, unrelatedHelperStatement])
   \<and> removeHelperStatements [''validateForm'', ''getRoleBadgeColor'']
         [validateFormStatement, getRoleBadgeColorStatement, unrelatedHelperStatement]
       = Inr [unrelatedHelperStatement]
   \<and> componentStatements (diskSource dashboardDiskAfter) = [unrelatedHelperStatement]
   \<and> importedNames (diskSource dashboardDiskAfter) = [''validateForm'', ''getRoleBadgeColor'']"
  using nested_helper_selection[of "''validateForm''" "''const validateForm = (data) => { };''"
      validateOrGet "[validateFormStatement, getRoleBadgeColorStatement, unrelatedHelperStatement]"
      "1" "1" "[''validateForm'', ''getRoleBadgeColor'']"]
  by (simp add: dashboard_defs example_defs tree_defs text_defs componentStatements_def
        findComponent_def componentBlock_def isArrowInitialized_def importedNames_def
        dashboardDiskAfter_def)

text \<open>
  Claim C3 fails on the code where a statement declares several variables. At the top level,
  \<open>validateEmail\<close> is a utility candidate and \<open>attempts\<close> stands in the same statement: the
  statement is removed whole, and only \<open>validateEmail\<close> is imported. In the body of a
  component the same happens to \<open>attempts\<close> beside the helper \<open>getLabel\<close>.
\<close>

theorem sibling_declaration_orphaned:
  "''attempts'' \<in> set (declaredNames (diskSource siblingDisk))
   \<and> main exampleEnv exampleOptions siblingDisk = Inr siblingDiskAfter
   \<and> ''attempts'' \<notin> set (declaredNames (diskSource siblingDiskAfter))
   \<and> ''attempts'' \<notin> set (importedNames (diskSource siblingDiskAfter))
   \<and> ''attempts'' \<in> set (declaredNames (componentStatements (diskSource nestedSiblingDisk)))
   \<and> main2 exampleEnv dashboardOptions nestedSiblingDisk = Inr nestedSiblingDiskAfter
   \<and> ''attempts'' \<notin> set (declaredNames (componentStatements (diskSource nestedSiblingDiskAfter)))
   \<and> ''attempts'' \<notin> set (importedNames (diskSource nestedSiblingDiskAfter))"
  using sibling_run nested_sibling_run
  by (simp add: siblingDisk_def siblingDiskAfter_def nestedSiblingDisk_def nestedSiblingDiskAfter_def
      nestedSiblingStatement_def dashboardOf_def declaredNames_def importedNames_def
      componentStatements_def findComponent_def componentBlock_def isArrowInitialized_def
      tree_defs example_defs)

subsection \<open>Type reconciliation\<close>

lemmas analyzer_defs =
  declarationPositions_def declarationAt_def setDeclarationAt_def functionPositions_def
  functionAt_def setFunctionAt_def arrowAt_def arrowPositions_def withArrow_def onArrow_def
  getDeclarations_def getParameters_def setParameterAt_def
  addArrowReturnType_def addFunctionReturnType_def addReturnTypes_def addParameterType_def
  addParameterTypes_def fixAnyType_def fixAnyTypes_def improveDeclaration_def
  improveTypeSpecificity_def literalTypeText_def steadyCheck_def

lemma addArrowReturnType_written:
  "fst (addArrowReturnType a) = 1 \<longleftrightarrow>
     arrowReturnTypeNode a = None \<and> arrowReturnType a \<noteq> ''void''
     \<and> length (arrowReturnType a) < 100 \<and> \<not> arrowSetReturnTypeThrows a"
  by (simp add: addArrowReturnType_def Let_def)

lemma addArrowReturnType_result:
  "snd (addArrowReturnType a) =
     (if fst (addArrowReturnType a) = 1 then a\<lparr>arrowReturnTypeNode := Some (arrowReturnType a)\<rparr> else a)"
  by (simp add: addArrowReturnType_def Let_def)

lemma addFunctionReturnType_written:
  "fst (addFunctionReturnType f) = 1 \<longleftrightarrow>
     funcReturnTypeNode f = None \<and> funcReturnType f \<noteq> ''void''
     \<and> length (funcReturnType f) < 100 \<and> \<not> funcSetReturnTypeThrows f"
  by (simp add: addFunctionReturnType_def Let_def)

lemma addFunctionReturnType_result:
  "snd (addFunctionReturnType f) =
     (if fst (addFunctionReturnType f) = 1 then f\<lparr>funcReturnTypeNode := Some (funcReturnType f)\<rparr> else f)"
  by (simp add: addFunctionReturnType_def Let_def)

lemma addParameterType_written:
  "fst (addParameterType p) = 1 \<longleftrightarrow>
     paramTypeNode p = None \<and> paramType p \<noteq> ''any''
     \<and> length (paramType p) < 100 \<and> \<not> paramSetTypeThrows p"
  by (simp add: addParameterType_def Let_def)

lemma addParameterType_result:
  "snd (addParameterType p) =
     (if fst (addParameterType p) = 1 then p\<lparr>paramTypeNode := Some (paramType p)\<rparr> else p)"
  by (simp add: addParameterType_def Let_def)

lemma fixAnyType_written:
  "fst (fixAnyType d) = 1 \<longleftrightarrow>
     declTypeNode d = Some ''any''
     \<and> (\<exists>i. declInitializer d = Some i \<and> initType i \<noteq> ''any'' \<and> length (initType i) < 100)
     \<and> \<not> declSetTypeThrows d"
  by (auto simp: fixAnyType_def Let_def split: option.splits)

lemma fixAnyType_result:
  "snd (fixAnyType d) =
     (if fst (fixAnyType d) = 1
      then d\<lparr>declTypeNode := map_option initType (declInitializer d)\<rparr> else d)"
  by (auto simp: fixAnyType_def Let_def split: option.splits)

lemma wideParameter_not_any: "paramType (wideParameter (Suc n)) \<noteq> ''any''"
  by (simp add: wideParameter_def)

text \<open>
  Claim C5 as stated fails for return types: the text that \<open>addReturnTypes\<close> refuses is
  \<open>void\<close>, so an inferred return type \<open>any\<close> is written.
\<close>

theorem return_type_any_written_counterexample:
  "arrowReturnType anyArrow = ''any''
   \<and> addArrowReturnType anyArrow = (1, anyArrow\<lparr>arrowReturnTypeNode := Some ''any''\<rparr>)
   \<and> addReturnTypes steadyCheck loadModule = (1, loadModuleAfter)"
  by (simp add: analyzer_defs anyArrow_def loadModule_def loadModuleAfter_def loadDecl_def declOf_def
      Let_def)

text \<open>
  Claim C5, as the code has it. An annotation is written, and counted, exactly when the node
  has none (for \<open>fixAnyTypes\<close>: has the annotation \<open>any\<close> and an initializer), the rendered
  type has fewer than 100 characters and is not the refused text, and setting it does not
  raise. The refused text is \<open>void\<close> for the return type of an arrow function or a function,
  and \<open>any\<close> for a parameter and for the replacement of an explicit \<open>any\<close>. What is written is
  the rendered text; a node that is not written is left as it was. So a text of 100
  characters is never written, and one of 99 that is not the refused text is, unless the
  edit raises.
\<close>

theorem annotation_filter:
  "(fst (addArrowReturnType a) = 1 \<longleftrightarrow>
       arrowReturnTypeNode a = None \<and> arrowReturnType a \<noteq> ''void''
       \<and> length (arrowReturnType a) < 100 \<and> \<not> arrowSetReturnTypeThrows a)
   \<and> snd (addArrowReturnType a) =
       (if fst (addArrowReturnType a) = 1 then a\<lparr>arrowReturnTypeNode := Some (arrowReturnType a)\<rparr> else a)
   \<and> (fst (addFunctionReturnType f) = 1 \<longleftrightarrow>
       funcReturnTypeNode f = None \<and> funcReturnType f \<noteq> ''void''
       \<and> length (funcReturnType f) < 100 \<and> \<not> funcSetReturnTypeThrows f)
   \<and> snd (addFunctionReturnType f) =
       (if fst (addFunctionReturnType f) = 1 then f\<lparr>funcReturnTypeNode := Some (funcReturnType f)\<rparr> else f)
   \<and> (fst (addParameterType p) = 1 \<longleftrightarrow>
       paramTypeNode p = None \<and> paramType p \<noteq> ''any''
       \<and> length (paramType p) < 100 \<and> \<not> paramSetTypeThrows p)
   \<and> snd (addParameterType p) =
       (if fst (addParameterType p) = 1 then p\<lparr>paramTypeNode := Some (paramType p)\<rparr> else p)
   \<and> (fst (fixAnyType d) = 1 \<longleftrightarrow>
       declTypeNode d = Some ''any''
       \<and> (\<exists>i. declInitializer d = Some i \<and> initType i \<noteq> ''any'' \<and> length (initType i) < 100)
       \<and> \<not> declSetTypeThrows d)
   \<and> snd (fixAnyType d) =
       (if fst (fixAnyType d) = 1
        then d\<lparr>declTypeNode := map_option initType (declInitializer d)\<rparr> else d)"
  by (intro conjI addArrowReturnType_written addArrowReturnType_result
      addFunctionReturnType_written addFunctionReturnType_result
      addParameterType_written addParameterType_result fixAnyType_written fixAnyType_result)

theorem annotation_filter_witness:
  "addParameterType (wideParameter 99)
      = (1, (wideParameter 99)\<lparr>paramTypeNode := Some (paramType (wideParameter 99))\<rparr>)
   \<and> length (paramType (wideParameter 99)) = 99
   \<and> addParameterType (wideParameter 100) = (0, wideParameter 100)
   \<and> length (paramType (wideParameter 100)) = 100
   \<and> paramType (wideParameter 100) \<noteq> ''any''"
proof -
  have a: "paramTypeNode (wideParameter n) = None" "length (paramType (wideParameter n)) = n"
    "\<not> paramSetTypeThrows (wideParameter n)" for n
    by (simp_all add: wideParameter_def)
  have ne: "paramType (wideParameter 99) \<noteq> ''any''" "paramType (wideParameter 100) \<noteq> ''any''"
    using wideParameter_not_any[of 98] wideParameter_not_any[of 99] by simp_all
  have w: "fst (addParameterType (wideParameter 99)) = 1"
    using annotation_filter[of anyArrow "functionOf [] 1 1" "wideParameter 99" "modeDecl False"] a ne(1)
    by simp
  have r: "snd (addParameterType (wideParameter 99))
             = (wideParameter 99)\<lparr>paramTypeNode := Some (paramType (wideParameter 99))\<rparr>"
    using addParameterType_result[of "wideParameter 99"] w by simp
  have n: "fst (addParameterType (wideParameter 100)) \<noteq> 1"
    using annotation_filter[of anyArrow "functionOf [] 1 1" "wideParameter 100" "modeDecl False"] a
    by simp
  have z: "addParameterType (wideParameter 100) = (0, wideParameter 100)"
    using n a by (simp add: addParameterType_def Let_def)
  from w r have "addParameterType (wideParameter 99)
      = (1, (wideParameter 99)\<lparr>paramTypeNode := Some (paramType (wideParameter 99))\<rparr>)"
    by (simp add: prod_eq_iff)
  with z a ne show ?thesis by simp
qed

text \<open>
  The positions a pass takes are those of the nodes that \<open>getVariableDeclarations\<close> and
  \<open>getFunctions\<close> answer, in their order.
\<close>

lemma getVariableDeclarations_concat:
  "getVariableDeclarations stmts = concat (map getDeclarations stmts)"
  unfolding getVariableDeclarations_def getVariableStatements_def
  by (induction stmts) (auto simp: isVariableStatement_def getDeclarations_def split: statement.splits)

lemma declarationAt_nth:
  "i < length stmts \<Longrightarrow> j < length (getDeclarations (stmts ! i)) \<Longrightarrow>
   map_option snd (declarationAt (i, j) stmts) = Some (getDeclarations (stmts ! i) ! j)"
  by (auto simp: declarationAt_def getDeclarations_def split: statement.splits)

lemma declarationPositions_nodes:
  "map (\<lambda>pos. map_option snd (declarationAt pos stmts)) (declarationPositions stmts)
     = map Some (getVariableDeclarations stmts)"
proof -
  have "map (\<lambda>pos. map_option snd (declarationAt pos stmts)) (declarationPositions stmts)
      = concat (map (\<lambda>i. map (\<lambda>j. map_option snd (declarationAt (i, j) stmts))
                            [0..<length (getDeclarations (stmts ! i))]) [0..<length stmts])"
    by (simp add: declarationPositions_def map_concat comp_def)
  also have "\<dots> = concat (map (\<lambda>i. map Some (getDeclarations (stmts ! i))) [0..<length stmts])"
  proof -
    have "map (\<lambda>j. map_option snd (declarationAt (i, j) stmts)) [0..<length (getDeclarations (stmts ! i))]
            = map Some (getDeclarations (stmts ! i))" if "i < length stmts" for i
    proof -
      have "map (\<lambda>j. map_option snd (declarationAt (i, j) stmts)) [0..<length (getDeclarations (stmts ! i))]
            = map (\<lambda>j. Some (getDeclarations (stmts ! i) ! j)) [0..<length (getDeclarations (stmts ! i))]"
        using that by (intro map_cong) (auto simp: declarationAt_nth)
      also have "\<dots> = map Some (map (\<lambda>j. getDeclarations (stmts ! i) ! j) [0..<length (getDeclarations (stmts ! i))])"
        by simp
      also have "\<dots> = map Some (getDeclarations (stmts ! i))" by (simp only: map_nth)
      finally show ?thesis .
    qed
    then show ?thesis by (intro arg_cong[where f = concat] map_cong) auto
  qed
  also have "\<dots> = concat (map (\<lambda>s. map Some (getDeclarations s)) (map (\<lambda>i. stmts ! i) [0..<length stmts]))"
    by (simp add: comp_def)
  also have "\<dots> = concat (map (\<lambda>s. map Some (getDeclarations s)) stmts)" by (simp only: map_nth)
  also have "\<dots> = map Some (getVariableDeclarations stmts)"
    by (simp add: getVariableDeclarations_concat map_concat comp_def)
  finally show ?thesis .
qed

lemma functionPositions_nodes:
  "map (\<lambda>i. functionAt i stmts) (functionPositions stmts) = map Some (getFunctions stmts)"
proof -
  have "map (\<lambda>i. functionAt i (pre @ stmts)) (filter (\<lambda>i. case (pre @ stmts) ! i of FunctionDeclaration func \<Rightarrow> True | _ \<Rightarrow> False) [length pre..<length pre + length stmts])
      = map Some (getFunctions stmts)" for pre :: "'a statement list"
  proof (induction stmts arbitrary: pre)
    case Nil
    then show ?case by (simp add: getFunctions_def)
  next
    case (Cons s stmts)
    have u: "[length pre..<length pre + length (s # stmts)] = length pre # [length (pre @ [s])..<length (pre @ [s]) + length stmts]"
      by (subst upt_rec) simp
    from Cons.IH[of "pre @ [s]"] show ?case
      unfolding u by (cases s) (simp_all add: getFunctions_def functionAt_def nth_append)
  qed
  from this[of "[]"] show ?thesis by (simp add: functionPositions_def)
qed

text \<open>
  The passes ask the checker anew. In \<open>const a: any = 5; const b: any = a;\<close> the pass
  replaces the first \<open>any\<close> by \<open>5\<close>; the initializer of \<open>b\<close> then has the type \<open>5\<close>, and the
  second \<open>any\<close> is replaced as well. \<open>addParameterTypes\<close> goes through the functions, then
  through the arrow functions, parameter by parameter.
\<close>

lemma alias_run: "fixAnyTypes aliasCheck (aliasModule ''any'' ''any'') = (2, aliasModule ''5'' ''5'')"
  by (simp add: analyzer_defs aliasCheck_def aliasModule_def aliasDecl_def Let_def)

lemma scale_run:
  "addParameterTypes steadyCheck (scaleModule None None)
     = (3, scaleModule (Some ''number'') (Some ''string''))"
  by (simp add: analyzer_defs scaleModule_def inferredParameter_def declOf_def functionOf_def Let_def)

lemma forEachDeclaration_single:
  "forEachDeclaration check edit (declarationPositions [VariableStatement kind [decl] text])
       (0, [VariableStatement kind [decl] text]) =
     (if fst (edit kind decl) = 0 then (0, [VariableStatement kind [decl] text])
      else (fst (edit kind decl), check [VariableStatement kind [snd (edit kind decl)] text]))"
  by (simp add: declarationPositions_def declarationAt_def setDeclarationAt_def getDeclarations_def
      split: prod.splits)

text \<open>
  With a checker whose answers the edits do not change, a pass edits every node it walks
  as the body of its loop edits that node alone, and counts those edits.
\<close>

lemma declarationPositions_enumerate:
  "declarationPositions stmts =
     concat (map (\<lambda>(i, s). map (\<lambda>j. (i, j)) [0..<length (getDeclarations s)]) (enumerate 0 stmts))"
proof -
  have "map (\<lambda>i. map (\<lambda>j. (i, j)) [0..<length (getDeclarations (stmts ! i))]) [0..<length stmts]
      = map (\<lambda>(i, s). map (\<lambda>j. (i, j)) [0..<length (getDeclarations s)]) (enumerate 0 stmts)"
    by (rule nth_equalityI) (simp_all add: nth_enumerate_eq)
  then show ?thesis by (simp add: declarationPositions_def)
qed

lemma positions_enumerate:
  "map (\<lambda>j. (i, j)) [n..<n + length ds] = map (\<lambda>p. (i, fst p)) (enumerate n ds)"
  by (rule nth_equalityI) (simp_all add: nth_enumerate_eq)

lemma forEachDeclaration_decls:
  assumes skip: "\<And>kind decl. fst (edit kind decl) = 0 \<Longrightarrow> snd (edit kind decl) = decl"
  shows "forEachDeclaration steadyCheck edit
           (map (\<lambda>p. (length pre, fst p)) (enumerate (length ds1) ds2) @ rest)
           (n, pre @ VariableStatement kind (ds1 @ ds2) stmtText # post)
       = forEachDeclaration steadyCheck edit rest
           (n + sum_list (map (\<lambda>decl. fst (edit kind decl)) ds2),
            pre @ VariableStatement kind (ds1 @ map (\<lambda>decl. snd (edit kind decl)) ds2) stmtText # post)"
proof (induction ds2 arbitrary: ds1 n)
  case Nil
  then show ?case by simp
next
  case (Cons d ds2)
  let ?tree = "pre @ VariableStatement kind (ds1 @ d # ds2) stmtText # post"
  let ?ps = "map (\<lambda>p. (length pre, fst p)) (enumerate (Suc (length ds1)) ds2) @ rest"
  have at: "declarationAt (length pre, length ds1) ?tree = Some (kind, d)"
    by (simp add: declarationAt_def nth_append)
  have set: "setDeclarationAt (length pre, length ds1) d' ?tree
              = pre @ VariableStatement kind ((ds1 @ [d']) @ ds2) stmtText # post" for d'
    by (simp add: setDeclarationAt_def nth_append list_update_append)
  obtain m d' where e: "edit kind d = (m, d')" by (cases "edit kind d")
  have step: "forEachDeclaration steadyCheck edit ((length pre, length ds1) # ?ps) (n, ?tree)
      = forEachDeclaration steadyCheck edit ?ps
          (n + m, pre @ VariableStatement kind ((ds1 @ [d']) @ ds2) stmtText # post)"
  proof (cases "m = 0")
    case True
    with e skip[of kind d] have "d' = d" by simp
    with True e at show ?thesis by simp
  next
    case False
    with e at set[of d'] show ?thesis by (simp add: steadyCheck_def)
  qed
  have ih: "forEachDeclaration steadyCheck edit ?ps
          (n + m, pre @ VariableStatement kind ((ds1 @ [d']) @ ds2) stmtText # post)
      = forEachDeclaration steadyCheck edit rest
           (n + m + sum_list (map (\<lambda>decl. fst (edit kind decl)) ds2),
            pre @ VariableStatement kind ((ds1 @ [d']) @ map (\<lambda>decl. snd (edit kind decl)) ds2) stmtText # post)"
    using Cons.IH[of "ds1 @ [d']" "n + m"] by simp
  have l: "map (\<lambda>p. (length pre, fst p)) (enumerate (length ds1) (d # ds2)) @ rest
             = (length pre, length ds1) # ?ps" by simp
  show ?case unfolding l step ih using e by (simp add: add.assoc)
qed

lemma forEachDeclaration_statements:
  assumes skip: "\<And>kind decl. fst (edit kind decl) = 0 \<Longrightarrow> snd (edit kind decl) = decl"
  shows "forEachDeclaration steadyCheck edit
           (concat (map (\<lambda>(i, s). map (\<lambda>j. (i, j)) [0..<length (getDeclarations s)])
                      (enumerate (length pre) todo)))
           (n, pre @ todo)
       = (n + sum_list (map (editCount edit) todo),
          pre @ map (editDeclarations (\<lambda>kind decl. snd (edit kind decl))) todo)"
proof (induction todo arbitrary: pre n)
  case Nil
  then show ?case by simp
next
  case (Cons s todo)
  let ?rest = "concat (map (\<lambda>(i, s). map (\<lambda>j. (i, j)) [0..<length (getDeclarations s)])
                      (enumerate (Suc (length pre)) todo))"
  show ?case
  proof (cases "isVariableStatement s")
    case True
    then obtain kind decls stmtText where s: "s = VariableStatement kind decls stmtText"
      by (cases s) (simp_all add: isVariableStatement_def)
    let ?s' = "VariableStatement kind (map (\<lambda>decl. snd (edit kind decl)) decls) stmtText"
    have p: "map (\<lambda>j. (length pre, j)) [0..<length decls]
               = map (\<lambda>p. (length pre, fst p)) (enumerate (length ([] :: 'a variableDecl list)) decls)"
      using positions_enumerate[of "length pre" 0 decls] by simp
    have 1: "forEachDeclaration steadyCheck edit
               (map (\<lambda>j. (length pre, j)) [0..<length decls] @ ?rest) (n, pre @ s # todo)
           = forEachDeclaration steadyCheck edit ?rest
               (n + sum_list (map (\<lambda>decl. fst (edit kind decl)) decls), pre @ ?s' # todo)"
      unfolding p s
      using forEachDeclaration_decls[OF skip, where pre = pre and ?ds1.0 = "[]" and ?ds2.0 = decls
          and rest = ?rest and n = n and kind = kind and stmtText = stmtText and post = todo]
      by simp
    have 2: "forEachDeclaration steadyCheck edit ?rest
               (n + sum_list (map (\<lambda>decl. fst (edit kind decl)) decls), (pre @ [?s']) @ todo)
           = (n + sum_list (map (\<lambda>decl. fst (edit kind decl)) decls) + sum_list (map (editCount edit) todo),
              (pre @ [?s']) @ map (editDeclarations (\<lambda>kind decl. snd (edit kind decl))) todo)"
      using Cons.IH[of "pre @ [?s']" "n + sum_list (map (\<lambda>decl. fst (edit kind decl)) decls)"] by simp
    have l: "concat (map (\<lambda>(i, s). map (\<lambda>j. (i, j)) [0..<length (getDeclarations s)])
                      (enumerate (length pre) (s # todo)))
               = map (\<lambda>j. (length pre, j)) [0..<length decls] @ ?rest"
      by (simp add: s getDeclarations_def)
    have e: "editCount edit s = sum_list (map (\<lambda>decl. fst (edit kind decl)) decls)"
      "editDeclarations (\<lambda>kind decl. snd (edit kind decl)) s = ?s'"
      by (simp_all add: s editCount_def editDeclarations_def)
    show ?thesis unfolding l 1 using 2
      by (simp add: e add.assoc)
  next
    case False
    then have g: "getDeclarations s = []" "editCount edit s = 0"
      "editDeclarations (\<lambda>kind decl. snd (edit kind decl)) s = s"
      by (cases s; simp add: isVariableStatement_def getDeclarations_def editCount_def editDeclarations_def)+
    from Cons.IH[of "pre @ [s]" n] show ?thesis by (simp add: g)
  qed
qed

lemma forEachDeclaration_steady:
  assumes skip: "\<And>kind decl. fst (edit kind decl) = 0 \<Longrightarrow> snd (edit kind decl) = decl"
  shows "forEachDeclaration steadyCheck edit (declarationPositions stmts) (0, stmts)
       = (sum_list (map (editCount edit) stmts),
          map (editDeclarations (\<lambda>kind decl. snd (edit kind decl))) stmts)"
  using forEachDeclaration_statements[OF skip, where pre = "[]" and todo = stmts and n = 0]
  by (simp add: declarationPositions_enumerate)

lemma forEachFunction_statements:
  assumes skip: "\<And>func. fst (edit func) = 0 \<Longrightarrow> snd (edit func) = func"
  shows "forEachFunction steadyCheck edit
           (filter (\<lambda>i. case (pre @ todo) ! i of FunctionDeclaration func \<Rightarrow> True | _ \<Rightarrow> False)
              [length pre..<length pre + length todo])
           (n, pre @ todo)
       = (n + sum_list (map (functionEditCount edit) todo),
          pre @ map (editFunction (\<lambda>func. snd (edit func))) todo)"
proof (induction todo arbitrary: pre n)
  case Nil
  then show ?case by simp
next
  case (Cons s todo)
  let ?s' = "editFunction (\<lambda>func. snd (edit func)) s"
  define range where "range = [length (pre @ [?s'])..<length (pre @ [?s']) + length todo]"
  let ?rest = "filter (\<lambda>i. case ((pre @ [?s']) @ todo) ! i of FunctionDeclaration func \<Rightarrow> True | _ \<Rightarrow> False) range"
  have u: "[length pre..<length pre + length (s # todo)] = length pre # range"
    unfolding range_def by (subst upt_rec) simp
  have f: "filter (\<lambda>i. case (pre @ s # todo) ! i of FunctionDeclaration func \<Rightarrow> True | _ \<Rightarrow> False) range = ?rest"
  proof (rule filter_cong[OF refl])
    fix i assume "i \<in> set range"
    then have "length pre < i" unfolding range_def by auto
    then have "(pre @ s # todo) ! i = ((pre @ [?s']) @ todo) ! i"
      by (simp add: nth_append nth_Cons')
    then show "(case (pre @ s # todo) ! i of FunctionDeclaration func \<Rightarrow> True | _ \<Rightarrow> False)
             = (case ((pre @ [?s']) @ todo) ! i of FunctionDeclaration func \<Rightarrow> True | _ \<Rightarrow> False)"
      by simp
  qed
  have ih: "forEachFunction steadyCheck edit ?rest (m, (pre @ [?s']) @ todo)
       = (m + sum_list (map (functionEditCount edit) todo),
          (pre @ [?s']) @ map (editFunction (\<lambda>func. snd (edit func))) todo)" for m
    unfolding range_def using Cons.IH[of "pre @ [?s']" m] .
  have hd: "(pre @ s # todo) ! length pre = s" by simp
  show ?case
  proof (cases "\<exists>func. s = FunctionDeclaration func")
    case True
    then obtain func where s: "s = FunctionDeclaration func" by blast
    obtain m func' where e: "edit func = (m, func')" by (cases "edit func")
    have at: "functionAt (length pre) (pre @ s # todo) = Some func"
      by (simp add: functionAt_def s)
    have set: "setFunctionAt (length pre) func' (pre @ s # todo) = (pre @ [FunctionDeclaration func']) @ todo"
      by (simp add: setFunctionAt_def s)
    have s': "?s' = FunctionDeclaration func'" by (simp add: editFunction_def s e)
    have c: "functionEditCount edit s = m" by (simp add: functionEditCount_def s e)
    have step: "forEachFunction steadyCheck edit (length pre # ?rest) (n, pre @ s # todo)
        = forEachFunction steadyCheck edit ?rest (n + m, (pre @ [?s']) @ todo)"
    proof (cases "m = 0")
      case True
      with e skip[of func] have "func' = func" by simp
      with True e at s' s show ?thesis by simp
    next
      case False
      with e at set s' show ?thesis by (simp add: steadyCheck_def)
    qed
    have h: "filter (\<lambda>i. case (pre @ s # todo) ! i of FunctionDeclaration func \<Rightarrow> True | _ \<Rightarrow> False)
               [length pre..<length pre + length (s # todo)] = length pre # ?rest"
      unfolding u filter.simps hd f by (simp add: s)
    show ?thesis unfolding h step ih by (simp add: c add.assoc)
  next
    case False
    then have n: "(case s of FunctionDeclaration func \<Rightarrow> True | _ \<Rightarrow> False) = False"
      "functionEditCount edit s = 0" "?s' = s"
      by (cases s; simp add: functionEditCount_def editFunction_def)+
    have h: "filter (\<lambda>i. case (pre @ s # todo) ! i of FunctionDeclaration func \<Rightarrow> True | _ \<Rightarrow> False)
               [length pre..<length pre + length (s # todo)] = ?rest"
      unfolding u filter.simps hd f n by simp
    show ?thesis unfolding h using ih[of n] by (simp add: n)
  qed
qed

lemma forEachFunction_steady:
  assumes skip: "\<And>func. fst (edit func) = 0 \<Longrightarrow> snd (edit func) = func"
  shows "forEachFunction steadyCheck edit (functionPositions stmts) (n, stmts)
       = (n + sum_list (map (functionEditCount edit) stmts),
          map (editFunction (\<lambda>func. snd (edit func))) stmts)"
  using forEachFunction_statements[OF skip, where pre = "[]" and todo = stmts and n = n]
  by (simp add: functionPositions_def)

lemma fixAnyType_skip: "fst (fixAnyType decl) = 0 \<Longrightarrow> snd (fixAnyType decl) = decl"
  by (auto simp: fixAnyType_def Let_def split: option.splits if_splits)

lemma improveDeclaration_skip: "fst (improveDeclaration kind decl) = 0 \<Longrightarrow> snd (improveDeclaration kind decl) = decl"
  by (auto simp: improveDeclaration_def Let_def split: option.splits if_splits)

lemma addArrowReturnType_skip: "fst (onArrow addArrowReturnType decl) = 0 \<Longrightarrow> snd (onArrow addArrowReturnType decl) = decl"
  by (auto simp: onArrow_def addArrowReturnType_def Let_def split: option.splits if_splits)

lemma addFunctionReturnType_skip: "fst (addFunctionReturnType func) = 0 \<Longrightarrow> snd (addFunctionReturnType func) = func"
  by (auto simp: addFunctionReturnType_def Let_def split: option.splits if_splits)

lemma fixAnyTypes_steady:
  "fixAnyTypes steadyCheck stmts =
     (sum_list (map (editCount (\<lambda>kind. fixAnyType)) stmts),
      map (editDeclarations (\<lambda>kind decl. snd (fixAnyType decl))) stmts)"
  unfolding fixAnyTypes_def by (rule forEachDeclaration_steady) (rule fixAnyType_skip)

lemma improveTypeSpecificity_steady:
  "improveTypeSpecificity steadyCheck stmts =
     (sum_list (map (editCount improveDeclaration) stmts),
      map (editDeclarations (\<lambda>kind decl. snd (improveDeclaration kind decl))) stmts)"
  unfolding improveTypeSpecificity_def by (rule forEachDeclaration_steady) (rule improveDeclaration_skip)

lemma addReturnTypes_steady:
  "addReturnTypes steadyCheck stmts =
     (sum_list (map (editCount (\<lambda>kind. onArrow addArrowReturnType)) stmts)
        + sum_list (map (functionEditCount addFunctionReturnType) stmts),
      map (editFunction (\<lambda>func. snd (addFunctionReturnType func)))
        (map (editDeclarations (\<lambda>kind decl. snd (onArrow addArrowReturnType decl))) stmts))"
proof -
  have c: "functionEditCount edit (editDeclarations f s) = functionEditCount edit s"
    for edit f and s :: "'a statement"
    by (cases s) (simp_all add: functionEditCount_def editDeclarations_def)
  have a: "forEachDeclaration steadyCheck (\<lambda>kind. onArrow addArrowReturnType)
             (declarationPositions stmts) (0, stmts)
        = (sum_list (map (editCount (\<lambda>kind. onArrow addArrowReturnType)) stmts),
           map (editDeclarations (\<lambda>kind decl. snd (onArrow addArrowReturnType decl))) stmts)"
    by (rule forEachDeclaration_steady) (rule addArrowReturnType_skip)
  have f: "forEachFunction steadyCheck addFunctionReturnType (functionPositions tree) (n, tree)
        = (n + sum_list (map (functionEditCount addFunctionReturnType) tree),
           map (editFunction (\<lambda>func. snd (addFunctionReturnType func))) tree)"
    for n and tree :: "'a statement list"
    by (rule forEachFunction_steady) (rule addFunctionReturnType_skip)
  show ?thesis
    unfolding addReturnTypes_def Let_def a snd_conv f
    by (simp add: comp_def c)
qed

lemma improveDeclaration_const:
  assumes "declTypeNode d = Some ''string''" and "declInitializer d = Some i"
      and "initLiteralValue i = Some v"
  shows "improveDeclaration DeclConst d =
           (if declSetTypeThrows d then (0, d) else (1, d\<lparr>declTypeNode := Some (literalTypeText v)\<rparr>))"
  using assms by (simp add: improveDeclaration_def)

lemma mode_sharpened:
  "improveTypeSpecificity steadyCheck [VariableStatement DeclConst [modeDecl False] ''const mode: string = ...;'']
     = (1, [VariableStatement DeclConst
              [(modeDecl False)\<lparr>declTypeNode := Some [CHR 0x27, CHR ''d'', CHR ''a'', CHR ''r'', CHR ''k'', CHR 0x27]\<rparr>]
              ''const mode: string = ...;''])"
  by (simp add: analyzer_defs modeDecl_def)

text \<open>
  In a statement of two declarations the second one is sharpened although the first one
  rejects the edit, and a \<open>let\<close> declaration is left as it is.
\<close>

lemma mode_statements:
  "improveTypeSpecificity steadyCheck
     [VariableStatement DeclConst [modeDecl True, modeDecl False] ''const mode: string = ..., mode: string = ...;'',
      VariableStatement DeclLet [modeDecl False] ''let mode: string = ...;'']
     = (1, [VariableStatement DeclConst
              [modeDecl True,
               (modeDecl False)\<lparr>declTypeNode := Some [CHR 0x27, CHR ''d'', CHR ''a'', CHR ''r'', CHR ''k'', CHR 0x27]\<rparr>]
              ''const mode: string = ..., mode: string = ...;'',
            VariableStatement DeclLet [modeDecl False] ''let mode: string = ...;''])"
  by (simp add: analyzer_defs modeDecl_def)

text \<open>
  Claim C6 fails on the code for a value that holds a quote or a backslash.
  \<open>improveTypeSpecificity\<close> builds the annotation as the value between single quotes and
  escapes nothing. For \<open>const note: string = "it's"\<close> the text it builds is \<open>'it's'\<close>, which
  is no type: where ts-morph rejects the edit the declaration is skipped and keeps the type
  \<open>string\<close>, where it does not the text is written as it is. For
  \<open>const sep: string = "a\\b"\<close>, whose value is \<open>a\<close>, a backslash and \<open>b\<close>, the text is
  \<open>'a\b'\<close>: ts-morph accepts it, and it is the literal type of another string, \<open>a\<close> followed
  by a backspace. In neither case is the declared type the type of the literal value.
\<close>

theorem literal_annotation_unescaped:
  "map_option initLiteralValue (declInitializer (noteDecl True))
      = Some (Some [CHR ''i'', CHR ''t'', CHR 0x27, CHR ''s''])
   \<and> improveTypeSpecificity steadyCheck [VariableStatement DeclConst [noteDecl True] ''const note: string = ...;'']
       = (0, [VariableStatement DeclConst [noteDecl True] ''const note: string = ...;''])
   \<and> improveTypeSpecificity steadyCheck [VariableStatement DeclConst [noteDecl False] ''const note: string = ...;'']
       = (1, [VariableStatement DeclConst
                [(noteDecl False)\<lparr>declTypeNode := Some [CHR 0x27, CHR ''i'', CHR ''t'', CHR 0x27, CHR ''s'', CHR 0x27]\<rparr>]
                ''const note: string = ...;''])
   \<and> map_option initLiteralValue (declInitializer sepDecl) = Some (Some [CHR ''a'', CHR 0x5C, CHR ''b''])
   \<and> improveTypeSpecificity steadyCheck [VariableStatement DeclConst [sepDecl] ''const sep: string = ...;'']
       = (1, [VariableStatement DeclConst
                [sepDecl\<lparr>declTypeNode := Some [CHR 0x27, CHR ''a'', CHR 0x5C, CHR ''b'', CHR 0x27]\<rparr>]
                ''const sep: string = ...;''])"
  by (simp add: analyzer_defs noteDecl_def itsValue_def sepDecl_def sepValue_def)

lemmas process_defs =
  processFile_def ensureTypeExports_def includesText_def exportTypeStatement_def setIsExported_def

lemma types_path: "includesText ''/app/Panel.types.ts'' ''.types.ts''"
  unfolding includesText_def by code_simp

lemma utils_path: "\<not> includesText ''/app/Panel.utils.ts'' ''.types.ts''"
  unfolding includesText_def by code_simp

text \<open>
  The checker sees the project: once the analyzer has exported \<open>User\<close> and saved the types
  file, the function of the utilities file returns \<open>User\<close>, and that is the return type it
  is given.
\<close>

lemma import_run:
  "processAllFiles importEnv [''/app/Panel.types.ts'', ''/app/Panel.utils.ts''] importFiles
     = Inr [''/app/Panel.types.ts'' \<mapsto>
              [InterfaceDeclaration ((interfaceOf ''User'' 1 4)
                 \<lparr>typeIsExported := True, typeText := ''export interface User { }''\<rparr>)],
            ''/app/Panel.utils.ts'' \<mapsto> firstModule ''User'' (Some ''User'')]"
proof -
  have e: "typeCheck importEnv = importCheck" "\<not> saveFails importEnv path" for path
    by (simp_all add: importEnv_def analyzerEnv_def exampleEnv_def)
  have t: "processFile importEnv ''/app/Panel.types.ts'' importFiles
     = Inr (importFiles(''/app/Panel.types.ts'' \<mapsto>
              [InterfaceDeclaration ((interfaceOf ''User'' 1 4)
                 \<lparr>typeIsExported := True, typeText := ''export interface User { }''\<rparr>)]))"
    by (simp add: processFile_def e importFiles_def importCheck_def types_path ensureTypeExports_def
        getInterfaces_def getTypeAliases_def interfaceOf_def exportTypeStatement_def setIsExported_def
        analyzer_defs Let_def)
  have u: "processFile importEnv ''/app/Panel.utils.ts''
             (importFiles(''/app/Panel.types.ts'' \<mapsto>
                [InterfaceDeclaration ((interfaceOf ''User'' 1 4)
                   \<lparr>typeIsExported := True, typeText := ''export interface User { }''\<rparr>)]))
     = Inr [''/app/Panel.types.ts'' \<mapsto>
              [InterfaceDeclaration ((interfaceOf ''User'' 1 4)
                 \<lparr>typeIsExported := True, typeText := ''export interface User { }''\<rparr>)],
            ''/app/Panel.utils.ts'' \<mapsto> firstModule ''User'' (Some ''User'')]"
    by (simp add: processFile_def e importFiles_def importCheck_def utils_path ensureTypeExports_def
        getInterfaces_def interfaceOf_def firstModule_def firstArrow_def declOf_def editDeclarations_def
        analyzer_defs Let_def)
  show ?thesis by (simp add: t u)
qed

text \<open>
  Claim C7 fails on the code for visibility changes. \<open>ensureTypeExports\<close> calls
  \<open>setIsExported\<close> outside any \<open>try\<close>: when it raises on \<open>User\<close>, the interface \<open>FormData\<close> is
  not reached and the run ends before the utilities file is processed. The annotation
  passes do skip a failing item: in the utilities file the first function rejects its return
  type and the second one still receives it.
\<close>

theorem export_failure_aborts_pass:
  "getInterfaces typesModule
      = [(interfaceOf ''User'' 1 4)\<lparr>typeSetIsExportedThrows := True\<rparr>, interfaceOf ''FormData'' 6 9]
   \<and> ensureTypeExports steadyCheck ''/app/Panel.types.ts'' typesModule = Inl ManipulationError
   \<and> processAllFiles analyzerEnv [''/app/Panel.types.ts'', ''/app/Panel.utils.ts''] analyzerFiles
       = Inl (ManipulationError, analyzerFiles)
   \<and> addReturnTypes steadyCheck utilsModule = (1, utilsModuleAfter)
   \<and> processAllFiles analyzerEnv [''/app/Panel.utils.ts''] analyzerFiles
       = Inr (analyzerFiles(''/app/Panel.utils.ts'' \<mapsto> utilsModuleAfter))"
proof -
  have i: "getInterfaces typesModule
      = [(interfaceOf ''User'' 1 4)\<lparr>typeSetIsExportedThrows := True\<rparr>, interfaceOf ''FormData'' 6 9]"
    "getTypeAliases typesModule = []"
    by (simp_all add: typesModule_def getInterfaces_def getTypeAliases_def)
  have e: "ensureTypeExports steadyCheck ''/app/Panel.types.ts'' typesModule = Inl ManipulationError"
    by (simp add: ensureTypeExports_def types_path i Let_def interfaceOf_def)
  have a: "analyzerFiles ''/app/Panel.types.ts'' = Some typesModule"
    "analyzerFiles ''/app/Panel.utils.ts'' = Some utilsModule"
    by (simp_all add: analyzerFiles_def)
  have c: "typeCheck analyzerEnv files path = steadyCheck" "steadyCheck stmts = stmts"
    "\<not> saveFails analyzerEnv path" for files path and stmts :: "sourceStatement list"
    by (simp_all add: analyzerEnv_def exampleEnv_def steadyCheck_def)
  have p: "processAllFiles analyzerEnv [''/app/Panel.types.ts'', ''/app/Panel.utils.ts''] analyzerFiles
       = Inl (ManipulationError, analyzerFiles)"
    by (simp add: processFile_def a c e)
  have r: "addReturnTypes steadyCheck utilsModule = (1, utilsModuleAfter)"
    by (simp add: analyzer_defs utilsModule_def utilsModuleAfter_def loadDecl_def declOf_def
        stringArrow_def Let_def)
  have u: "ensureTypeExports steadyCheck ''/app/Panel.utils.ts'' utilsModule = Inr (0, utilsModule)"
    by (simp add: ensureTypeExports_def utils_path)
  have rest: "addParameterTypes steadyCheck utilsModuleAfter = (0, utilsModuleAfter)"
    "fixAnyTypes steadyCheck utilsModuleAfter = (0, utilsModuleAfter)"
    "improveTypeSpecificity steadyCheck utilsModuleAfter = (0, utilsModuleAfter)"
    by (simp_all add: analyzer_defs utilsModuleAfter_def loadDecl_def declOf_def stringArrow_def Let_def)
  have q: "processAllFiles analyzerEnv [''/app/Panel.utils.ts''] analyzerFiles
       = Inr (analyzerFiles(''/app/Panel.utils.ts'' \<mapsto> utilsModuleAfter))"
    by (simp add: processFile_def a c u r rest)
  from i e p r q show ?thesis by simp
qed

subsection \<open>Failures of persistence\<close>

lemma extractHelperFunctions_failure:
  "extractHelperFunctions env opts r = Inl (e, dd) \<Longrightarrow> diskSource dd = diskSource (disk r)"
  by (auto simp: extractHelperFunctions_def Let_def saveSync_def saveSourceFile_def
        split: option.splits sum.splits if_splits)

lemma extractHelperFunctions_saved:
  "extractHelperFunctions env opts r = Inr r' \<Longrightarrow>
     diskSource (disk r') = diskSource (disk r) \<or> \<not> saveFails env (targetFile opts)"
  by (auto simp: extractHelperFunctions_def Let_def saveSync_def saveSourceFile_def
        split: option.splits sum.splits if_splits)

lemma main2_failure_keeps_origin:
  assumes "main2 env opts d = Inl (e, dd)"
  shows "diskSource dd = diskSource d"
proof -
  let ?r = "newRefactorer env d"
  have d0: "disk ?r = d" by (simp add: newRefactorer_def)
  show ?thesis
  proof (cases "extractHelperFunctions env opts ?r")
    case (Inl f)
    with assms have "extractHelperFunctions env opts ?r = Inl (e, dd)" by (simp add: main2_def)
    from extractHelperFunctions_failure[OF this] d0 show ?thesis by simp
  next
    case (Inr r')
    with assms have "save env opts r' = Inl (e, dd)" by (simp add: main2_def)
    then have "saveFails env (targetFile opts)" "dd = disk r'"
      by (auto simp: save_def split: if_splits)
    with extractHelperFunctions_saved[OF Inr] d0 show ?thesis by simp
  qed
qed

lemma main2_utils_unwritable:
  assumes "helpersOfModule (helperNamePattern opts) (diskSource d) \<noteq> []"
      and "saveFails env (utilsFile opts)"
  shows "main2 env opts d = Inl (SaveFailed (utilsFile opts), d)"
  using assms
  by (auto simp: main2_def extractHelperFunctions_def helpersOfModule_def newRefactorer_def Let_def
        saveSync_def split: option.splits)

text \<open>
  Claim C4. When the types file or the utilities file has candidates and cannot be saved, the
  run of the top-level pass ends in that failure, and the persisted origin module is the one
  the run started from (for the types file, which is the first write, the whole disk is).
  More generally every failed run leaves the persisted origin module unchanged, and a run
  that does persist the origin module has saved every target file it had candidates for: the
  removals take durable effect only after the targets were saved. The nested pass behaves
  alike: when it has helpers and cannot save the utilities file it ends in that failure with
  the disk untouched, and every failed run of it leaves the persisted origin module
  unchanged.
\<close>

theorem persist_failure_is_fatal:
  "(typeCandidatesOf (analyzeFile opts (diskSource d)) \<noteq> [] \<and> saveFails env (typesFile opts)
      \<longrightarrow> (\<exists>e. main env opts d = Inl (e, d)))
   \<and> (utilCandidatesOf opts (analyzeFile opts (diskSource d)) \<noteq> [] \<and> saveFails env (utilsFile opts)
      \<longrightarrow> (\<exists>e dd. main env opts d = Inl (e, dd) \<and> diskSource dd = diskSource d))
   \<and> (\<forall>e dd. main env opts d = Inl (e, dd) \<longrightarrow> diskSource dd = diskSource d)
   \<and> (\<forall>d'. main env opts d = Inr d' \<longrightarrow>
         (typeCandidatesOf (analyzeFile opts (diskSource d)) \<noteq> [] \<longrightarrow> \<not> saveFails env (typesFile opts))
         \<and> (utilCandidatesOf opts (analyzeFile opts (diskSource d)) \<noteq> [] \<longrightarrow> \<not> saveFails env (utilsFile opts)))
   \<and> (helpersOfModule (helperNamePattern opts2) (diskSource d2) \<noteq> [] \<and> saveFails env2 (utilsFile opts2)
      \<longrightarrow> main2 env2 opts2 d2 = Inl (SaveFailed (utilsFile opts2), d2))
   \<and> (\<forall>e dd. main2 env2 opts2 d2 = Inl (e, dd) \<longrightarrow> diskSource dd = diskSource d2)"
  using main_types_unwritable[of opts d env] main_utils_unwritable[of opts d env]
    main_failure_keeps_origin[of env opts d] main_success_saved[of env opts d]
    main2_utils_unwritable[of opts2 d2 env2] main2_failure_keeps_origin[of env2 opts2 d2]
  by blast

theorem persist_failure_is_fatal_witness:
  "typeCandidatesOf (analyzeFile exampleOptions (diskSource panelDisk)) \<noteq> []
   \<and> saveFails typesUnwritableEnv (typesFile exampleOptions)
   \<and> (\<exists>e. main typesUnwritableEnv exampleOptions panelDisk = Inl (e, panelDisk))
   \<and> utilCandidatesOf exampleOptions (analyzeFile exampleOptions (diskSource panelDisk)) \<noteq> []
   \<and> saveFails utilsUnwritableEnv (utilsFile exampleOptions)
   \<and> (\<exists>e dd. main utilsUnwritableEnv exampleOptions panelDisk = Inl (e, dd)
               \<and> diskSource dd = diskSource panelDisk)
   \<and> helpersOfModule (helperNamePattern dashboardOptions) (diskSource dashboardDisk) \<noteq> []
   \<and> saveFails dashboardUnwritableEnv (utilsFile dashboardOptions)
   \<and> main2 dashboardUnwritableEnv dashboardOptions dashboardDisk
        = Inl (SaveFailed (utilsFile dashboardOptions), dashboardDisk)"
proof -
  have t: "saveFails typesUnwritableEnv (typesFile exampleOptions)"
    by (simp add: typesUnwritableEnv_def exampleOptions_def)
  have u: "saveFails utilsUnwritableEnv (utilsFile exampleOptions)"
    by (simp add: utilsUnwritableEnv_def exampleOptions_def)
  have v: "saveFails dashboardUnwritableEnv (utilsFile dashboardOptions)"
    by (simp add: dashboardUnwritableEnv_def dashboardOptions_def)
  have h: "helpersOfModule (helperNamePattern dashboardOptions) (diskSource dashboardDisk) \<noteq> []"
    by (simp add: pass2_defs dashboard_defs tree_defs text_defs example_defs Let_def)
  note c = persist_failure_is_fatal[of exampleOptions panelDisk typesUnwritableEnv
      dashboardOptions dashboardDisk dashboardUnwritableEnv]
  from c panel_type_candidates t
  have 1: "\<exists>e. main typesUnwritableEnv exampleOptions panelDisk = Inl (e, panelDisk)"
    by blast
  from persist_failure_is_fatal[of exampleOptions panelDisk utilsUnwritableEnv]
    panel_util_candidates u
  have 2: "\<exists>e dd. main utilsUnwritableEnv exampleOptions panelDisk = Inl (e, dd)
               \<and> diskSource dd = diskSource panelDisk"
    by blast
  from c h v
  have 3: "main2 dashboardUnwritableEnv dashboardOptions dashboardDisk
        = Inl (SaveFailed (utilsFile dashboardOptions), dashboardDisk)"
    by blast
  from panel_type_candidates panel_util_candidates t u v h 1 2 3 show ?thesis by blast
qed

end
